theory Spec2Isabelle
  imports Complex_Main "HOL-Library.Product_Lexorder" "HOL-Library.Monad_Syntax"
begin

section \<open>The DuMM molecular-mechanics force field subsystem\<close>

text \<open>
  A shallow embedding of \<^verbatim>\<open>src/DuMMForceFieldSubsystem.cpp\<close>. The C++ type
  \<^verbatim>\<open>Real\<close> is read as the mathematical reals; where the source can produce a value that
  is not a number (a field set to NaN, a quotient with a zero denominator) the model uses
  \<open>real option\<close> with \<open>None\<close> for "not a finite number". Identifiers are
  \<^verbatim>\<open>int\<close> in the source and \<open>int\<close> here; a vector is a list and
  \<^verbatim>\<open>v[i]\<close> is \<open>v ! nat i\<close>. A failed \<^verbatim>\<open>assert\<close> and a thrown
  \<^verbatim>\<open>SimTK_APIARGCHECK\<close> are values of the type \<open>error\<close>.
\<close>

subsection \<open>Vectors\<close>

type_synonym Vec3 = "real \<times> real \<times> real"

fun vadd :: "Vec3 \<Rightarrow> Vec3 \<Rightarrow> Vec3" where
  "vadd (a1, a2, a3) (b1, b2, b3) = (a1 + b1, a2 + b2, a3 + b3)"

fun vsub :: "Vec3 \<Rightarrow> Vec3 \<Rightarrow> Vec3" where
  "vsub (a1, a2, a3) (b1, b2, b3) = (a1 - b1, a2 - b2, a3 - b3)"

fun vneg :: "Vec3 \<Rightarrow> Vec3" where
  "vneg (a1, a2, a3) = (- a1, - a2, - a3)"

fun smul :: "real \<Rightarrow> Vec3 \<Rightarrow> Vec3" where
  "smul c (a1, a2, a3) = (c * a1, c * a2, c * a3)"

text \<open>\<^verbatim>\<open>~a*b\<close>, the dot product, and \<^verbatim>\<open>a % b\<close>, the cross product.\<close>

fun dot :: "Vec3 \<Rightarrow> Vec3 \<Rightarrow> real" where
  "dot (a1, a2, a3) (b1, b2, b3) = a1 * b1 + a2 * b2 + a3 * b3"

fun cross :: "Vec3 \<Rightarrow> Vec3 \<Rightarrow> Vec3" where
  "cross (a1, a2, a3) (b1, b2, b3) =
     (a2 * b3 - a3 * b2, a3 * b1 - a1 * b3, a1 * b2 - a2 * b1)"

definition normSqr :: "Vec3 \<Rightarrow> real" where
  "normSqr v = dot v v"

definition norm3 :: "Vec3 \<Rightarrow> real" where
  "norm3 v = sqrt (normSqr v)"

definition Vec3_zero :: Vec3 where
  "Vec3_zero = (0, 0, 0)"

subsection \<open>Constants\<close>

definition RadiansPerDegree :: real where
  "RadiansPerDegree = pi / 180"

definition EnergyUnitsPerKcal :: real where
  "EnergyUnitsPerKcal = 418.4"

definition CoulombFac :: real where
  "CoulombFac = 332.06371 * EnergyUnitsPerKcal"

subsection \<open>Keys of the parameter catalog\<close>

type_synonym IntPair = "int \<times> int"
type_synonym IntTriple = "int \<times> int \<times> int"
type_synonym IntQuad = "int \<times> int \<times> int \<times> int"

text \<open>
  \<^verbatim>\<open>operator<\<close> of the three classes is the lexicographic order, which is the order
  of nested pairs of \<open>Product_Lexorder\<close>.
\<close>

fun IntPair_canonicalize :: "IntPair \<Rightarrow> IntPair" where
  "IntPair_canonicalize (i0, i1) = (if i0 > i1 then (i1, i0) else (i0, i1))"

fun IntTriple_canonicalize :: "IntTriple \<Rightarrow> IntTriple" where
  "IntTriple_canonicalize (i0, i1, i2) = (if i0 > i2 then (i2, i1, i0) else (i0, i1, i2))"

fun IntQuad_canonicalize :: "IntQuad \<Rightarrow> IntQuad" where
  "IntQuad_canonicalize (i0, i1, i2, i3) =
     (if i0 > i3 then (i3, i2, i1, i0) else (i0, i1, i2, i3))"

text \<open>The constructors with their \<^verbatim>\<open>canon\<close> flag.\<close>

definition IntPair :: "int \<Rightarrow> int \<Rightarrow> bool \<Rightarrow> IntPair" where
  "IntPair i1 i2 canon = (if canon then IntPair_canonicalize (i1, i2) else (i1, i2))"

definition IntTriple :: "int \<Rightarrow> int \<Rightarrow> int \<Rightarrow> bool \<Rightarrow> IntTriple" where
  "IntTriple i1 i2 i3 canon =
     (if canon then IntTriple_canonicalize (i1, i2, i3) else (i1, i2, i3))"

definition IntQuad :: "int \<Rightarrow> int \<Rightarrow> int \<Rightarrow> int \<Rightarrow> bool \<Rightarrow> IntQuad" where
  "IntQuad i1 i2 i3 i4 canon =
     (if canon then IntQuad_canonicalize (i1, i2, i3, i4) else (i1, i2, i3, i4))"

subsection \<open>Force field parameters\<close>

record BondStretch =
  stretch_k :: real
  stretch_d0 :: real

record BondBend =
  bend_k :: real
  bend_theta0 :: real

record TorsionTerm =
  periodicity :: int
  amplitude :: real
  theta0 :: real

record BondTorsion =
  terms :: "TorsionTerm list"

text \<open>The converting constructors.\<close>

definition mkBondStretch :: "real \<Rightarrow> real \<Rightarrow> BondStretch" where
  "mkBondStretch stiffnessKcalPerASq len =
     \<lparr>stretch_k = stiffnessKcalPerASq * EnergyUnitsPerKcal, stretch_d0 = len\<rparr>"

definition mkBondBend :: "real \<Rightarrow> real \<Rightarrow> BondBend" where
  "mkBondBend stiffnessKcalPerRadSq angleDeg =
     \<lparr>bend_k = stiffnessKcalPerRadSq * EnergyUnitsPerKcal,
      bend_theta0 = angleDeg * RadiansPerDegree\<rparr>"

definition mkTorsionTerm :: "int \<Rightarrow> real \<Rightarrow> real \<Rightarrow> TorsionTerm" where
  "mkTorsionTerm n amp th0 =
     \<lparr>periodicity = n, amplitude = amp * EnergyUnitsPerKcal, theta0 = th0 * RadiansPerDegree\<rparr>"

definition TorsionTerm_isValid :: "TorsionTerm \<Rightarrow> bool" where
  "TorsionTerm_isValid tt \<longleftrightarrow>
     periodicity tt > 0 \<and> amplitude tt \<ge> 0 \<and> - pi < theta0 tt \<and> theta0 tt \<le> pi"

definition hasTerm :: "BondTorsion \<Rightarrow> int \<Rightarrow> bool" where
  "hasTerm bt n = list_ex (\<lambda>t. periodicity t = n) (terms bt)"

definition addTerm :: "BondTorsion \<Rightarrow> TorsionTerm \<Rightarrow> BondTorsion" where
  "addTerm bt tt = bt\<lparr>terms := terms bt @ [tt]\<rparr>"

record AtomClass =
  atomClassId :: int
  className :: string
  element :: int
  valence :: int
  vdwRadius :: real
  vdwWellDepth :: real
  vdwDij :: "real option list"
  vdwEij :: "real option list"

definition AtomClass_isValid :: "AtomClass \<Rightarrow> bool" where
  "AtomClass_isValid c \<longleftrightarrow>
     atomClassId c \<ge> 0 \<and> element c > 0 \<and> valence c \<ge> 0 \<and> vdwRadius c \<ge> 0
       \<and> vdwWellDepth c \<ge> 0"

record ChargedAtomType =
  typeId :: int
  typeName :: string
  atomClass :: int
  partialCharge :: real

definition ChargedAtomType_isValid :: "ChargedAtomType \<Rightarrow> bool" where
  "ChargedAtomType_isValid t \<longleftrightarrow> typeId t \<ge> 0 \<and> atomClass t \<ge> 0"

subsection \<open>Molecule, clusters and bodies\<close>

record AtomPlacement =
  placedAtomId :: int
  station :: Vec3

text \<open>
  \<^verbatim>\<open>station_B\<close> is \<open>None\<close> after \<^verbatim>\<open>setToNaN()\<close>. The chains of
  \<^verbatim>\<open>bond13\<close>, \<^verbatim>\<open>bond14\<close> and \<^verbatim>\<open>bond15\<close> leave the atom itself out.
\<close>

record Atom =
  atomId :: int
  chargedAtomTypeId :: int
  bond12 :: "int list"
  bodyId :: int
  station_B :: "Vec3 option"
  bond13 :: "IntPair list"
  bond14 :: "IntTriple list"
  bond15 :: "IntQuad list"
  xbond12 :: "int list"
  xbond13 :: "IntPair list"
  xbond14 :: "IntTriple list"
  xbond15 :: "IntQuad list"
  stretch :: "BondStretch list"
  bend :: "BondBend list"
  torsion :: "BondTorsion list"

definition Atom_isValid :: "Atom \<Rightarrow> bool" where
  "Atom_isValid a \<longleftrightarrow> atomId a \<ge> 0 \<and> chargedAtomTypeId a \<ge> 0"

definition isBondedTo :: "Atom \<Rightarrow> int \<Rightarrow> bool" where
  "isBondedTo a anum = list_ex (\<lambda>b. b = anum) (bond12 a)"

text \<open>\<^verbatim>\<open>Bond\<close> holds one \<^verbatim>\<open>IntPair\<close>.\<close>

type_synonym Bond = IntPair

definition IntPair_isValid :: "IntPair \<Rightarrow> bool" where
  "IntPair_isValid p \<longleftrightarrow> fst p \<ge> 0 \<and> snd p \<ge> 0"

text \<open>
  Of a cluster the model keeps what realization and the id allocation read: the placements
  of all its atoms (a \<^verbatim>\<open>std::set\<close> ordered by atom id, here the list in that order),
  its body and its cache flag.
\<close>

record Cluster =
  clusterId :: int
  clusterName :: string
  allAtomPlacements :: "AtomPlacement list"
  cluster_bodyId :: int
  cluster_cacheValid :: bool

definition mkCluster :: "string \<Rightarrow> Cluster" where
  "mkCluster nm =
     \<lparr>clusterId = - 1, clusterName = nm, allAtomPlacements = [], cluster_bodyId = - 1,
      cluster_cacheValid = False\<rparr>"

definition Cluster_isValid :: "Cluster \<Rightarrow> bool" where
  "Cluster_isValid c \<longleftrightarrow> clusterId c \<ge> 0"

record Body =
  body_clusterId :: int
  allAtoms :: "AtomPlacement list"

definition Body_isValid :: "Body \<Rightarrow> bool" where
  "Body_isValid b \<longleftrightarrow> body_clusterId b \<ge> 0"

subsection \<open>The subsystem\<close>

record DuMMForceFieldSubsystemRep =
  atoms :: "Atom list"
  bonds :: "Bond list"
  clusters :: "Cluster list"
  bodies :: "Body list"
  atomClasses :: "AtomClass list"
  chargedAtomTypes :: "ChargedAtomType list"
  bondStretch :: "IntPair \<rightharpoonup> BondStretch"
  bondBend :: "IntTriple \<rightharpoonup> BondBend"
  bondTorsion :: "IntQuad \<rightharpoonup> BondTorsion"
  vdwScale12 :: real
  coulombScale12 :: real
  vdwScale13 :: real
  coulombScale13 :: real
  vdwScale14 :: real
  coulombScale14 :: real
  vdwScale15 :: real
  coulombScale15 :: real
  topologicalCacheValid :: bool

datatype error = AssertionFailed | ApiArgCheckFailed

definition inRange :: "int \<Rightarrow> 'a list \<Rightarrow> bool" where
  "inRange i xs \<longleftrightarrow> 0 \<le> i \<and> i < int (length xs)"

definition isValidAtom :: "DuMMForceFieldSubsystemRep \<Rightarrow> int \<Rightarrow> bool" where
  "isValidAtom mm atomNum \<longleftrightarrow>
     inRange atomNum (atoms mm) \<and> Atom_isValid (atoms mm ! nat atomNum)"

definition isValidCluster :: "DuMMForceFieldSubsystemRep \<Rightarrow> int \<Rightarrow> bool" where
  "isValidCluster mm cnum \<longleftrightarrow>
     inRange cnum (clusters mm) \<and> Cluster_isValid (clusters mm ! nat cnum)"

definition isValidAtomClass :: "DuMMForceFieldSubsystemRep \<Rightarrow> int \<Rightarrow> bool" where
  "isValidAtomClass mm classNum \<longleftrightarrow>
     inRange classNum (atomClasses mm) \<and> AtomClass_isValid (atomClasses mm ! nat classNum)"

definition isValidChargedAtomType :: "DuMMForceFieldSubsystemRep \<Rightarrow> int \<Rightarrow> bool" where
  "isValidChargedAtomType mm typeNum \<longleftrightarrow>
     inRange typeNum (chargedAtomTypes mm)
       \<and> ChargedAtomType_isValid (chargedAtomTypes mm ! nat typeNum)"

subsection \<open>Catalog lookups\<close>

text \<open>
  Each lookup asserts that the key is in the map; \<open>None\<close> is the failed assertion.
\<close>

definition getBondStretch :: "DuMMForceFieldSubsystemRep \<Rightarrow> int \<Rightarrow> int \<Rightarrow> BondStretch option" where
  "getBondStretch mm class1 class2 = bondStretch mm (IntPair class1 class2 True)"

definition getBondBend ::
  "DuMMForceFieldSubsystemRep \<Rightarrow> int \<Rightarrow> int \<Rightarrow> int \<Rightarrow> BondBend option" where
  "getBondBend mm class1 class2 class3 = bondBend mm (IntTriple class1 class2 class3 True)"

definition getBondTorsion ::
  "DuMMForceFieldSubsystemRep \<Rightarrow> int \<Rightarrow> int \<Rightarrow> int \<Rightarrow> int \<Rightarrow> BondTorsion option" where
  "getBondTorsion mm class1 class2 class3 class4 =
     bondTorsion mm (IntQuad class1 class2 class3 class4 True)"

subsection \<open>Construction of the subsystem and cluster ids\<close>

definition addCluster ::
  "DuMMForceFieldSubsystemRep \<Rightarrow> Cluster \<Rightarrow> int \<times> DuMMForceFieldSubsystemRep" where
  "addCluster mm c =
     (let cid = int (length (clusters mm))
      in (cid, mm\<lparr>clusters := clusters mm @ [c\<lparr>clusterId := cid\<rparr>]\<rparr>))"

text \<open>
  The state before the constructor's body runs: empty vectors and maps. The element table
  that \<^verbatim>\<open>loadElements\<close> fills is not part of the model; the scale factors are
  assigned in the body.
\<close>

definition blankRep :: DuMMForceFieldSubsystemRep where
  "blankRep =
     \<lparr>atoms = [], bonds = [], clusters = [], bodies = [], atomClasses = [],
      chargedAtomTypes = [], bondStretch = Map.empty, bondBend = Map.empty,
      bondTorsion = Map.empty,
      vdwScale12 = 0, coulombScale12 = 0, vdwScale13 = 0, coulombScale13 = 0,
      vdwScale14 = 0, coulombScale14 = 0, vdwScale15 = 0, coulombScale15 = 0,
      topologicalCacheValid = False\<rparr>"

definition newDuMMForceFieldSubsystemRep :: "error + DuMMForceFieldSubsystemRep" where
  "newDuMMForceFieldSubsystemRep =
     (let mm0 = blankRep
            \<lparr>topologicalCacheValid := False,
             vdwScale12 := 0, coulombScale12 := 0, vdwScale13 := 0, coulombScale13 := 0,
             vdwScale14 := 1, coulombScale14 := 1, vdwScale15 := 1, coulombScale15 := 1\<rparr>;
          (gid, mm1) = addCluster mm0 (mkCluster ''free atoms and groups'')
      in if gid = 0 then Inr mm1 else Inl AssertionFailed)"

definition createCluster ::
  "DuMMForceFieldSubsystemRep \<Rightarrow> string \<Rightarrow> int \<times> DuMMForceFieldSubsystemRep" where
  "createCluster mm groupName = addCluster mm (mkCluster groupName)"

text \<open>\<^verbatim>\<open>sprintf(buf, "Body %d", bnum)\<close> for a body number that is not negative.\<close>

fun decimal :: "nat \<Rightarrow> string" where
  "decimal n =
     (if n < 10 then [char_of (48 + n)] else decimal (n div 10) @ [char_of (48 + n mod 10)])"

declare decimal.simps [simp del]

definition createClusterNameForBody :: "int \<Rightarrow> string" where
  "createClusterNameForBody bnum = ''Body '' @ decimal (nat bnum)"

definition mkBody :: Body where
  "mkBody = \<lparr>body_clusterId = - 1, allAtoms = []\<rparr>"

text \<open>
  \<^verbatim>\<open>ensureBodyEntryExists\<close>, the other caller of \<^verbatim>\<open>addCluster\<close>. The new cluster has
  no atoms and no children, so \<^verbatim>\<open>attachToBody\<close> only checks that it is unattached and
  stamps the body on it. The source indexes \<^verbatim>\<open>bodies[bodyNum]\<close> unchecked; the model
  is for \<open>0 \<le> bodyNum\<close>.
\<close>

definition ensureBodyEntryExists ::
  "DuMMForceFieldSubsystemRep \<Rightarrow> int \<Rightarrow> error + DuMMForceFieldSubsystemRep" where
  "ensureBodyEntryExists mm bodyNum =
     (let mm1 = (if bodyNum \<ge> int (length (bodies mm))
                 then mm\<lparr>bodies := bodies mm
                        @ replicate (nat (bodyNum + 1) - length (bodies mm)) mkBody\<rparr>
                 else mm)
      in if \<not> Body_isValid (bodies mm1 ! nat bodyNum)
         then (let (cid, mm2) = addCluster mm1 (mkCluster (createClusterNameForBody bodyNum));
                   c = clusters mm2 ! nat cid
               in if cluster_bodyId c \<ge> 0 then Inl AssertionFailed
                  else Inr (mm2\<lparr>clusters := (clusters mm2)[nat cid := c\<lparr>cluster_bodyId := bodyNum\<rparr>],
                                bodies := (bodies mm2)
                                  [nat bodyNum := \<lparr>body_clusterId = cid, allAtoms = []\<rparr>]\<rparr>))
         else Inr mm1)"

text \<open>
  The states of a subsystem as far as its clusters go: the constructor's, and from there
  any \<^verbatim>\<open>createCluster\<close>, any \<^verbatim>\<open>ensureBodyEntryExists\<close> (run by the two
  \<^verbatim>\<open>attach...ToBody\<close> calls), and any change of an existing cluster that keeps its id and
  name (placing atoms and clusters, attaching to a body, realization). No method of the
  source removes a cluster or assigns \<^verbatim>\<open>clusterId\<close> but \<^verbatim>\<open>addCluster\<close>.
\<close>

inductive reachable :: "DuMMForceFieldSubsystemRep \<Rightarrow> bool" where
  constructed: "newDuMMForceFieldSubsystemRep = Inr mm \<Longrightarrow> reachable mm"
| created: "reachable mm \<Longrightarrow> createCluster mm nm = (cid, mm') \<Longrightarrow> reachable mm'"
| ensured: "reachable mm \<Longrightarrow> 0 \<le> bodyNum \<Longrightarrow> ensureBodyEntryExists mm bodyNum = Inr mm'
     \<Longrightarrow> reachable mm'"
| updated: "reachable mm \<Longrightarrow> i < length (clusters mm)
     \<Longrightarrow> clusterId c = clusterId (clusters mm ! i)
     \<Longrightarrow> clusterName c = clusterName (clusters mm ! i)
     \<Longrightarrow> clusters mm' = (clusters mm)[i := c] \<Longrightarrow> reachable mm'"

subsection \<open>Atoms and bonds\<close>

definition mkAtom :: "int \<Rightarrow> int \<Rightarrow> Atom" where
  "mkAtom t aId =
     \<lparr>atomId = aId, chargedAtomTypeId = t, bond12 = [], bodyId = - 1, station_B = None,
      bond13 = [], bond14 = [], bond15 = [], xbond12 = [], xbond13 = [], xbond14 = [],
      xbond15 = [], stretch = [], bend = [], torsion = []\<rparr>"

definition addAtom ::
  "DuMMForceFieldSubsystemRep \<Rightarrow> int \<Rightarrow> error + (int \<times> DuMMForceFieldSubsystemRep)" where
  "addAtom mm chargedAtomTypeId' =
     (if \<not> isValidChargedAtomType mm chargedAtomTypeId' then Inl AssertionFailed
      else let aId = int (length (atoms mm))
           in Inr (aId, mm\<lparr>atoms := atoms mm @ [mkAtom chargedAtomTypeId' aId]\<rparr>))"

text \<open>The search loop of \<^verbatim>\<open>addBond\<close>: the first index from \<open>i\<close> on that holds the bond.\<close>

fun findBond :: "Bond list \<Rightarrow> int \<Rightarrow> int \<Rightarrow> int \<Rightarrow> int option" where
  "findBond [] i atom1 atom2 = None"
| "findBond (b # bs) i atom1 atom2 =
     (if fst b = atom1 \<and> snd b = atom2 then Some i else findBond bs (i + 1) atom1 atom2)"

definition addBond ::
  "DuMMForceFieldSubsystemRep \<Rightarrow> int \<Rightarrow> int \<Rightarrow> error + (int \<times> DuMMForceFieldSubsystemRep)" where
  "addBond mm atom1' atom2' =
     (if \<not> (isValidAtom mm atom1' \<and> isValidAtom mm atom2') then Inl AssertionFailed
      else if \<not> atom1' \<noteq> atom2' then Inl AssertionFailed
      else
        let atom1 = (if atom1' > atom2' then atom2' else atom1');
            atom2 = (if atom1' > atom2' then atom1' else atom2');
            a1 = atoms mm ! nat atom1;
            a2 = atoms mm ! nat atom2
        in if isBondedTo a1 atom2
           then (if \<not> isBondedTo a2 atom1 then Inl AssertionFailed
                 else case findBond (bonds mm) 0 atom1 atom2 of
                        Some i \<Rightarrow> Inr (i, mm)
                      | None \<Rightarrow> Inl AssertionFailed)
           else if \<not> IntPair_isValid (atom1, atom2) then Inl AssertionFailed
           else Inr (int (length (bonds mm) + 1) - 1,
                     mm\<lparr>bonds := bonds mm @ [(atom1, atom2)],
                        atoms := (atoms mm)
                          [nat atom1 := a1\<lparr>bond12 := bond12 a1 @ [atom2]\<rparr>,
                           nat atom2 := a2\<lparr>bond12 := bond12 a2 @ [atom1]\<rparr>]\<rparr>))"

subsection \<open>Defining a bond torsion\<close>

text \<open>
  One of the three blocks of \<^verbatim>\<open>defineBondTorsion\<close>: the four argument checks of a
  supplied term, then \<^verbatim>\<open>bt.addTerm(TorsionTerm(...))\<close> with the assertions of
  \<^verbatim>\<open>addTerm\<close> and of the constructor. \<open>others\<close> is the block's comparison with the
  periodicities that follow it.
\<close>

definition torsionBlock ::
  "BondTorsion \<Rightarrow> int \<Rightarrow> real \<Rightarrow> real \<Rightarrow> bool \<Rightarrow> error + BondTorsion" where
  "torsionBlock bt p ampInKcal phaseInDegrees others =
     (if \<not> (1 \<le> p \<and> p \<le> 6) then Inl ApiArgCheckFailed
      else if \<not> ampInKcal \<ge> 0 then Inl ApiArgCheckFailed
      else if \<not> (0 \<le> phaseInDegrees \<and> phaseInDegrees \<le> 180) then Inl ApiArgCheckFailed
      else if \<not> others then Inl ApiArgCheckFailed
      else if \<not> TorsionTerm_isValid (mkTorsionTerm p ampInKcal phaseInDegrees)
        then Inl AssertionFailed
      else if hasTerm bt p then Inl AssertionFailed
      else Inr (addTerm bt (mkTorsionTerm p ampInKcal phaseInDegrees)))"

text \<open>
  The result is the exception thrown, if any, and the subsystem as the call leaves it.
  \<^verbatim>\<open>std::map::insert\<close> leaves the map alone when the key is present.
\<close>

definition defineBondTorsion ::
  "DuMMForceFieldSubsystemRep \<Rightarrow> int \<Rightarrow> int \<Rightarrow> int \<Rightarrow> int
     \<Rightarrow> int \<Rightarrow> real \<Rightarrow> real \<Rightarrow> int \<Rightarrow> real \<Rightarrow> real \<Rightarrow> int \<Rightarrow> real \<Rightarrow> real
     \<Rightarrow> error option \<times> DuMMForceFieldSubsystemRep" where
  "defineBondTorsion mm class1 class2 class3 class4
       periodicity1 amp1InKcal phase1InDegrees
       periodicity2 amp2InKcal phase2InDegrees
       periodicity3 amp3InKcal phase3InDegrees =
     (if \<not> isValidAtomClass mm class1 then (Some ApiArgCheckFailed, mm)
      else if \<not> isValidAtomClass mm class2 then (Some ApiArgCheckFailed, mm)
      else if \<not> isValidAtomClass mm class3 then (Some ApiArgCheckFailed, mm)
      else if \<not> isValidAtomClass mm class4 then (Some ApiArgCheckFailed, mm)
      else
        let key = IntQuad class1 class2 class3 class4 True;
            bt0 = \<lparr>terms = []\<rparr>
        in case (if periodicity1 \<noteq> - 1
                 then torsionBlock bt0 periodicity1 amp1InKcal phase1InDegrees
                        (periodicity2 \<noteq> periodicity1 \<and> periodicity3 \<noteq> periodicity1)
                 else Inr bt0) of
             Inl e \<Rightarrow> (Some e, mm)
           | Inr bt1 \<Rightarrow>
         (case (if periodicity2 \<noteq> - 1
                then torsionBlock bt1 periodicity2 amp2InKcal phase2InDegrees
                       (periodicity3 \<noteq> periodicity2)
                else Inr bt1) of
             Inl e \<Rightarrow> (Some e, mm)
           | Inr bt2 \<Rightarrow>
         (case (if periodicity3 \<noteq> - 1
                then torsionBlock bt2 periodicity3 amp3InKcal phase3InDegrees True
                else Inr bt2) of
             Inl e \<Rightarrow> (Some e, mm)
           | Inr bt3 \<Rightarrow>
         (let gotOne = (periodicity1 \<noteq> - 1 \<or> periodicity2 \<noteq> - 1 \<or> periodicity3 \<noteq> - 1)
          in if \<not> gotOne then (Some ApiArgCheckFailed, mm)
             else (case bondTorsion mm key of
                     Some old \<Rightarrow> (Some ApiArgCheckFailed, mm)
                   | None \<Rightarrow> (None, mm\<lparr>bondTorsion := (bondTorsion mm)(key \<mapsto> bt3)\<rparr>))))))"

subsection \<open>Arithmetic that can leave the reals\<close>

text \<open>
  The mixing rules divide and take roots of their inputs. \<open>Real\<close> is a real number or
  \<open>None\<close>, which stands for a value that is not a finite number: a quotient by zero,
  the root of a negative number, or anything computed from such a value. (IEEE arithmetic
  gives a quotient of a non-zero number by zero as an infinity, and can bring an infinity
  back to a finite number; the model does not follow that and keeps \<open>None\<close>.) The
  numbers of the model are exact: it does not round, underflow or overflow as the doubles
  of the source do, and it agrees with them where no operation of the source rounds. That
  is so at every input at which this theory evaluates a combining rule: the radii and well
  depths 0 and 1, where each operation is exact on doubles or is \<^verbatim>\<open>0/0\<close>.
\<close>

type_synonym Real = "real option"

definition Real_add :: "Real \<Rightarrow> Real \<Rightarrow> Real" where
  "Real_add a b = (case (a, b) of (Some x, Some y) \<Rightarrow> Some (x + y) | _ \<Rightarrow> None)"

definition Real_mul :: "Real \<Rightarrow> Real \<Rightarrow> Real" where
  "Real_mul a b = (case (a, b) of (Some x, Some y) \<Rightarrow> Some (x * y) | _ \<Rightarrow> None)"

definition Real_div :: "Real \<Rightarrow> Real \<Rightarrow> Real" where
  "Real_div a b =
     (case (a, b) of (Some x, Some y) \<Rightarrow> (if y = 0 then None else Some (x / y)) | _ \<Rightarrow> None)"

definition Real_sqrt :: "Real \<Rightarrow> Real" where
  "Real_sqrt a = (case a of Some x \<Rightarrow> (if x < 0 then None else Some (sqrt x)) | None \<Rightarrow> None)"

text \<open>\<^verbatim>\<open>std::pow\<close> with a positive fractional exponent, and with a whole exponent.\<close>

definition Real_pow :: "Real \<Rightarrow> real \<Rightarrow> Real" where
  "Real_pow a y = (case a of Some x \<Rightarrow> (if x < 0 then None else Some (x powr y)) | None \<Rightarrow> None)"

definition Real_powi :: "Real \<Rightarrow> nat \<Rightarrow> Real" where
  "Real_powi a n = (case a of Some x \<Rightarrow> Some (x ^ n) | None \<Rightarrow> None)"

subsection \<open>Van der Waals combining rules\<close>

definition arithmeticMean :: "Real \<Rightarrow> Real \<Rightarrow> Real" where
  "arithmeticMean a b = Real_mul (Some 0.5) (Real_add a b)"

definition geometricMean :: "Real \<Rightarrow> Real \<Rightarrow> Real" where
  "geometricMean a b = Real_sqrt (Real_mul a b)"

definition harmonicMean :: "Real \<Rightarrow> Real \<Rightarrow> Real" where
  "harmonicMean a b = Real_div (Real_mul (Real_mul (Some 2) a) b) (Real_add a b)"

definition cubicMean :: "Real \<Rightarrow> Real \<Rightarrow> Real" where
  "cubicMean a b =
     Real_div (Real_add (Real_mul (Real_mul a a) a) (Real_mul (Real_mul b b) b))
              (Real_add (Real_mul a a) (Real_mul b b))"

definition hhgMean :: "Real \<Rightarrow> Real \<Rightarrow> Real" where
  "hhgMean a b = harmonicMean (harmonicMean a b) (geometricMean a b)"

text \<open>Each rule returns the pair \<open>(r, e)\<close> of its two reference parameters.\<close>

definition vdwCombineLorentzBerthelot :: "Real \<Rightarrow> Real \<Rightarrow> Real \<Rightarrow> Real \<Rightarrow> Real \<times> Real" where
  "vdwCombineLorentzBerthelot ri rj ei ej = (arithmeticMean ri rj, geometricMean ei ej)"

definition vdwCombineJorgensen :: "Real \<Rightarrow> Real \<Rightarrow> Real \<Rightarrow> Real \<Rightarrow> Real \<times> Real" where
  "vdwCombineJorgensen ri rj ei ej = (geometricMean ri rj, geometricMean ei ej)"

definition vdwCombineHalgrenHHG :: "Real \<Rightarrow> Real \<Rightarrow> Real \<Rightarrow> Real \<Rightarrow> Real \<times> Real" where
  "vdwCombineHalgrenHHG ri rj ei ej = (cubicMean ri rj, hhgMean ei ej)"

definition oo6 :: real where
  "oo6 = 1 / 6"

definition oo13 :: real where
  "oo13 = 1 / 13"

definition vdwCombineWaldmanHagler :: "Real \<Rightarrow> Real \<Rightarrow> Real \<Rightarrow> Real \<Rightarrow> Real \<times> Real" where
  "vdwCombineWaldmanHagler ri rj ei ej =
     (let ri3 = Real_mul (Real_mul ri ri) ri; ri6 = Real_mul ri3 ri3;
          rj3 = Real_mul (Real_mul rj rj) rj; rj6 = Real_mul rj3 rj3;
          er6 = geometricMean (Real_mul ei ri6) (Real_mul ej rj6);
          r6 = arithmeticMean ri6 rj6
      in (Real_pow r6 oo6, Real_div er6 r6))"

definition vdwCombineKong :: "Real \<Rightarrow> Real \<Rightarrow> Real \<Rightarrow> Real \<Rightarrow> Real \<times> Real" where
  "vdwCombineKong ri rj ei ej =
     (let ri3 = Real_mul (Real_mul ri ri) ri; ri6 = Real_mul ri3 ri3; ri12 = Real_mul ri6 ri6;
          rj3 = Real_mul (Real_mul rj rj) rj; rj6 = Real_mul rj3 rj3; rj12 = Real_mul rj6 rj6;
          er6 = geometricMean (Real_mul ei ri6) (Real_mul ej rj6);
          eri12_13 = Real_pow (Real_mul ei ri12) oo13;
          erj12_13 = Real_pow (Real_mul ej rj12) oo13;
          er12_13 = arithmeticMean eri12_13 erj12_13;
          r6 = Real_div (Real_powi er12_13 13) er6
      in (Real_pow r6 oo6, Real_div er6 r6))"

text \<open>The dispatch: Waldman-Hagler is the rule compiled in. The result is \<open>(dmin, emin)\<close>.\<close>

definition applyMixingRule :: "Real \<Rightarrow> Real \<Rightarrow> Real \<Rightarrow> Real \<Rightarrow> Real \<times> Real" where
  "applyMixingRule ri rj ei ej =
     (let (rmin, emin) = vdwCombineWaldmanHagler ri rj ei ej
      in (Real_mul (Some 2) rmin, emin))"

subsection \<open>Scaling of the non-bonded terms of bonded atoms\<close>

text \<open>
  The two scratch vectors have one entry per atom. One loop of \<^verbatim>\<open>scaleBondedAtoms\<close>
  writes a pair of factors at each index of a list; the four loops differ in the list (the
  1-2 atoms, and the last atom of each 1-3, 1-4 and 1-5 chain) and in the factors. The
  source writes \<^verbatim>\<open>vdwScale[ix]\<close> unchecked; the model is for indices inside the
  vectors.
\<close>

definition setScale ::
  "real \<Rightarrow> real \<Rightarrow> real list \<times> real list \<Rightarrow> int \<Rightarrow> real list \<times> real list" where
  "setScale v c s ix = ((fst s)[nat ix := v], (snd s)[nat ix := c])"

definition scaleBondedAtoms ::
  "DuMMForceFieldSubsystemRep \<Rightarrow> Atom \<Rightarrow> real list \<times> real list \<Rightarrow> real list \<times> real list" where
  "scaleBondedAtoms mm a s =
     (let s1 = foldl (setScale (vdwScale12 mm) (coulombScale12 mm)) s (xbond12 a);
          s2 = foldl (setScale (vdwScale13 mm) (coulombScale13 mm)) s1 (map snd (xbond13 a));
          s3 = (if vdwScale14 mm \<noteq> 1 \<or> coulombScale14 mm \<noteq> 1
                then foldl (setScale (vdwScale14 mm) (coulombScale14 mm)) s2
                       (map (\<lambda>q. snd (snd q)) (xbond14 a))
                else s2)
      in if vdwScale15 mm \<noteq> 1 \<or> coulombScale15 mm \<noteq> 1
         then foldl (setScale (vdwScale15 mm) (coulombScale15 mm)) s3
                (map (\<lambda>q. snd (snd (snd q))) (xbond15 a))
         else s3)"

definition unscaleBondedAtoms ::
  "DuMMForceFieldSubsystemRep \<Rightarrow> Atom \<Rightarrow> real list \<times> real list \<Rightarrow> real list \<times> real list" where
  "unscaleBondedAtoms mm a s =
     (let s1 = foldl (setScale 1 1) s (xbond12 a);
          s2 = foldl (setScale 1 1) s1 (map snd (xbond13 a));
          s3 = (if vdwScale14 mm \<noteq> 1 \<or> coulombScale14 mm \<noteq> 1
                then foldl (setScale 1 1) s2 (map (\<lambda>q. snd (snd q)) (xbond14 a))
                else s2)
      in if vdwScale15 mm \<noteq> 1 \<or> coulombScale15 mm \<noteq> 1
         then foldl (setScale 1 1) s3 (map (\<lambda>q. snd (snd (snd q))) (xbond15 a))
         else s3)"

text \<open>The indices the two functions write for an atom, whatever the factors.\<close>

definition scaledIndices :: "Atom \<Rightarrow> int list" where
  "scaledIndices a =
     xbond12 a @ map snd (xbond13 a) @ map (\<lambda>q. snd (snd q)) (xbond14 a)
       @ map (\<lambda>q. snd (snd (snd q))) (xbond15 a)"

subsection \<open>The periodic torsion\<close>

definition TorsionTerm_energy :: "TorsionTerm \<Rightarrow> real \<Rightarrow> real" where
  "TorsionTerm_energy tt th =
     amplitude tt * (1 + cos (real_of_int (periodicity tt) * th - theta0 tt))"

definition TorsionTerm_torque :: "TorsionTerm \<Rightarrow> real \<Rightarrow> real" where
  "TorsionTerm_torque tt th =
     real_of_int (periodicity tt) * amplitude tt
       * sin (real_of_int (periodicity tt) * th - theta0 tt)"

text \<open>\<^verbatim>\<open>std::atan2(y, x)\<close>.\<close>

definition atan2 :: "real \<Rightarrow> real \<Rightarrow> real" where
  "atan2 y x =
     (if x > 0 then arctan (y / x)
      else if x < 0 then (if y \<ge> 0 then arctan (y / x) + pi else arctan (y / x) - pi)
      else if y > 0 then pi / 2
      else if y < 0 then - (pi / 2)
      else 0)"

text \<open>
  What \<^verbatim>\<open>BondTorsion::periodic\<close> writes. \<open>None\<close> is a value that is not a number (of
  a vector: in every component); for \<^verbatim>\<open>theta\<close> it is also the reference parameter
  that the early return leaves unwritten.
\<close>

record TorsionResult =
  res_theta :: "real option"
  res_pe :: "real option"
  res_rf :: "Vec3 option"
  res_xf :: "Vec3 option"
  res_yf :: "Vec3 option"
  res_sf :: "Vec3 option"

text \<open>
  Modelled from the spec: \<^verbatim>\<open>UnitVec3\<close>, the unit vector type of the SimTK library,
  whose declaration is not in this file. Its normalizing constructor is the spec's
  \<^verbatim>\<open>UnitOf\<close>, the vector divided by its norm; for the zero vector the quotient is
  \<^verbatim>\<open>0/0\<close> in every component, not a number. \<^verbatim>\<open>UnitVec3(xy*oov,true)\<close> takes the
  vector as it is. The spec's "any unit vector perpendicular", \<^verbatim>\<open>perp()\<close>, is the
  parameter \<open>perp\<close> of the kernel; of a vector that is not a number it is not a number
  either.
\<close>

definition UnitVec3 :: "Vec3 \<Rightarrow> Vec3 option" where
  "UnitVec3 v = (if norm3 v = 0 then None else Some (smul (1 / norm3 v) v))"

definition torsion_oov :: "Vec3 \<Rightarrow> Vec3 \<Rightarrow> real" where
  "torsion_oov xG yG =
     (let xy = vsub yG xG; vv = dot xy xy in if vv = 0 then 0 else 1 / sqrt vv)"

text \<open>The axis \<^verbatim>\<open>v\<close> of \<^verbatim>\<open>BondTorsion::periodic\<close>.\<close>

definition torsionAxis :: "(Vec3 \<Rightarrow> Vec3) \<Rightarrow> Vec3 \<Rightarrow> Vec3 \<Rightarrow> Vec3 \<Rightarrow> Vec3 \<Rightarrow> Vec3 option" where
  "torsionAxis perp rG xG yG sG =
     (let r = vsub xG rG; s = vsub sG yG; xy = vsub yG xG; oov = torsion_oov xG yG
      in if oov \<noteq> 0 then Some (smul oov xy)
         else if norm3 (cross r s) \<noteq> 0 then UnitVec3 (cross r s)
         else map_option perp (UnitVec3 r))"

text \<open>
  With an axis that is not a number the plane normals \<^verbatim>\<open>t\<close> and \<^verbatim>\<open>u\<close> and their
  squared norms are not numbers, both comparisons \<^verbatim>\<open>tt == 0\<close> and \<^verbatim>\<open>uu == 0\<close> are
  false, and the rest of the function runs on them: the angle and the four forces are not
  numbers, and the energy is the sum, from 0, of one such value for each term.
\<close>

definition periodic ::
  "(Vec3 \<Rightarrow> Vec3) \<Rightarrow> BondTorsion \<Rightarrow> Vec3 \<Rightarrow> Vec3 \<Rightarrow> Vec3 \<Rightarrow> Vec3 \<Rightarrow> TorsionResult" where
  "periodic perp bt rG xG yG sG =
     (let r = vsub xG rG; s = vsub sG yG;
          oov = torsion_oov xG yG
      in case torsionAxis perp rG xG yG sG of
           None \<Rightarrow>
             \<lparr>res_theta = None, res_pe = (if terms bt = [] then Some 0 else None),
              res_rf = None, res_xf = None, res_yf = None, res_sf = None\<rparr>
         | Some v \<Rightarrow>
             let t = cross r v; u = cross v s;
                 tt = dot t t; uu = dot u u
             in if tt = 0 \<or> uu = 0
                then \<lparr>res_theta = None, res_pe = Some 0, res_rf = Some Vec3_zero,
                      res_xf = Some Vec3_zero, res_yf = Some Vec3_zero,
                      res_sf = Some Vec3_zero\<rparr>
                else
                  let txu = cross t u;
                      ootu = 1 / sqrt (tt * uu);
                      cth = dot t u * ootu;
                      sth = dot v txu * ootu;
                      theta = atan2 sth cth;
                      pe = foldl (\<lambda>e tm. e + TorsionTerm_energy tm theta) 0 (terms bt);
                      torque = foldl (\<lambda>q tm. q + TorsionTerm_torque tm theta) 0 (terms bt);
                      ry = vsub yG rG; xs = vsub sG xG;
                      dedt = smul (torque / tt) (cross t v);
                      dedu = smul (- (torque / uu)) (cross u v);
                      rf = cross dedt v;
                      sf = cross dedu v
                  in if oov = 0
                     then \<lparr>res_theta = Some theta, res_pe = Some pe, res_rf = Some rf,
                           res_xf = Some (vneg rf), res_yf = Some (vneg sf),
                           res_sf = Some sf\<rparr>
                     else \<lparr>res_theta = Some theta, res_pe = Some pe, res_rf = Some rf,
                           res_xf = Some (smul oov (vadd (cross ry dedt) (cross dedu s))),
                           res_yf = Some (smul oov (vadd (cross dedt r) (cross xs dedu))),
                           res_sf = Some sf\<rparr>)"

subsection \<open>Realization of the topological cache\<close>

text \<open>
  In this part \<open>None\<close> is a failed assertion, or a read of a vector outside its bounds
  where the source does not check.
\<close>

definition nth_opt :: "'a list \<Rightarrow> int \<Rightarrow> 'a option" where
  "nth_opt xs i = (if inRange i xs then Some (xs ! nat i) else None)"

primrec mapM :: "('a \<Rightarrow> 'b option) \<Rightarrow> 'a list \<Rightarrow> 'b list option" where
  "mapM f [] = Some []"
| "mapM f (x # xs) =
     (case f x of None \<Rightarrow> None
      | Some y \<Rightarrow> (case mapM f xs of None \<Rightarrow> None | Some ys \<Rightarrow> Some (y # ys)))"

primrec forEach :: "('s \<Rightarrow> 'a \<Rightarrow> 's option) \<Rightarrow> 'a list \<Rightarrow> 's \<Rightarrow> 's option" where
  "forEach f [] s = Some s"
| "forEach f (x # xs) s = (case f s x of None \<Rightarrow> None | Some s' \<Rightarrow> forEach f xs s')"

definition getAtomClassNum :: "DuMMForceFieldSubsystemRep \<Rightarrow> int \<Rightarrow> int option" where
  "getAtomClassNum mm anum =
     (if \<not> isValidAtom mm anum then None
      else map_option atomClass
             (nth_opt (chargedAtomTypes mm) (chargedAtomTypeId (atoms mm ! nat anum))))"

definition Atom_invalidateTopologicalCache :: "Atom \<Rightarrow> Atom" where
  "Atom_invalidateTopologicalCache a =
     a\<lparr>bodyId := - 1, station_B := None, bond13 := [], bond14 := [], bond15 := [],
       xbond12 := [], xbond13 := [], xbond14 := [], xbond15 := [],
       stretch := [], bend := [], torsion := []\<rparr>"

definition invalidateAllTopologicalCacheEntries ::
  "DuMMForceFieldSubsystemRep \<Rightarrow> DuMMForceFieldSubsystemRep" where
  "invalidateAllTopologicalCacheEntries mm =
     mm\<lparr>topologicalCacheValid := False,
        atoms := map Atom_invalidateTopologicalCache (atoms mm),
        clusters := map (\<lambda>c. c\<lparr>cluster_cacheValid := False\<rparr>) (clusters mm),
        bodies := map (\<lambda>b. b\<lparr>allAtoms := []\<rparr>) (bodies mm),
        atomClasses := map (\<lambda>c. c\<lparr>vdwDij := [], vdwEij := []\<rparr>) (atomClasses mm)\<rparr>"

text \<open>
  The table of pair parameters: class \<open>i\<close>, when valid, gets one entry for each class
  \<open>j \<ge> i\<close>, at index \<open>j - i\<close>: the mixed parameters when \<open>j\<close> is valid, NaN
  otherwise.
\<close>

definition mixedWith :: "AtomClass list \<Rightarrow> AtomClass \<Rightarrow> nat \<Rightarrow> Real \<times> Real" where
  "mixedWith classes iclass j =
     (let jclass = classes ! j
      in if AtomClass_isValid jclass
         then applyMixingRule (Some (vdwRadius iclass)) (Some (vdwRadius jclass))
                (Some (vdwWellDepth iclass)) (Some (vdwWellDepth jclass))
         else (None, None))"

definition fillVdwTable :: "AtomClass list \<Rightarrow> AtomClass list" where
  "fillVdwTable classes =
     map (\<lambda>i. let iclass = classes ! i
              in if \<not> AtomClass_isValid iclass then iclass
                 else iclass\<lparr>vdwDij := map (\<lambda>j. fst (mixedWith classes iclass j))
                                         [i..<length classes],
                             vdwEij := map (\<lambda>j. snd (mixedWith classes iclass j))
                                         [i..<length classes]\<rparr>)
       [0..<length classes]"

definition realizeClusters :: "Cluster list \<Rightarrow> Cluster list option" where
  "realizeClusters cs =
     (if list_all Cluster_isValid cs then Some (map (\<lambda>c. c\<lparr>cluster_cacheValid := True\<rparr>) cs)
      else None)"

definition Body_realizeTopologicalCache ::
  "DuMMForceFieldSubsystemRep \<Rightarrow> Body \<Rightarrow> Body option" where
  "Body_realizeTopologicalCache mm b =
     (if \<not> Body_isValid b then None
      else if \<not> isValidCluster mm (body_clusterId b) then None
      else Some (b\<lparr>allAtoms := allAtomPlacements (clusters mm ! nat (body_clusterId b))\<rparr>))"

text \<open>The two loops that write body and station onto the atoms of every valid body.\<close>

fun assignAtoms :: "int \<Rightarrow> AtomPlacement list \<Rightarrow> Atom list \<Rightarrow> Atom list option" where
  "assignAtoms bnum [] as = Some as"
| "assignAtoms bnum (ap # aps) as =
     (if \<not> placedAtomId ap \<ge> 0 then None
      else if \<not> inRange (placedAtomId ap) as then None
      else let a = as ! nat (placedAtomId ap)
           in if \<not> Atom_isValid a then None
              else if \<not> bodyId a = - 1 then None
              else assignAtoms bnum aps
                     (as[nat (placedAtomId ap) := a\<lparr>bodyId := bnum, station_B := Some (station ap)\<rparr>]))"

fun assignBodies :: "int \<Rightarrow> Body list \<Rightarrow> Atom list \<Rightarrow> Atom list option" where
  "assignBodies bnum [] as = Some as"
| "assignBodies bnum (b # bs) as =
     (if \<not> Body_isValid b then assignBodies (bnum + 1) bs as
      else case assignAtoms bnum (allAtoms b) as of
             None \<Rightarrow> None
           | Some as' \<Rightarrow> assignBodies (bnum + 1) bs as')"

text \<open>
  The three loops that chase bonds have one shape. For every chain \<open>ch\<close> of the previous
  list, in order, and every atom \<open>n\<close> bonded to the atom \<open>src ch\<close>, in order: when
  \<open>n\<close> is not in \<^verbatim>\<open>allBondedSoFar\<close> it is put there and the chain \<open>mk ch n\<close> is
  appended. The atom numbers in \<^verbatim>\<open>bond12\<close> come from \<^verbatim>\<open>addBond\<close>, which asserts
  that they are valid; the source reads \<^verbatim>\<open>atoms[...]\<close> unchecked.
\<close>

definition extendOne ::
  "('c \<Rightarrow> int \<Rightarrow> 'd) \<Rightarrow> 'c \<Rightarrow> int set \<times> 'd list \<Rightarrow> int \<Rightarrow> int set \<times> 'd list" where
  "extendOne mk ch st n =
     (if n \<in> fst st then st else (insert n (fst st), snd st @ [mk ch n]))"

definition extendChains ::
  "Atom list \<Rightarrow> ('c \<Rightarrow> int) \<Rightarrow> ('c \<Rightarrow> int \<Rightarrow> 'd) \<Rightarrow> 'c list \<Rightarrow> int set \<times> 'd list
     \<Rightarrow> int set \<times> 'd list" where
  "extendChains as src mk chs st =
     foldl (\<lambda>st' ch. foldl (extendOne mk ch) st' (bond12 (as ! nat (src ch)))) st chs"

text \<open>
  One round of the loop over the atoms. The 1-3 list extends the 1-2 atoms, the 1-4 list
  extends the chains of the 1-3 list from their last atom \<^verbatim>\<open>bond13[j][1]\<close>, and the
  1-5 list extends the chains of the 1-4 list from \<^verbatim>\<open>bond14[j][1]\<close>, their middle atom,
  as the source has it.
\<close>

definition stretchFor :: "DuMMForceFieldSubsystemRep \<Rightarrow> int \<Rightarrow> int \<Rightarrow> BondStretch option" where
  "stretchFor mm anum b =
     do { c1 \<leftarrow> getAtomClassNum mm anum;
          c2 \<leftarrow> getAtomClassNum mm b;
          getBondStretch mm c1 c2 }"

definition bendFor :: "DuMMForceFieldSubsystemRep \<Rightarrow> int \<Rightarrow> IntPair \<Rightarrow> BondBend option" where
  "bendFor mm anum ch =
     do { c1 \<leftarrow> getAtomClassNum mm anum;
          c2 \<leftarrow> getAtomClassNum mm (fst ch);
          c3 \<leftarrow> getAtomClassNum mm (snd ch);
          getBondBend mm c1 c2 c3 }"

definition torsionFor :: "DuMMForceFieldSubsystemRep \<Rightarrow> int \<Rightarrow> IntTriple \<Rightarrow> BondTorsion option" where
  "torsionFor mm anum ch =
     do { c1 \<leftarrow> getAtomClassNum mm anum;
          c2 \<leftarrow> getAtomClassNum mm (fst ch);
          c3 \<leftarrow> getAtomClassNum mm (fst (snd ch));
          c4 \<leftarrow> getAtomClassNum mm (snd (snd ch));
          getBondTorsion mm c1 c2 c3 c4 }"

definition realizeAtomBonds ::
  "DuMMForceFieldSubsystemRep \<Rightarrow> int \<Rightarrow> DuMMForceFieldSubsystemRep option" where
  "realizeAtomBonds mm anum =
     (let a0 = atoms mm ! nat anum;
          b12 = sort (bond12 a0);
          as1 = (atoms mm)[nat anum := a0\<lparr>bond12 := b12\<rparr>];
          mm1 = mm\<lparr>atoms := as1\<rparr>;
          st13 = extendChains as1 (\<lambda>b. b) (\<lambda>b n. (b, n)) b12 (insert anum (set b12), []);
          b13 = sort (snd st13);
          st14 = extendChains as1 snd (\<lambda>c n. (fst c, snd c, n)) b13 (fst st13, []);
          b14 = sort (snd st14);
          st15 = extendChains as1 (\<lambda>c. fst (snd c))
                   (\<lambda>c n. (fst c, fst (snd c), snd (snd c), n)) b14 (fst st14, []);
          b15 = sort (snd st15);
          other = (\<lambda>x. bodyId (as1 ! nat x) \<noteq> bodyId a0);
          xb12 = filter other b12;
          xb13 = filter (\<lambda>c. other (fst c) \<or> other (snd c)) b13;
          xb14 = filter (\<lambda>c. other (fst c) \<or> other (fst (snd c)) \<or> other (snd (snd c))) b14;
          xb15 = filter (\<lambda>c. other (fst c) \<or> other (fst (snd c)) \<or> other (fst (snd (snd c)))
                            \<or> other (snd (snd (snd c)))) b15
      in do { st \<leftarrow> mapM (stretchFor mm1 anum) xb12;
              bd \<leftarrow> mapM (bendFor mm1 anum) xb13;
              tr \<leftarrow> mapM (torsionFor mm1 anum) xb14;
              Some (mm\<lparr>atoms := (atoms mm)
                      [nat anum := a0\<lparr>bond12 := b12, bond13 := b13, bond14 := b14, bond15 := b15,
                                      xbond12 := xb12, xbond13 := xb13, xbond14 := xb14,
                                      xbond15 := xb15, stretch := st, bend := bd,
                                      torsion := tr\<rparr>]\<rparr>) })"

definition realizeConstruction ::
  "DuMMForceFieldSubsystemRep \<Rightarrow> DuMMForceFieldSubsystemRep option" where
  "realizeConstruction mm =
     (if topologicalCacheValid mm then Some mm
      else
        let mm1 = invalidateAllTopologicalCacheEntries mm;
            mm2 = mm1\<lparr>atomClasses := fillVdwTable (atomClasses mm1)\<rparr>
        in do { cs \<leftarrow> realizeClusters (clusters mm2);
                let mm3 = mm2\<lparr>clusters := cs\<rparr>;
                bs \<leftarrow> mapM (\<lambda>b. if \<not> Body_isValid b then Some b
                                 else Body_realizeTopologicalCache mm3 b) (bodies mm3);
                as \<leftarrow> assignBodies 0 bs (map (\<lambda>a. a\<lparr>bodyId := - 1\<rparr>) (atoms mm3));
                if \<not> list_all (\<lambda>a. bodyId a \<ge> 0) as then None
                else do { mm5 \<leftarrow> forEach realizeAtomBonds (map int [0..<length as])
                                   (mm3\<lparr>bodies := bs, atoms := as\<rparr>);
                          Some (mm5\<lparr>topologicalCacheValid := True\<rparr>) } })"

subsection \<open>The non-bonded force kernel\<close>

text \<open>
  A body's configuration \<^verbatim>\<open>X_GB\<close> is a rotation matrix, given by its rows, and a
  translation. A spatial vector is a moment and a force.
\<close>

record Transform =
  X_R :: "Vec3 \<times> Vec3 \<times> Vec3"
  X_T :: Vec3

definition rotate :: "Vec3 \<times> Vec3 \<times> Vec3 \<Rightarrow> Vec3 \<Rightarrow> Vec3" where
  "rotate R v = (dot (fst R) v, dot (fst (snd R)) v, dot (snd (snd R)) v)"

type_synonym SpatialVec = "Vec3 \<times> Vec3"

definition SpatialVec_add :: "SpatialVec \<Rightarrow> SpatialVec \<Rightarrow> SpatialVec" where
  "SpatialVec_add a b = (vadd (fst a) (fst b), vadd (snd a) (snd b))"

definition SpatialVec_sub :: "SpatialVec \<Rightarrow> SpatialVec \<Rightarrow> SpatialVec" where
  "SpatialVec_sub a b = (vsub (fst a) (fst b), vsub (snd a) (snd b))"

text \<open>
  The precomputed pair parameter of two classes, asked of the lower-numbered class;
  \<open>None\<close> also when the entry is NaN.
\<close>

definition pairParam ::
  "(AtomClass \<Rightarrow> Real list) \<Rightarrow> int \<Rightarrow> AtomClass \<Rightarrow> int \<Rightarrow> AtomClass \<Rightarrow> real option" where
  "pairParam tab a1cnum a1class a2cnum a2class =
     Option.bind (if a1cnum \<le> a2cnum then nth_opt (tab a1class) (a2cnum - a1cnum)
                  else nth_opt (tab a2class) (a1cnum - a2cnum)) (\<lambda>x. x)"

text \<open>
  The body of the innermost loop of \<^verbatim>\<open>realizeDynamics\<close>, for atom \<open>a1\<close> of body
  \<open>b1\<close> and the atom placed by \<open>ap2\<close> on body \<open>b2\<close>. The values computed for
  \<open>a1\<close> outside the loop are arguments; \<open>acc\<close> is the potential energy and the rigid
  body forces. \<open>None\<close> also when the two atoms are at the same place, where
  \<^verbatim>\<open>1/std::sqrt(d2)\<close> is not finite.
\<close>

definition nonbondedPair ::
  "DuMMForceFieldSubsystemRep \<Rightarrow> int \<Rightarrow> int \<Rightarrow> AtomClass \<Rightarrow> Vec3 \<Rightarrow> Vec3 \<Rightarrow> real \<Rightarrow> int \<Rightarrow> int
     \<Rightarrow> Transform \<Rightarrow> real list \<Rightarrow> real list \<Rightarrow> real \<times> SpatialVec list \<Rightarrow> AtomPlacement
     \<Rightarrow> (real \<times> SpatialVec list) option" where
  "nonbondedPair mm a1num a1cnum a1class a1Station_G a1Pos_G q1Fac b1 b2 X_GB2
       vdwScale coulombScale acc ap2 =
     (let a2num = placedAtomId ap2
      in if \<not> a2num \<noteq> a1num then None
         else do {
           a2 \<leftarrow> nth_opt (atoms mm) a2num;
           a2type \<leftarrow> nth_opt (chargedAtomTypes mm) (chargedAtomTypeId a2);
           let a2cnum = atomClass a2type;
           a2class \<leftarrow> nth_opt (atomClasses mm) a2cnum;
           st \<leftarrow> station_B a2;
           let a2Station_G = rotate (X_R X_GB2) st;
           let a2Pos_G = vadd (X_T X_GB2) a2Station_G;
           let r = vsub a2Pos_G a1Pos_G;
           let d2 = normSqr r;
           if d2 = 0 then None
           else do {
             let ood = 1 / sqrt d2;
             let ood2 = ood * ood;
             cscale \<leftarrow> nth_opt coulombScale a2num;
             let qq = cscale * q1Fac * partialCharge a2type;
             let eCoulomb = qq * ood;
             let fCoulomb = eCoulomb;
             dij \<leftarrow> pairParam vdwDij a1cnum a1class a2cnum a2class;
             eij \<leftarrow> pairParam vdwEij a1cnum a1class a2cnum a2class;
             let ddij2 = dij * dij * ood2;
             let ddij6 = ddij2 * ddij2 * ddij2;
             let ddij12 = ddij6 * ddij6;
             vscale \<leftarrow> nth_opt vdwScale a2num;
             let eijScale = vscale * eij;
             let eVdw = eijScale * (ddij12 - 2 * ddij6);
             let fVdw = 12 * eijScale * (ddij12 - ddij6);
             let fj = smul ((fCoulomb + fVdw) * ood2) r;
             let pe = fst acc + (eCoulomb + eVdw);
             f2 \<leftarrow> nth_opt (snd acc) b2;
             let rbf = (snd acc)[nat b2 := SpatialVec_add f2 (cross a2Station_G fj, fj)];
             f1 \<leftarrow> nth_opt rbf b1;
             Some (pe, rbf[nat b1 := SpatialVec_sub f1 (cross a1Station_G fj, fj)])
           }
         })"

text \<open>
  The non-bonded pass for one atom \<open>a1\<close> of body \<open>b1\<close>: every atom of every body
  \<open>b2 > b1\<close>. \<open>X_G\<close> gives the body configurations of the state.
\<close>

definition nonbondedForAtom ::
  "DuMMForceFieldSubsystemRep \<Rightarrow> (int \<Rightarrow> Transform) \<Rightarrow> int \<Rightarrow> int \<Rightarrow> real list \<Rightarrow> real list
     \<Rightarrow> real \<times> SpatialVec list \<Rightarrow> (real \<times> SpatialVec list) option" where
  "nonbondedForAtom mm X_G b1 a1num vdwScale coulombScale acc =
     do { a1 \<leftarrow> nth_opt (atoms mm) a1num;
          a1type \<leftarrow> nth_opt (chargedAtomTypes mm) (chargedAtomTypeId a1);
          let a1cnum = atomClass a1type;
          a1class \<leftarrow> nth_opt (atomClasses mm) a1cnum;
          st \<leftarrow> station_B a1;
          let a1Station_G = rotate (X_R (X_G b1)) st;
          let a1Pos_G = vadd (X_T (X_G b1)) a1Station_G;
          let q1Fac = CoulombFac * partialCharge a1type;
          forEach (\<lambda>acc' b2.
                     forEach (nonbondedPair mm a1num a1cnum a1class a1Station_G a1Pos_G q1Fac
                                b1 b2 (X_G b2) vdwScale coulombScale)
                       (allAtoms (bodies mm ! nat b2)) acc')
            (map int [nat b1 + 1..<length (bodies mm)]) acc }"

subsection \<open>Invariants and example systems used in the verification\<close>

text \<open>Every cluster sits at the index that is its id, and cluster 0 is the constructor's.\<close>

definition clustersDense :: "Cluster list \<Rightarrow> bool" where
  "clustersDense cs \<longleftrightarrow>
     cs \<noteq> [] \<and> (\<forall>i < length cs. clusterId (cs ! i) = int i)
       \<and> clusterName (cs ! 0) = ''free atoms and groups''"

text \<open>
  What \<^verbatim>\<open>addBond\<close> keeps true of the bond graph: the atoms are valid; a 1-2 entry is the
  number of another atom, is entered on both sides, once, and has its bond stored; a stored
  bond has the lower atom first, joins two atoms that list each other, and is stored once.
\<close>

definition bondsConsistent :: "DuMMForceFieldSubsystemRep \<Rightarrow> bool" where
  "bondsConsistent mm \<longleftrightarrow>
     (\<forall>a. inRange a (atoms mm) \<longrightarrow>
        Atom_isValid (atoms mm ! nat a) \<and> distinct (bond12 (atoms mm ! nat a))
        \<and> (\<forall>b \<in> set (bond12 (atoms mm ! nat a)).
              inRange b (atoms mm) \<and> a \<noteq> b \<and> a \<in> set (bond12 (atoms mm ! nat b))
              \<and> (min a b, max a b) \<in> set (bonds mm)))
     \<and> (\<forall>p \<in> set (bonds mm).
           fst p < snd p \<and> inRange (fst p) (atoms mm) \<and> inRange (snd p) (atoms mm)
           \<and> snd p \<in> set (bond12 (atoms mm ! nat (fst p))))
     \<and> distinct (bonds mm)"

text \<open>The subsystem as the constructor leaves it.\<close>

definition theNewRep :: DuMMForceFieldSubsystemRep where
  "theNewRep =
     snd (addCluster
            (blankRep\<lparr>vdwScale14 := 1, coulombScale14 := 1, vdwScale15 := 1, coulombScale15 := 1\<rparr>)
            (mkCluster ''free atoms and groups''))"

text \<open>
  The bond graph \<open>N\<close> (the set of 1-2 atoms of each atom) as the atoms hold it: each list
  has the atoms of \<open>N\<close>, once each, and they are valid atom numbers.
\<close>

definition graphIs :: "(int \<Rightarrow> int set) \<Rightarrow> Atom list \<Rightarrow> bool" where
  "graphIs N as \<longleftrightarrow>
     (\<forall>x. inRange x as \<longrightarrow>
        set (bond12 (as ! nat x)) = N x \<and> (\<forall>y \<in> N x. inRange y as)
        \<and> distinct (bond12 (as ! nat x)))"

text \<open>The atoms two and three bonds away, and not nearer.\<close>

definition dist2 :: "(int \<Rightarrow> int set) \<Rightarrow> int \<Rightarrow> int set" where
  "dist2 N a = {c. c \<noteq> a \<and> c \<notin> N a \<and> (\<exists>b \<in> N a. c \<in> N b)}"

definition dist3 :: "(int \<Rightarrow> int set) \<Rightarrow> int \<Rightarrow> int set" where
  "dist3 N a =
     {d. d \<noteq> a \<and> d \<notin> N a \<and> (\<forall>b \<in> N a. d \<notin> N b) \<and> (\<exists>c \<in> dist2 N a. d \<in> N c)}"

text \<open>
  What the bond-chasing loops leave in an atom: its 1-2 list holds its bonded atoms, its
  1-3 and 1-4 chains end at the atoms two and three bonds away, once each, its 1-5 list
  is empty, and each cross-body list is taken from the list of the same length of chain.
\<close>

definition chased :: "(int \<Rightarrow> int set) \<Rightarrow> int \<Rightarrow> Atom \<Rightarrow> bool" where
  "chased N a A \<longleftrightarrow>
     set (bond12 A) = N a \<and> distinct (bond12 A)
     \<and> snd ` set (bond13 A) = dist2 N a \<and> distinct (map snd (bond13 A))
     \<and> (\<lambda>c. snd (snd c)) ` set (bond14 A) = dist3 N a
     \<and> distinct (map (\<lambda>c. snd (snd c)) (bond14 A))
     \<and> bond15 A = []
     \<and> set (xbond12 A) \<subseteq> set (bond12 A) \<and> set (xbond13 A) \<subseteq> set (bond13 A)
     \<and> set (xbond14 A) \<subseteq> set (bond14 A) \<and> set (xbond15 A) \<subseteq> set (bond15 A)"

text \<open>The parameter lists of an atom are the catalog entries of its cross-body chains.\<close>

definition resolved :: "DuMMForceFieldSubsystemRep \<Rightarrow> int \<Rightarrow> Atom \<Rightarrow> bool" where
  "resolved mm a A \<longleftrightarrow>
     mapM (stretchFor mm a) (xbond12 A) = Some (stretch A)
     \<and> mapM (bendFor mm a) (xbond13 A) = Some (bend A)
     \<and> mapM (torsionFor mm a) (xbond14 A) = Some (torsion A)"

text \<open>Two atom vectors with the same ids and charged atom types.\<close>

definition idsAgree :: "Atom list \<Rightarrow> Atom list \<Rightarrow> bool" where
  "idsAgree as as' \<longleftrightarrow>
     length as' = length as
     \<and> (\<forall>i < length as. atomId (as' ! i) = atomId (as ! i)
            \<and> chargedAtomTypeId (as' ! i) = chargedAtomTypeId (as ! i))"

text \<open>What realization reads of an atom and does not write, but for sorting the 1-2 list.\<close>

definition atomCore :: "Atom \<Rightarrow> int \<times> int \<times> int list" where
  "atomCore a = (atomId a, chargedAtomTypeId a, bond12 a)"




text \<open>The subsystem after \<^verbatim>\<open>addBond\<close> has stored a new bond between \<open>a < b\<close>.\<close>

definition bonded :: "DuMMForceFieldSubsystemRep \<Rightarrow> int \<Rightarrow> int \<Rightarrow> DuMMForceFieldSubsystemRep" where
  "bonded mm a b =
     mm\<lparr>bonds := bonds mm @ [(a, b)],
        atoms := (atoms mm)
          [nat a := (atoms mm ! nat a)\<lparr>bond12 := bond12 (atoms mm ! nat a) @ [b]\<rparr>,
           nat b := (atoms mm ! nat b)\<lparr>bond12 := bond12 (atoms mm ! nat b) @ [a]\<rparr>]\<rparr>"

text \<open>Six atoms of one charged atom type, no bonds yet.\<close>

definition sixAtoms :: DuMMForceFieldSubsystemRep where
  "sixAtoms =
     theNewRep
       \<lparr>atoms := map (\<lambda>i. mkAtom 0 (int i)) [0..<6],
        atomClasses := [\<lparr>atomClassId = 0, className = ''C'', element = 6, valence = 4,
                         vdwRadius = 1, vdwWellDepth = 1, vdwDij = [], vdwEij = []\<rparr>],
        chargedAtomTypes := [\<lparr>typeId = 0, typeName = ''C0'', atomClass = 0, partialCharge = 0\<rparr>]\<rparr>"

text \<open>
  A chain of four atoms 0-1-2-3 with classes 0, 1, 2, 3: atoms 0 and 1 on body 0, atoms 2
  and 3 on body 1. The catalog has the stretch of classes 1-2, the bends 0-1-2 and 1-2-3
  and the torsion 0-1-2-3. The bond 1-2 was added before the bond 0-1.
\<close>

definition exampleClass :: "int \<Rightarrow> AtomClass" where
  "exampleClass i =
     \<lparr>atomClassId = i, className = ''C'', element = 6, valence = 4,
      vdwRadius = 1, vdwWellDepth = 1, vdwDij = [], vdwEij = []\<rparr>"

definition exampleType :: "int \<Rightarrow> real \<Rightarrow> ChargedAtomType" where
  "exampleType i q = \<lparr>typeId = i, typeName = ''T'', atomClass = i, partialCharge = q\<rparr>"

definition exampleRep :: DuMMForceFieldSubsystemRep where
  "exampleRep =
     theNewRep
       \<lparr>atoms := [(mkAtom 0 0)\<lparr>bond12 := [1]\<rparr>, (mkAtom 1 1)\<lparr>bond12 := [2, 0]\<rparr>,
                  (mkAtom 2 2)\<lparr>bond12 := [1, 3]\<rparr>, (mkAtom 3 3)\<lparr>bond12 := [2]\<rparr>],
        bonds := [(1, 2), (0, 1), (2, 3)],
        clusters := [(mkCluster ''free atoms and groups'')\<lparr>clusterId := 0\<rparr>,
                     (mkCluster ''Body 0'')
                       \<lparr>clusterId := 1, cluster_bodyId := 0,
                        allAtomPlacements := [\<lparr>placedAtomId = 0, station = (0, 0, 0)\<rparr>,
                                              \<lparr>placedAtomId = 1, station = (1, 0, 0)\<rparr>]\<rparr>,
                     (mkCluster ''Body 1'')
                       \<lparr>clusterId := 2, cluster_bodyId := 1,
                        allAtomPlacements := [\<lparr>placedAtomId = 2, station = (0, 0, 0)\<rparr>,
                                              \<lparr>placedAtomId = 3, station = (1, 0, 0)\<rparr>]\<rparr>],
        bodies := [\<lparr>body_clusterId = 1, allAtoms = []\<rparr>, \<lparr>body_clusterId = 2, allAtoms = []\<rparr>],
        atomClasses := [exampleClass 0, exampleClass 1, exampleClass 2, exampleClass 3],
        chargedAtomTypes := [exampleType 0 1, exampleType 1 (- 1), exampleType 2 1,
                             exampleType 3 (- 1)],
        bondStretch := [(1, 2) \<mapsto> mkBondStretch 100 1],
        bondBend := [(0, 1, 2) \<mapsto> mkBondBend 1 90, (1, 2, 3) \<mapsto> mkBondBend 2 100],
        bondTorsion := [(0, 1, 2, 3) \<mapsto> \<lparr>terms = [mkTorsionTerm 3 1 0]\<rparr>],
        vdwScale14 := 0.5\<rparr>"

text \<open>The example after realization: the bodies' atoms, the atoms and the pair table.\<close>

definition exampleBodiesRealized :: "Body list" where
  "exampleBodiesRealized =
     [\<lparr>body_clusterId = 1, allAtoms = [\<lparr>placedAtomId = 0, station = (0, 0, 0)\<rparr>,
                                       \<lparr>placedAtomId = 1, station = (1, 0, 0)\<rparr>]\<rparr>,
      \<lparr>body_clusterId = 2, allAtoms = [\<lparr>placedAtomId = 2, station = (0, 0, 0)\<rparr>,
                                       \<lparr>placedAtomId = 3, station = (1, 0, 0)\<rparr>]\<rparr>]"

definition exampleAtomsAssigned :: "Atom list" where
  "exampleAtomsAssigned =
     [(mkAtom 0 0)\<lparr>bond12 := [1], bodyId := 0, station_B := Some (0, 0, 0)\<rparr>,
      (mkAtom 1 1)\<lparr>bond12 := [2, 0], bodyId := 0, station_B := Some (1, 0, 0)\<rparr>,
      (mkAtom 2 2)\<lparr>bond12 := [1, 3], bodyId := 1, station_B := Some (0, 0, 0)\<rparr>,
      (mkAtom 3 3)\<lparr>bond12 := [2], bodyId := 1, station_B := Some (1, 0, 0)\<rparr>]"

definition exampleAtomsRealized :: "Atom list" where
  "exampleAtomsRealized =
     [(mkAtom 0 0)\<lparr>bond12 := [1], bodyId := 0, station_B := Some (0, 0, 0),
                   bond13 := [(1, 2)], bond14 := [(1, 2, 3)],
                   xbond13 := [(1, 2)], xbond14 := [(1, 2, 3)],
                   bend := [mkBondBend 1 90], torsion := [\<lparr>terms = [mkTorsionTerm 3 1 0]\<rparr>]\<rparr>,
      (mkAtom 1 1)\<lparr>bond12 := [0, 2], bodyId := 0, station_B := Some (1, 0, 0),
                   bond13 := [(2, 3)], xbond12 := [2], xbond13 := [(2, 3)],
                   stretch := [mkBondStretch 100 1], bend := [mkBondBend 2 100]\<rparr>,
      (mkAtom 2 2)\<lparr>bond12 := [1, 3], bodyId := 1, station_B := Some (0, 0, 0),
                   bond13 := [(1, 0)], xbond12 := [1], xbond13 := [(1, 0)],
                   stretch := [mkBondStretch 100 1], bend := [mkBondBend 1 90]\<rparr>,
      (mkAtom 3 3)\<lparr>bond12 := [2], bodyId := 1, station_B := Some (1, 0, 0),
                   bond13 := [(2, 1)], bond14 := [(2, 1, 0)],
                   xbond13 := [(2, 1)], xbond14 := [(2, 1, 0)],
                   bend := [mkBondBend 2 100], torsion := [\<lparr>terms = [mkTorsionTerm 3 1 0]\<rparr>]\<rparr>]"

definition exampleClassesRealized :: "AtomClass list" where
  "exampleClassesRealized =
     [(exampleClass 0)\<lparr>vdwDij := [Some 2, Some 2, Some 2, Some 2],
                       vdwEij := [Some 1, Some 1, Some 1, Some 1]\<rparr>,
      (exampleClass 1)\<lparr>vdwDij := [Some 2, Some 2, Some 2], vdwEij := [Some 1, Some 1, Some 1]\<rparr>,
      (exampleClass 2)\<lparr>vdwDij := [Some 2, Some 2], vdwEij := [Some 1, Some 1]\<rparr>,
      (exampleClass 3)\<lparr>vdwDij := [Some 2], vdwEij := [Some 1]\<rparr>]"

definition exampleAssigned :: DuMMForceFieldSubsystemRep where
  "exampleAssigned =
     exampleRep
       \<lparr>atomClasses := exampleClassesRealized,
        clusters := map (\<lambda>c. c\<lparr>cluster_cacheValid := True\<rparr>) (clusters exampleRep),
        bodies := exampleBodiesRealized,
        atoms := exampleAtomsAssigned\<rparr>"

definition exampleRealized :: DuMMForceFieldSubsystemRep where
  "exampleRealized =
     exampleAssigned\<lparr>atoms := exampleAtomsRealized, topologicalCacheValid := True\<rparr>"

section \<open>Verification\<close>

subsection \<open>Canonical keys\<close>

lemma IntPair_reversal: "IntPair c1 c2 True = IntPair c2 c1 True"
  by (simp add: IntPair_def)

lemma IntTriple_reversal: "IntTriple c1 c2 c3 True = IntTriple c3 c2 c1 True"
  by (simp add: IntTriple_def)

lemma getBondStretch_reversal: "getBondStretch mm c1 c2 = getBondStretch mm c2 c1"
  by (simp add: getBondStretch_def IntPair_reversal [of c1 c2])

lemma getBondBend_reversal: "getBondBend mm c1 c2 c3 = getBondBend mm c3 c2 c1"
  by (simp add: getBondBend_def IntTriple_reversal [of c1 c2 c3])

lemma IntQuad_reversal:
  "c1 \<noteq> c4 \<or> c2 = c3 \<Longrightarrow> IntQuad c1 c2 c3 c4 True = IntQuad c4 c3 c2 c1 True"
  by (auto simp: IntQuad_def)

text \<open>
  C4, at the input where it fails. The pair and the triple keys are invariant under
  reversal (the lemmas above), and so is the quad key unless its first and fourth ids are
  equal and its second and third differ: \<^verbatim>\<open>IntQuad::canonicalize\<close> then keeps both
  orders, and a torsion defined for classes 1-2-3-1 is not found when it is looked up from
  the other end as 1-3-2-1.
\<close>

theorem quad_key_not_reversal_invariant:
  "IntQuad 1 2 3 1 True = (1, 2, 3, 1) \<and> IntQuad 1 3 2 1 True = (1, 3, 2, 1)
   \<and> getBondTorsion (theNewRep\<lparr>bondTorsion := [IntQuad 1 2 3 1 True \<mapsto> bt]\<rparr>) 1 2 3 1 = Some bt
   \<and> getBondTorsion (theNewRep\<lparr>bondTorsion := [IntQuad 1 2 3 1 True \<mapsto> bt]\<rparr>) 1 3 2 1 = None"
  by (simp add: IntQuad_def getBondTorsion_def)

subsection \<open>Cluster ids\<close>

lemma addCluster_clusters:
  "clusters (snd (addCluster mm c)) = clusters mm @ [c\<lparr>clusterId := int (length (clusters mm))\<rparr>]"
  "fst (addCluster mm c) = int (length (clusters mm))"
  by (simp_all add: addCluster_def Let_def)

lemma newRep_clusters:
  "newDuMMForceFieldSubsystemRep = Inr mm \<Longrightarrow>
     clusters mm = [(mkCluster ''free atoms and groups'')\<lparr>clusterId := 0\<rparr>]"
  by (auto simp: newDuMMForceFieldSubsystemRep_def addCluster_def blankRep_def Let_def
      split: if_splits)

lemma new_is_theNewRep: "newDuMMForceFieldSubsystemRep = Inr theNewRep"
  by (simp add: newDuMMForceFieldSubsystemRep_def theNewRep_def addCluster_def blankRep_def
      Let_def)

lemma clustersDense_snoc:
  "clustersDense cs \<Longrightarrow> clustersDense (cs @ [c\<lparr>clusterId := int (length cs)\<rparr>])"
  by (auto simp: clustersDense_def nth_append)

lemma clustersDense_update:
  "clustersDense cs \<Longrightarrow> i < length cs \<Longrightarrow> clusterId c = clusterId (cs ! i) \<Longrightarrow>
   clusterName c = clusterName (cs ! i) \<Longrightarrow> clustersDense (cs[i := c])"
  by (auto simp: clustersDense_def nth_list_update)

lemma ensureBodyEntryExists_clusters:
  assumes "ensureBodyEntryExists mm bodyNum = Inr mm'"
  shows "clusters mm' = clusters mm \<or>
     (\<exists>c. clusterId c = int (length (clusters mm)) \<and> clusters mm' = clusters mm @ [c])"
  using assms
  by (auto simp: ensureBodyEntryExists_def addCluster_def Let_def split: if_splits)

lemma reachable_clustersDense: "reachable mm \<Longrightarrow> clustersDense (clusters mm)"
proof (induction rule: reachable.induct)
  case (constructed mm)
  then show ?case by (simp add: newRep_clusters clustersDense_def mkCluster_def)
next
  case (created mm nm cid mm')
  then show ?case
    using addCluster_clusters(1) [of mm "mkCluster nm"]
    by (auto simp: createCluster_def dest: clustersDense_snoc)
next
  case (ensured mm bodyNum mm')
  from ensureBodyEntryExists_clusters [OF ensured.hyps(3)] show ?case
  proof
    assume "clusters mm' = clusters mm"
    with ensured.IH show ?thesis by simp
  next
    assume "\<exists>c. clusterId c = int (length (clusters mm)) \<and> clusters mm' = clusters mm @ [c]"
    then obtain c where c: "clusterId c = int (length (clusters mm))"
      "clusters mm' = clusters mm @ [c]"
      by blast
    have "c = c\<lparr>clusterId := int (length (clusters mm))\<rparr>" using c(1) by simp
    then show ?thesis using clustersDense_snoc [OF ensured.IH, of c] c(2) by simp
  qed
next
  case (updated mm i c mm')
  then show ?case by (simp add: clustersDense_update)
qed

text \<open>
  C10. The constructor makes exactly one cluster, with id 0 and the name "free atoms and
  groups"; \<^verbatim>\<open>addCluster\<close> returns the number of clusters there were and appends the
  cluster under that id; so in every state the subsystem can reach, each cluster's id is
  its index, cluster 0 is still the constructor's, and \<^verbatim>\<open>createCluster\<close> returns the
  cluster count, which is at least 1.
\<close>

theorem cluster_id_zero_reserved:
  "(\<exists>mm0. newDuMMForceFieldSubsystemRep = Inr mm0
       \<and> map clusterId (clusters mm0) = [0]
       \<and> map clusterName (clusters mm0) = [''free atoms and groups''])
   \<and> (\<forall>mm c. fst (addCluster mm c) = int (length (clusters mm))
       \<and> clusters (snd (addCluster mm c))
           = clusters mm @ [c\<lparr>clusterId := int (length (clusters mm))\<rparr>])
   \<and> (\<forall>mm nm. reachable mm \<longrightarrow>
         fst (createCluster mm nm) \<ge> 1
       \<and> fst (createCluster mm nm) = int (length (clusters mm))
       \<and> (\<forall>i < length (clusters mm). clusterId (clusters mm ! i) = int i)
       \<and> clusterName (clusters mm ! 0) = ''free atoms and groups''
       \<and> reachable (snd (createCluster mm nm)))"
proof (intro conjI allI impI)
  show "\<exists>mm0. newDuMMForceFieldSubsystemRep = Inr mm0
       \<and> map clusterId (clusters mm0) = [0]
       \<and> map clusterName (clusters mm0) = [''free atoms and groups'']"
    by (simp add: newDuMMForceFieldSubsystemRep_def addCluster_def blankRep_def Let_def
        mkCluster_def)
next
  fix mm nm assume r: "reachable mm"
  then have d: "clustersDense (clusters mm)" by (rule reachable_clustersDense)
  then have "clusters mm \<noteq> []" by (simp add: clustersDense_def)
  then have "length (clusters mm) \<ge> 1" by (cases "clusters mm") auto
  then show "1 \<le> fst (createCluster mm nm)"
    by (simp add: createCluster_def addCluster_clusters)
  show "\<And>i. i < length (clusters mm) \<Longrightarrow> clusterId (clusters mm ! i) = int i"
    using d by (simp add: clustersDense_def)
  show "clusterName (clusters mm ! 0) = ''free atoms and groups''"
    using d by (simp add: clustersDense_def)
  show "reachable (snd (createCluster mm nm))"
    using r reachable.created [of mm nm "fst (createCluster mm nm)" "snd (createCluster mm nm)"]
    by simp
qed (simp_all add: addCluster_clusters createCluster_def)

theorem cluster_id_zero_reserved_witness:
  "reachable theNewRep \<and> fst (createCluster theNewRep ''water'') = 1
    \<and> fst (createCluster (snd (createCluster theNewRep ''water'')) ''ion'') = 2"
proof -
  have r: "reachable theNewRep" using new_is_theNewRep by (rule reachable.constructed)
  from cluster_id_zero_reserved have
    a: "\<And>mm nm. reachable mm \<Longrightarrow> fst (createCluster mm nm) = int (length (clusters mm))
           \<and> reachable (snd (createCluster mm nm))" by blast
  have l: "length (clusters theNewRep) = 1"
    by (simp add: theNewRep_def addCluster_def Let_def blankRep_def)
  have l2: "length (clusters (snd (createCluster theNewRep ''water''))) = 2"
    by (simp add: createCluster_def addCluster_clusters l)
  show ?thesis
    using r a [OF r, of "''water''"] a [of "snd (createCluster theNewRep ''water'')" "''ion''"]
      l l2
    by simp
qed

subsection \<open>Defining a bond torsion\<close>

lemma mkTorsionTerm_valid:
  assumes "1 \<le> p" "a \<ge> 0" "0 \<le> h" "h \<le> 180"
  shows "TorsionTerm_isValid (mkTorsionTerm p a h)"
proof -
  have "h * (pi / 180) \<le> 180 * (pi / 180)"
    using assms(4) by (intro mult_right_mono) auto
  then have 1: "h * (pi / 180) \<le> pi" by simp
  have 2: "0 \<le> h * (pi / 180)" using assms(3) by simp
  have "- pi < 0" by simp
  with 2 have 3: "- pi < h * (pi / 180)" by linarith
  have 4: "0 \<le> a * 418.4" using assms(2) by simp
  show ?thesis
    unfolding TorsionTerm_isValid_def mkTorsionTerm_def EnergyUnitsPerKcal_def
        RadiansPerDegree_def
    using assms(1) 1 3 4 by simp
qed

lemma torsionBlock_eq:
  "torsionBlock bt p a h others =
     (if 1 \<le> p \<and> p \<le> 6 \<and> a \<ge> 0 \<and> 0 \<le> h \<and> h \<le> 180 \<and> others
      then (if hasTerm bt p then Inl AssertionFailed else Inr (addTerm bt (mkTorsionTerm p a h)))
      else Inl ApiArgCheckFailed)"
  by (auto simp: torsionBlock_def mkTorsionTerm_valid)

lemma periodicity_mkTorsionTerm [simp]: "periodicity (mkTorsionTerm p a h) = p"
  by (simp add: mkTorsionTerm_def)

text \<open>
  C9. A term is supplied when its periodicity is not the placeholder \<open>-1\<close>. The call
  throws, and leaves the subsystem as it was, exactly when a supplied term has a
  periodicity outside 1..6, a negative amplitude or a phase outside 0..180, or two supplied
  terms have the same periodicity, or one of the four classes is not a valid atom class, or
  no term is supplied, or the canonical key already has a torsion. Otherwise it returns
  normally and the only change is the new entry under the canonical key, whose terms are
  the supplied ones in order, converted to internal units.
\<close>

theorem defineBondTorsion_fails_iff:
  "defineBondTorsion mm c1 c2 c3 c4 p1 a1 h1 p2 a2 h2 p3 a3 h3 =
     (let supplied = filter (\<lambda>t. fst t \<noteq> - 1) [(p1, a1, h1), (p2, a2, h2), (p3, a3, h3)];
          key = IntQuad c1 c2 c3 c4 True
      in if (\<exists>t \<in> set supplied. fst t < 1 \<or> 6 < fst t \<or> fst (snd t) < 0
                \<or> snd (snd t) < 0 \<or> 180 < snd (snd t))
            \<or> \<not> distinct (map fst supplied)
            \<or> \<not> (isValidAtomClass mm c1 \<and> isValidAtomClass mm c2
                   \<and> isValidAtomClass mm c3 \<and> isValidAtomClass mm c4)
            \<or> supplied = []
            \<or> bondTorsion mm key \<noteq> None
         then (Some ApiArgCheckFailed, mm)
         else (None, mm\<lparr>bondTorsion := (bondTorsion mm)
                 (key \<mapsto> \<lparr>terms = map (\<lambda>t. mkTorsionTerm (fst t) (fst (snd t)) (snd (snd t)))
                                    supplied\<rparr>)\<rparr>))"
proof (cases "isValidAtomClass mm c1 \<and> isValidAtomClass mm c2
                   \<and> isValidAtomClass mm c3 \<and> isValidAtomClass mm c4")
  case False
  then show ?thesis by (auto simp: defineBondTorsion_def Let_def)
next
  case True
  consider (a) "p1 = - 1" "p2 = - 1" "p3 = - 1" | (b) "p1 = - 1" "p2 = - 1" "p3 \<noteq> - 1"
    | (c) "p1 = - 1" "p2 \<noteq> - 1" "p3 = - 1" | (d) "p1 = - 1" "p2 \<noteq> - 1" "p3 \<noteq> - 1"
    | (e) "p1 \<noteq> - 1" "p2 = - 1" "p3 = - 1" | (f) "p1 \<noteq> - 1" "p2 = - 1" "p3 \<noteq> - 1"
    | (g) "p1 \<noteq> - 1" "p2 \<noteq> - 1" "p3 = - 1" | (h) "p1 \<noteq> - 1" "p2 \<noteq> - 1" "p3 \<noteq> - 1"
    by blast
  then show ?thesis
  proof cases
    case a
    with True show ?thesis by (simp add: defineBondTorsion_def Let_def)
  next
    case b
    with True show ?thesis
      by (cases "bondTorsion mm (IntQuad c1 c2 c3 c4 True)")
         (auto simp: defineBondTorsion_def Let_def torsionBlock_eq hasTerm_def addTerm_def)
  next
    case c
    with True show ?thesis
      by (cases "bondTorsion mm (IntQuad c1 c2 c3 c4 True)")
         (auto simp: defineBondTorsion_def Let_def torsionBlock_eq hasTerm_def addTerm_def)
  next
    case d
    with True show ?thesis
      by (cases "bondTorsion mm (IntQuad c1 c2 c3 c4 True)")
         (auto simp: defineBondTorsion_def Let_def torsionBlock_eq hasTerm_def addTerm_def)
  next
    case e
    with True show ?thesis
      by (cases "bondTorsion mm (IntQuad c1 c2 c3 c4 True)")
         (auto simp: defineBondTorsion_def Let_def torsionBlock_eq hasTerm_def addTerm_def)
  next
    case f
    with True show ?thesis
      by (cases "bondTorsion mm (IntQuad c1 c2 c3 c4 True)")
         (auto simp: defineBondTorsion_def Let_def torsionBlock_eq hasTerm_def addTerm_def)
  next
    case g
    with True show ?thesis
      by (cases "bondTorsion mm (IntQuad c1 c2 c3 c4 True)")
         (auto simp: defineBondTorsion_def Let_def torsionBlock_eq hasTerm_def addTerm_def)
  next
    case h
    with True show ?thesis
      by (cases "bondTorsion mm (IntQuad c1 c2 c3 c4 True)")
         (auto simp: defineBondTorsion_def Let_def torsionBlock_eq hasTerm_def addTerm_def)
  qed
qed

subsection \<open>The mixing rules on a like pair of radius zero\<close>

lemma Real_simps:
  "Real_add (Some x) (Some y) = Some (x + y)"
  "Real_mul (Some x) (Some y) = Some (x * y)"
  "Real_div (Some x) (Some y) = (if y = 0 then None else Some (x / y))"
  "Real_sqrt (Some x) = (if x < 0 then None else Some (sqrt x))"
  "Real_pow (Some x) p = (if x < 0 then None else Some (x powr p))"
  "Real_powi (Some x) n = Some (x ^ n)"
  "Real_div None b = None" "Real_div a None = None"
  "Real_mul None b = None" "Real_mul a None = None"
  "Real_add None b = None" "Real_add a None = None"
  "Real_sqrt None = None" "Real_pow None p = None" "Real_powi None n = None"
  by (simp_all add: Real_add_def Real_mul_def Real_div_def Real_sqrt_def Real_pow_def
      Real_powi_def split: option.splits)

lemma WH_zero_radius:
  "vdwCombineWaldmanHagler (Some 0) (Some 0) (Some 1) (Some 1) = (Some 0, None)"
  by (simp add: vdwCombineWaldmanHagler_def Let_def geometricMean_def arithmeticMean_def
      Real_simps oo6_def)

lemma WH_unit: "vdwCombineWaldmanHagler (Some 1) (Some 1) (Some 1) (Some 1) = (Some 1, Some 1)"
  by (simp add: vdwCombineWaldmanHagler_def Let_def geometricMean_def arithmeticMean_def
      Real_simps oo6_def)

text \<open>
  The other two rules that divide do the same at radius 0, and at well depth 0. At these
  inputs, as at those of the theorem below, every operation of the double arithmetic is
  exact or is \<^verbatim>\<open>0/0\<close>.
\<close>

lemma HHG_zero:
  "vdwCombineHalgrenHHG (Some 0) (Some 0) (Some 1) (Some 1) = (None, Some 1)"
  "vdwCombineHalgrenHHG (Some 1) (Some 1) (Some 0) (Some 0) = (Some 1, None)"
  by (simp_all add: vdwCombineHalgrenHHG_def cubicMean_def hhgMean_def harmonicMean_def
      geometricMean_def Real_add_def Real_mul_def Real_div_def Real_sqrt_def)

lemma Kong_zero:
  "vdwCombineKong (Some 0) (Some 0) (Some 1) (Some 1) = (None, None)"
  "vdwCombineKong (Some 1) (Some 1) (Some 0) (Some 0) = (None, None)"
  by (simp_all add: vdwCombineKong_def Let_def geometricMean_def arithmeticMean_def
      Real_add_def Real_mul_def Real_div_def Real_sqrt_def Real_pow_def Real_powi_def oo13_def
      oo6_def)

text \<open>
  C5, at the input where the code fails. An atom class of radius 0 and well depth 1 is a
  valid class. For its like pair the Waldman-Hagler rule, the one the dispatch uses,
  returns the radius 0 and, for the well depth, the quotient \<^verbatim>\<open>er6 / r6\<close> of zero by
  zero; the dispatch passes it on, and realization stores it in the table of the class.
  The Lorentz-Berthelot and the Jorgensen rule return the radius 0 and the well depth 1
  there.
\<close>

theorem like_pair_zero_radius:
  "AtomClass_isValid ((exampleClass 0)\<lparr>vdwRadius := 0\<rparr>)
   \<and> vdwCombineWaldmanHagler (Some 0) (Some 0) (Some 1) (Some 1) = (Some 0, None)
   \<and> applyMixingRule (Some 0) (Some 0) (Some 1) (Some 1) = (Some 0, None)
   \<and> fillVdwTable [(exampleClass 0)\<lparr>vdwRadius := 0\<rparr>]
       = [(exampleClass 0)\<lparr>vdwRadius := 0, vdwDij := [Some 0], vdwEij := [None]\<rparr>]
   \<and> vdwCombineLorentzBerthelot (Some 0) (Some 0) (Some 1) (Some 1) = (Some 0, Some 1)
   \<and> vdwCombineJorgensen (Some 0) (Some 0) (Some 1) (Some 1) = (Some 0, Some 1)"
proof -
  have a: "applyMixingRule (Some 0) (Some 0) (Some 1) (Some 1) = (Some 0, None)"
    by (simp add: applyMixingRule_def WH_zero_radius Real_simps)
  have v: "AtomClass_isValid ((exampleClass 0)\<lparr>vdwRadius := 0\<rparr>)"
    by (simp add: AtomClass_isValid_def exampleClass_def)
  have f: "fillVdwTable [(exampleClass 0)\<lparr>vdwRadius := 0\<rparr>]
       = [(exampleClass 0)\<lparr>vdwRadius := 0, vdwDij := [Some 0], vdwEij := [None]\<rparr>]"
    using v by (simp add: fillVdwTable_def mixedWith_def Let_def a) (simp add: exampleClass_def a)
  have l: "vdwCombineLorentzBerthelot (Some 0) (Some 0) (Some 1) (Some 1) = (Some 0, Some 1)"
    "vdwCombineJorgensen (Some 0) (Some 0) (Some 1) (Some 1) = (Some 0, Some 1)"
    by (simp_all add: vdwCombineLorentzBerthelot_def vdwCombineJorgensen_def
        arithmeticMean_def geometricMean_def Real_simps)
  show ?thesis using v WH_zero_radius a f l by simp
qed

subsection \<open>The periodic torsion in degenerate geometry\<close>

lemma vsub_self [simp]: "vsub a a = (0, 0, 0)"
  by (cases a) simp

lemma cross_zero_left [simp]: "cross (0, 0, 0) v = (0, 0, 0)"
  by (cases v) simp

lemma vneg_zero [simp]: "vneg (0, 0, 0) = (0, 0, 0)"
  by simp

lemma vadd_vneg: "vadd (vadd a (vneg a)) (vadd (vneg b) b) = (0, 0, 0)"
  by (cases a; cases b) simp

lemma norm3_zero_iff: "norm3 v = 0 \<longleftrightarrow> dot v v = 0"
  by (simp add: norm3_def normSqr_def)

lemma torsion_oov_same [simp]: "torsion_oov x x = 0"
  by (simp add: torsion_oov_def)

lemma dot_self_zero_iff: "dot v v = 0 \<longleftrightarrow> v = (0, 0, 0)"
proof (cases v)
  case (fields x y z)
  have "x * x + y * y + z * z = 0 \<longleftrightarrow> x = 0 \<and> y = 0 \<and> z = 0"
    using sum_power2_eq_zero_iff [of x y] sum_power2_eq_zero_iff [of "sqrt (x\<^sup>2 + y\<^sup>2)" z]
    by (auto simp: power2_eq_square add_nonneg_eq_0_iff)
  then show ?thesis using fields by simp
qed

lemma vsub_zero_iff: "vsub p q = (0, 0, 0) \<longleftrightarrow> p = q"
  by (cases p; cases q) auto

text \<open>
  With an axis that is a number the kernel does in the degenerate cases what its comments
  say (over the reals): no force when a plane normal vanishes, and forces that add up to
  zero when the axis atoms coincide and \<open>r\<close> is elsewhere.
\<close>

lemma periodic_parallel:
  assumes "torsionAxis perp rG xG yG sG = Some v"
    and "norm3 (cross (vsub xG rG) v) = 0 \<or> norm3 (cross v (vsub sG yG)) = 0"
  shows "periodic perp bt rG xG yG sG =
          \<lparr>res_theta = None, res_pe = Some 0, res_rf = Some Vec3_zero, res_xf = Some Vec3_zero,
           res_yf = Some Vec3_zero, res_sf = Some Vec3_zero\<rparr>"
  using assms by (simp add: periodic_def Let_def norm3_zero_iff)

lemma torsionAxis_no_axis:
  assumes "rG \<noteq> xG"
  shows "torsionAxis perp rG xG xG sG \<noteq> None"
proof -
  have "norm3 (vsub xG rG) \<noteq> 0"
    using assms by (auto simp: norm3_zero_iff dot_self_zero_iff vsub_zero_iff)
  then show ?thesis
    by (simp add: torsionAxis_def Let_def UnitVec3_def del: not_None_eq)
qed

lemma periodic_no_axis:
  assumes "rG \<noteq> xG"
  shows "res_rf (periodic perp bt rG xG xG sG) \<noteq> None
      \<and> res_sf (periodic perp bt rG xG xG sG) \<noteq> None
      \<and> res_xf (periodic perp bt rG xG xG sG)
          = map_option vneg (res_rf (periodic perp bt rG xG xG sG))
      \<and> res_yf (periodic perp bt rG xG xG sG)
          = map_option vneg (res_sf (periodic perp bt rG xG xG sG))
      \<and> (case (res_rf (periodic perp bt rG xG xG sG), res_xf (periodic perp bt rG xG xG sG),
                res_yf (periodic perp bt rG xG xG sG), res_sf (periodic perp bt rG xG xG sG)) of
            (Some rf, Some xf, Some yf, Some sf) \<Rightarrow> vadd (vadd rf xf) (vadd yf sf) = Vec3_zero
          | _ \<Rightarrow> False)"
proof -
  have "torsionAxis perp rG xG xG sG \<noteq> None" by (rule torsionAxis_no_axis [OF assms])
  then obtain v where v: "torsionAxis perp rG xG xG sG = Some v" by blast
  show ?thesis
    by (simp add: periodic_def Let_def v Vec3_zero_def vadd_vneg del: not_None_eq)
qed

lemma torsionAxis_coincident: "torsionAxis perp p p p sG = None"
  by (simp add: torsionAxis_def Let_def UnitVec3_def norm3_zero_iff)

text \<open>
  C8, at the input where the code fails. When the atoms \<open>r\<close>, \<open>x\<close> and \<open>y\<close> are at
  one place, the axis is \<^verbatim>\<open>UnitVec3(r).perp()\<close> of the zero vector \<open>r\<close>, which is not
  a number. Then neither test of the early return holds, and the kernel returns four forces
  that are not numbers, and an energy that is not a number when the torsion has a term:
  the forces do not add up to zero.
\<close>

theorem periodic_three_atoms_coincide:
  "periodic perp bt p p p sG =
     \<lparr>res_theta = None, res_pe = (if terms bt = [] then Some 0 else None),
      res_rf = None, res_xf = None, res_yf = None, res_sf = None\<rparr>
   \<and> torsionAxis perp (0, 0, 0) (0, 0, 0) (0, 0, 0) (1, 0, 0) = None
   \<and> periodic perp \<lparr>terms = [mkTorsionTerm 3 1 0]\<rparr> (0, 0, 0) (0, 0, 0) (0, 0, 0) (1, 0, 0) =
     \<lparr>res_theta = None, res_pe = None, res_rf = None, res_xf = None, res_yf = None,
      res_sf = None\<rparr>"
  by (simp add: periodic_def Let_def torsionAxis_coincident)

subsection \<open>Scaling and unscaling\<close>

lemma foldl_setScale_length:
  "length (fst (foldl (setScale v c) s ixs)) = length (fst s)"
  "length (snd (foldl (setScale v c) s ixs)) = length (snd s)"
  by (induction ixs arbitrary: s) (simp_all add: setScale_def)

lemma foldl_setScale_fst:
  "i < length (fst s) \<Longrightarrow>
     fst (foldl (setScale v c) s ixs) ! i = (if i \<in> nat ` set ixs then v else fst s ! i)"
  by (induction ixs arbitrary: s) (auto simp: setScale_def nth_list_update)

lemma foldl_setScale_snd:
  "i < length (snd s) \<Longrightarrow>
     snd (foldl (setScale v c) s ixs) ! i = (if i \<in> nat ` set ixs then c else snd s ! i)"
  by (induction ixs arbitrary: s) (auto simp: setScale_def nth_list_update)

lemma scale_length:
  "length (fst (scaleBondedAtoms mm a s)) = length (fst s)"
  "length (snd (scaleBondedAtoms mm a s)) = length (snd s)"
  by (simp_all add: scaleBondedAtoms_def Let_def foldl_setScale_length)

lemma unscale_length:
  "length (fst (unscaleBondedAtoms mm a s)) = length (fst s)"
  "length (snd (unscaleBondedAtoms mm a s)) = length (snd s)"
  by (simp_all add: unscaleBondedAtoms_def Let_def foldl_setScale_length)

lemma roundtrip_fst:
  assumes "i < n"
  shows "fst (unscaleBondedAtoms mm a (scaleBondedAtoms mm a (replicate n 1, replicate n 1))) ! i = 1"
  using assms
  by (simp add: unscaleBondedAtoms_def scaleBondedAtoms_def Let_def foldl_setScale_fst
      foldl_setScale_length)

lemma roundtrip_snd:
  assumes "i < n"
  shows "snd (unscaleBondedAtoms mm a (scaleBondedAtoms mm a (replicate n 1, replicate n 1))) ! i = 1"
  using assms
  by (simp add: unscaleBondedAtoms_def scaleBondedAtoms_def Let_def foldl_setScale_snd
      foldl_setScale_length)

text \<open>
  C6. For an atom whose cross-body chains end at valid atom numbers, whatever the eight
  scale factors: scaling and then unscaling two scratch vectors that are 1 everywhere
  leaves both 1 everywhere.
\<close>

theorem scale_unscale_roundtrip:
  assumes "\<forall>ix \<in> set (scaledIndices a). 0 \<le> ix \<and> ix < int n"
  shows "unscaleBondedAtoms mm a (scaleBondedAtoms mm a (replicate n 1, replicate n 1))
           = (replicate n 1, replicate n 1)"
proof (rule prod_eqI)
  show "fst (unscaleBondedAtoms mm a (scaleBondedAtoms mm a (replicate n 1, replicate n 1)))
      = fst (replicate n 1, replicate n (1::real))"
    by (rule nth_equalityI) (simp_all add: unscale_length scale_length roundtrip_fst)
  show "snd (unscaleBondedAtoms mm a (scaleBondedAtoms mm a (replicate n 1, replicate n 1)))
      = snd (replicate n (1::real), replicate n 1)"
    by (rule nth_equalityI) (simp_all add: unscale_length scale_length roundtrip_snd)
qed

subsection \<open>Adding bonds\<close>

lemma findBond_Some:
  "findBond bs i a b = Some j \<Longrightarrow>
     i \<le> j \<and> j < i + int (length bs) \<and> bs ! nat (j - i) = (a, b)
     \<and> (\<forall>k < nat (j - i). bs ! k \<noteq> (a, b))"
proof (induction bs arbitrary: i)
  case Nil then show ?case by simp
next
  case (Cons x xs)
  show ?case
  proof (cases "fst x = a \<and> snd x = b")
    case True
    with Cons.prems show ?thesis by (auto simp: prod_eq_iff)
  next
    case False
    with Cons.prems have r: "findBond xs (i + 1) a b = Some j" by simp
    from Cons.IH [OF r] have j: "i + 1 \<le> j" "j < i + 1 + int (length xs)"
      "xs ! nat (j - (i + 1)) = (a, b)" "\<forall>k < nat (j - (i + 1)). xs ! k \<noteq> (a, b)" by auto
    have n: "nat (j - i) = Suc (nat (j - (i + 1)))" using j(1) by simp
    show ?thesis
      using j False unfolding n
      by (auto simp: nth_Cons' prod_eq_iff less_Suc_eq_0_disj)
  qed
qed

lemma findBond_None: "findBond bs i a b = None \<longleftrightarrow> (a, b) \<notin> set bs"
  by (induction bs arbitrary: i) (auto simp: prod_eq_iff)

lemma findBond_append_new:
  "(a, b) \<notin> set bs \<Longrightarrow> findBond (bs @ [(a, b)]) i a b = Some (i + int (length bs))"
  by (induction bs arbitrary: i) (auto simp: prod_eq_iff)

lemma isBondedTo_iff: "isBondedTo a n \<longleftrightarrow> n \<in> set (bond12 a)"
  by (auto simp: isBondedTo_def list_ex_iff)


lemma count_list_distinct: "distinct xs \<Longrightarrow> x \<in> set xs \<Longrightarrow> count_list xs x = 1"
  by (induction xs) auto

lemma count_list_notin: "x \<notin> set xs \<Longrightarrow> count_list (xs @ [x]) x = 1"
  by (induction xs) auto

lemma addBond_comm: "addBond mm a b = addBond mm b a"
  by (cases "a < b"; cases "b < a") (auto simp: addBond_def Let_def)

lemma inRange_nat_eq: "inRange a xs \<Longrightarrow> inRange b xs \<Longrightarrow> nat a = nat b \<longleftrightarrow> a = b"
  by (auto simp: inRange_def)

lemma addBond_new:
  assumes "a < b" "isValidAtom mm a" "isValidAtom mm b" "b \<notin> set (bond12 (atoms mm ! nat a))"
  shows "addBond mm a b = Inr (int (length (bonds mm)),
           mm\<lparr>bonds := bonds mm @ [(a, b)],
              atoms := (atoms mm)
                [nat a := (atoms mm ! nat a)\<lparr>bond12 := bond12 (atoms mm ! nat a) @ [b]\<rparr>,
                 nat b := (atoms mm ! nat b)\<lparr>bond12 := bond12 (atoms mm ! nat b) @ [a]\<rparr>]\<rparr>)"
  using assms
  by (auto simp: addBond_def Let_def isBondedTo_iff IntPair_isValid_def isValidAtom_def inRange_def)

lemma addBond_old:
  assumes "a < b" "isValidAtom mm a" "isValidAtom mm b" "b \<in> set (bond12 (atoms mm ! nat a))"
    "bondsConsistent mm"
  shows "\<exists>i. addBond mm a b = Inr (i, mm) \<and> inRange i (bonds mm) \<and> bonds mm ! nat i = (a, b)"
proof -
  have ra: "inRange a (atoms mm)" using assms(2) by (simp add: isValidAtom_def)
  from assms(5) ra assms(4) have 1: "a \<in> set (bond12 (atoms mm ! nat b))"
    and 2: "(min a b, max a b) \<in> set (bonds mm)"
    unfolding bondsConsistent_def by blast+
  from 2 assms(1) have "(a, b) \<in> set (bonds mm)" by (simp add: min_def max_def)
  then obtain i where i: "findBond (bonds mm) 0 a b = Some i"
    using findBond_None [of "bonds mm" 0 a b] by (cases "findBond (bonds mm) 0 a b") auto
  from findBond_Some [OF i] have "inRange i (bonds mm)" "bonds mm ! nat i = (a, b)"
    by (auto simp: inRange_def)
  then show ?thesis
    using assms(1-4) 1 i by (auto simp: addBond_def Let_def isBondedTo_iff)
qed


lemma bonded_nth:
  assumes "a \<noteq> b" "inRange a (atoms mm)" "inRange b (atoms mm)" "inRange c (atoms mm)"
  shows "atoms (bonded mm a b) ! nat c =
     (if c = b then (atoms mm ! nat b)\<lparr>bond12 := bond12 (atoms mm ! nat b) @ [a]\<rparr>
      else if c = a then (atoms mm ! nat a)\<lparr>bond12 := bond12 (atoms mm ! nat a) @ [b]\<rparr>
      else atoms mm ! nat c)"
  using assms by (auto simp: bonded_def inRange_def nth_list_update)

lemma bonded_simps [simp]:
  "inRange c (atoms (bonded mm a b)) = inRange c (atoms mm)"
  "bonds (bonded mm a b) = bonds mm @ [(a, b)]"
  by (simp_all add: bonded_def inRange_def)

lemma bondsConsistent_bonded:
  assumes c: "bondsConsistent mm" and ab: "a < b"
    and ra: "inRange a (atoms mm)" and rb: "inRange b (atoms mm)"
    and nb: "b \<notin> set (bond12 (atoms mm ! nat a))"
  shows "bondsConsistent (bonded mm a b)"
proof -
  have ne: "a \<noteq> b" using ab by simp
  note nth = bonded_nth [OF ne ra rb]
  have 1: "\<And>x. inRange x (atoms mm) \<Longrightarrow> Atom_isValid (atoms mm ! nat x)"
    using c unfolding bondsConsistent_def by simp
  have 2: "\<And>x. inRange x (atoms mm) \<Longrightarrow> distinct (bond12 (atoms mm ! nat x))"
    using c unfolding bondsConsistent_def by simp
  have 3: "\<And>x y. inRange x (atoms mm) \<Longrightarrow> y \<in> set (bond12 (atoms mm ! nat x)) \<Longrightarrow>
              inRange y (atoms mm) \<and> x \<noteq> y \<and> x \<in> set (bond12 (atoms mm ! nat y))
              \<and> (min x y, max x y) \<in> set (bonds mm)"
    using c unfolding bondsConsistent_def by blast
  have 4: "\<And>p. p \<in> set (bonds mm) \<Longrightarrow>
           fst p < snd p \<and> inRange (fst p) (atoms mm) \<and> inRange (snd p) (atoms mm)
           \<and> snd p \<in> set (bond12 (atoms mm ! nat (fst p)))"
    using c unfolding bondsConsistent_def by blast
  have 5: "distinct (bonds mm)"
    using c unfolding bondsConsistent_def by simp
  have na: "a \<notin> set (bond12 (atoms mm ! nat b))"
    using 3 [OF rb, of a] nb by blast
  have nbd: "(a, b) \<notin> set (bonds mm)"
    using 4 [of "(a, b)"] nb by auto
  show ?thesis
    unfolding bondsConsistent_def
  proof (intro conjI allI impI ballI)
    fix x assume x: "inRange x (atoms (bonded mm a b))"
    then have x': "inRange x (atoms mm)" by simp
    show "Atom_isValid (atoms (bonded mm a b) ! nat x)"
      using 1 [OF x'] 1 [OF ra] 1 [OF rb] by (simp add: nth [OF x'] Atom_isValid_def)
    show "distinct (bond12 (atoms (bonded mm a b) ! nat x))"
      using 2 [OF x'] 2 [OF ra] 2 [OF rb] na nb by (auto simp: nth [OF x'])
    fix y assume y: "y \<in> set (bond12 (atoms (bonded mm a b) ! nat x))"
    then consider (old) "y \<in> set (bond12 (atoms mm ! nat x))" | (ab) "x = a" "y = b"
      | (ba) "x = b" "y = a"
      by (auto simp: nth [OF x'] split: if_splits)
    then have "inRange y (atoms mm) \<and> x \<noteq> y \<and> x \<in> set (bond12 (atoms (bonded mm a b) ! nat y))
        \<and> (min x y, max x y) \<in> set (bonds mm @ [(a, b)])"
    proof cases
      case old
      from 3 [OF x' old] have yr: "inRange y (atoms mm)" by simp
      show ?thesis using 3 [OF x' old] by (auto simp: nth [OF yr])
    next
      case ab
      then show ?thesis using rb ne \<open>a < b\<close> by (simp add: nth [OF rb] min_def max_def)
    next
      case ba
      then show ?thesis using ra ne \<open>a < b\<close> by (simp add: nth [OF ra] min_def max_def)
    qed
    then show "inRange y (atoms (bonded mm a b))" "x \<noteq> y"
      "x \<in> set (bond12 (atoms (bonded mm a b) ! nat y))"
      "(min x y, max x y) \<in> set (bonds (bonded mm a b))"
      by simp_all
  next
    fix p assume "p \<in> set (bonds (bonded mm a b))"
    then consider "p \<in> set (bonds mm)" | "p = (a, b)" by auto
    then have "fst p < snd p \<and> inRange (fst p) (atoms mm) \<and> inRange (snd p) (atoms mm)
           \<and> snd p \<in> set (bond12 (atoms (bonded mm a b) ! nat (fst p)))"
    proof cases
      case 1
      from 4 [OF 1] have r: "inRange (fst p) (atoms mm)" by simp
      show ?thesis using 4 [OF 1] by (auto simp: nth [OF r])
    next
      case 2
      then show ?thesis using ab ra rb by (simp add: nth [OF ra])
    qed
    then show "fst p < snd p" "inRange (fst p) (atoms (bonded mm a b))"
      "inRange (snd p) (atoms (bonded mm a b))"
      "snd p \<in> set (bond12 (atoms (bonded mm a b) ! nat (fst p)))"
      by simp_all
  next
    show "distinct (bonds (bonded mm a b))" using 5 nbd by simp
  qed
qed


lemma bondsConsistent_valid:
  "bondsConsistent mm \<Longrightarrow> inRange a (atoms mm) \<Longrightarrow> isValidAtom mm a"
  unfolding bondsConsistent_def isValidAtom_def by blast

lemma addBond_lt:
  assumes c: "bondsConsistent mm" and va: "isValidAtom mm a" and vb: "isValidAtom mm b"
    and ab: "a < b"
  shows "\<exists>bid mm'. addBond mm a b = Inr (bid, mm')
     \<and> inRange bid (bonds mm') \<and> bonds mm' ! nat bid = (a, b)
     \<and> count_list (bonds mm') (a, b) = 1
     \<and> count_list (bond12 (atoms mm' ! nat a)) b = 1
     \<and> count_list (bond12 (atoms mm' ! nat b)) a = 1
     \<and> (if b \<in> set (bond12 (atoms mm ! nat a)) then mm' = mm
         else bid = int (length (bonds mm)) \<and> bonds mm' = bonds mm @ [(a, b)]
            \<and> bond12 (atoms mm' ! nat a) = bond12 (atoms mm ! nat a) @ [b]
            \<and> bond12 (atoms mm' ! nat b) = bond12 (atoms mm ! nat b) @ [a])
     \<and> addBond mm' a b = Inr (bid, mm')
     \<and> bondsConsistent mm'"
proof -
  have ra: "inRange a (atoms mm)" and rb: "inRange b (atoms mm)"
    using va vb by (simp_all add: isValidAtom_def)
  have ne: "a \<noteq> b" using ab by simp
  have d2: "\<And>x. inRange x (atoms mm) \<Longrightarrow> distinct (bond12 (atoms mm ! nat x))"
    using c unfolding bondsConsistent_def by simp
  have d3: "\<And>x y. inRange x (atoms mm) \<Longrightarrow> y \<in> set (bond12 (atoms mm ! nat x)) \<Longrightarrow>
              x \<in> set (bond12 (atoms mm ! nat y))"
    using c unfolding bondsConsistent_def by blast
  have d4: "\<And>p. p \<in> set (bonds mm) \<Longrightarrow> snd p \<in> set (bond12 (atoms mm ! nat (fst p)))"
    using c unfolding bondsConsistent_def by blast
  have d5: "distinct (bonds mm)"
    using c unfolding bondsConsistent_def by simp
  show ?thesis
  proof (cases "b \<in> set (bond12 (atoms mm ! nat a))")
    case True
    from addBond_old [OF ab va vb True c] obtain i where
      i: "addBond mm a b = Inr (i, mm)" "inRange i (bonds mm)" "bonds mm ! nat i = (a, b)"
      by blast
    have "(a, b) \<in> set (bonds mm)"
      using i(2,3) by (metis inRange_def nat_less_iff nth_mem)
    then have c1: "count_list (bonds mm) (a, b) = 1" using d5 by (simp add: count_list_distinct)
    have c2: "count_list (bond12 (atoms mm ! nat a)) b = 1"
      using d2 [OF ra] True by (simp add: count_list_distinct)
    have c3: "count_list (bond12 (atoms mm ! nat b)) a = 1"
      using d2 [OF rb] d3 [OF ra True] by (simp add: count_list_distinct)
    show ?thesis using i c1 c2 c3 True c by simp
  next
    case False
    have new: "addBond mm a b = Inr (int (length (bonds mm)), bonded mm a b)"
      using addBond_new [OF ab va vb False] by (simp add: bonded_def)
    have c': "bondsConsistent (bonded mm a b)"
      by (rule bondsConsistent_bonded [OF c ab ra rb False])
    have na: "a \<notin> set (bond12 (atoms mm ! nat b))"
      using d3 [OF rb, of a] False by blast
    have nbd: "(a, b) \<notin> set (bonds mm)"
      using d4 [of "(a, b)"] False by auto
    note nth = bonded_nth [OF ne ra rb]
    have ba: "bond12 (atoms (bonded mm a b) ! nat a) = bond12 (atoms mm ! nat a) @ [b]"
      using ne by (simp add: nth [OF ra])
    have bb: "bond12 (atoms (bonded mm a b) ! nat b) = bond12 (atoms mm ! nat b) @ [a]"
      by (simp add: nth [OF rb])
    have va': "isValidAtom (bonded mm a b) a" and vb': "isValidAtom (bonded mm a b) b"
      using bondsConsistent_valid [OF c'] ra rb by simp_all
    have "b \<in> set (bond12 (atoms (bonded mm a b) ! nat a))" by (simp add: ba)
    from addBond_old [OF ab va' vb' this c'] obtain i where
      i: "addBond (bonded mm a b) a b = Inr (i, bonded mm a b)"
         "inRange i (bonds (bonded mm a b))" "bonds (bonded mm a b) ! nat i = (a, b)"
      by blast
    have lt: "nat i < Suc (length (bonds mm))"
      using i(2) by (auto simp: inRange_def)
    have "nat i = length (bonds mm)"
    proof (rule ccontr)
      assume "nat i \<noteq> length (bonds mm)"
      with lt have l: "nat i < length (bonds mm)" by simp
      then have "bonds mm ! nat i = (a, b)" using i(3) by (simp add: nth_append)
      with l have "(a, b) \<in> set (bonds mm)" by (metis nth_mem)
      with nbd show False by simp
    qed
    then have ii: "i = int (length (bonds mm))" using i(2) by (auto simp: inRange_def)
    show ?thesis
      using new c' False i(1) ii ba bb na nbd
      by (simp add: count_list_notin inRange_def)
  qed
qed

text \<open>
  C7. In a subsystem whose bond graph is consistent, for two different valid atoms
  \<open>a\<close> and \<open>b\<close>: \<^verbatim>\<open>addBond(a,b)\<close> returns the id of a stored bond whose atoms are
  \<open>(min a b, max a b)\<close>; afterwards that bond is stored once and each of the two atoms
  lists the other once; when they were not bonded the bond and the two 1-2 entries are
  appended, and when they were nothing changes; the call \<^verbatim>\<open>addBond(b,a)\<close> that follows
  returns the same id and changes nothing; and the bond graph is consistent again.
\<close>

theorem addBond_canonical_once:
  assumes c: "bondsConsistent mm" and va: "isValidAtom mm a" and vb: "isValidAtom mm b"
    and ne: "a \<noteq> b"
  shows "\<exists>bid mm'. addBond mm a b = Inr (bid, mm')
     \<and> inRange bid (bonds mm') \<and> bonds mm' ! nat bid = (min a b, max a b)
     \<and> count_list (bonds mm') (min a b, max a b) = 1
     \<and> count_list (bond12 (atoms mm' ! nat a)) b = 1
     \<and> count_list (bond12 (atoms mm' ! nat b)) a = 1
     \<and> (if isBondedTo (atoms mm ! nat a) b then mm' = mm
         else bid = int (length (bonds mm)) \<and> bonds mm' = bonds mm @ [(min a b, max a b)]
            \<and> bond12 (atoms mm' ! nat a) = bond12 (atoms mm ! nat a) @ [b]
            \<and> bond12 (atoms mm' ! nat b) = bond12 (atoms mm ! nat b) @ [a])
     \<and> addBond mm' b a = Inr (bid, mm')
     \<and> bondsConsistent mm'"
proof (cases "a < b")
  case True
  then have m: "min a b = a" "max a b = b" by simp_all
  from addBond_lt [OF c va vb True] show ?thesis
    unfolding m isBondedTo_iff addBond_comm [of _ b a] by blast
next
  case False
  with ne have ba: "b < a" by simp
  then have m: "min a b = b" "max a b = a" by simp_all
  have ra: "inRange a (atoms mm)" and rb: "inRange b (atoms mm)"
    using va vb by (simp_all add: isValidAtom_def)
  have sym: "b \<in> set (bond12 (atoms mm ! nat a)) \<longleftrightarrow> a \<in> set (bond12 (atoms mm ! nat b))"
    using c ra rb unfolding bondsConsistent_def by blast
  from addBond_lt [OF c vb va ba] obtain bid mm' where
    h: "addBond mm b a = Inr (bid, mm')" "inRange bid (bonds mm')"
       "bonds mm' ! nat bid = (b, a)" "count_list (bonds mm') (b, a) = 1"
       "count_list (bond12 (atoms mm' ! nat b)) a = 1"
       "count_list (bond12 (atoms mm' ! nat a)) b = 1"
       "if a \<in> set (bond12 (atoms mm ! nat b)) then mm' = mm
         else bid = int (length (bonds mm)) \<and> bonds mm' = bonds mm @ [(b, a)]
            \<and> bond12 (atoms mm' ! nat b) = bond12 (atoms mm ! nat b) @ [a]
            \<and> bond12 (atoms mm' ! nat a) = bond12 (atoms mm ! nat a) @ [b]"
       "addBond mm' b a = Inr (bid, mm')" "bondsConsistent mm'"
    by blast
  show ?thesis
    unfolding m isBondedTo_iff sym addBond_comm [of mm a b]
    apply (rule exI [of _ bid])
    apply (rule exI [of _ mm'])
    using h by (simp split: if_splits)
qed


lemma sixAtoms_nth:
  assumes "inRange a (atoms sixAtoms)"
  shows "atoms sixAtoms ! nat a = mkAtom 0 a"
proof -
  have a: "0 \<le> a" "nat a < 6" using assms by (auto simp: sixAtoms_def inRange_def)
  have "map (\<lambda>i. mkAtom 0 (int i)) [0..<6] ! nat a = mkAtom 0 (int ([0..<6] ! nat a))"
    using a(2) by (intro nth_map) simp
  also have "[0..<6] ! nat a = nat a" using a(2) by (subst nth_upt) simp_all
  finally show ?thesis using a(1) by (simp add: sixAtoms_def)
qed

lemma sixAtoms_consistent: "bondsConsistent sixAtoms"
proof -
  have b: "bonds sixAtoms = []"
    by (simp add: sixAtoms_def theNewRep_def addCluster_def Let_def blankRep_def)
  show ?thesis
    unfolding bondsConsistent_def
    by (simp add: b sixAtoms_nth mkAtom_def Atom_isValid_def inRange_def)
qed

theorem addBond_canonical_once_witness:
  "bondsConsistent sixAtoms \<and> isValidAtom sixAtoms 5 \<and> isValidAtom sixAtoms 2
   \<and> (\<exists>bid mm'. addBond sixAtoms 5 2 = Inr (bid, mm')
         \<and> bonds mm' ! nat bid = (2, 5)
         \<and> count_list (bonds mm') (2, 5) = 1
         \<and> count_list (bond12 (atoms mm' ! 5)) 2 = 1
         \<and> count_list (bond12 (atoms mm' ! 2)) 5 = 1
         \<and> addBond mm' 2 5 = Inr (bid, mm'))"
proof -
  have v: "isValidAtom sixAtoms 5" "isValidAtom sixAtoms 2"
    by (simp_all add: isValidAtom_def sixAtoms_def inRange_def mkAtom_def Atom_isValid_def)
  from addBond_canonical_once [OF sixAtoms_consistent v] sixAtoms_consistent v
  show ?thesis by auto
qed

subsection \<open>Realization: the bonded neighbour lists\<close>

lemma extendOne_fold_fst:
  "fst (foldl (extendOne mk ch) st ns) = fst st \<union> set ns"
  by (induction ns arbitrary: st) (auto simp: extendOne_def)

lemma extendOne_fold_tails:
  assumes "\<And>c n. lastOf (mk c n) = n"
  shows "lastOf ` set (snd (foldl (extendOne mk ch) st ns)) = lastOf ` set (snd st) \<union> (set ns - fst st)"
  using assms
  by (induction ns arbitrary: st) (auto simp: extendOne_def)

lemma extendOne_fold_from:
  "x \<in> set (snd (foldl (extendOne mk ch) st ns)) \<Longrightarrow>
     x \<in> set (snd st) \<or> (\<exists>n \<in> set ns. x = mk ch n)"
proof (induction ns arbitrary: st)
  case Nil
  then show ?case by simp
next
  case (Cons n ns)
  from Cons.prems have "x \<in> set (snd (foldl (extendOne mk ch) (extendOne mk ch st n) ns))"
    by simp
  from Cons.IH [OF this] have "x \<in> set (snd (extendOne mk ch st n)) \<or> (\<exists>k \<in> set ns. x = mk ch k)" .
  moreover have "x \<in> set (snd (extendOne mk ch st n)) \<Longrightarrow> x \<in> set (snd st) \<or> x = mk ch n"
    by (auto simp: extendOne_def split: if_splits)
  ultimately show ?case by auto
qed

lemma extendChains_fst:
  "fst (extendChains as src mk chs st)
     = fst st \<union> (\<Union>ch \<in> set chs. set (bond12 (as ! nat (src ch))))"
  unfolding extendChains_def
  by (induction chs arbitrary: st) (auto simp: extendOne_fold_fst)

lemma extendChains_tails:
  assumes "\<And>c n. lastOf (mk c n) = n"
  shows "lastOf ` set (snd (extendChains as src mk chs st))
     = lastOf ` set (snd st) \<union> ((\<Union>ch \<in> set chs. set (bond12 (as ! nat (src ch)))) - fst st)"
  unfolding extendChains_def
proof (induction chs arbitrary: st)
  case Nil
  then show ?case by simp
next
  case (Cons c cs)
  show ?case
    by (simp add: Cons.IH extendOne_fold_tails [of lastOf, OF assms] extendOne_fold_fst) blast
qed

lemma extendChains_from:
  "x \<in> set (snd (extendChains as src mk chs st)) \<Longrightarrow>
     x \<in> set (snd st) \<or> (\<exists>ch \<in> set chs. \<exists>n \<in> set (bond12 (as ! nat (src ch))). x = mk ch n)"
  unfolding extendChains_def
proof (induction chs arbitrary: st)
  case Nil
  then show ?case by simp
next
  case (Cons c cs)
  from Cons.IH [of "foldl (extendOne mk c) st (bond12 (as ! nat (src c)))"] Cons.prems
  show ?case by (auto dest: extendOne_fold_from)
qed

lemma extendChains_nothing_new:
  assumes "(\<Union>ch \<in> set chs. set (bond12 (as ! nat (src ch)))) \<subseteq> fst st"
  shows "extendChains as src mk chs st = st"
  using assms unfolding extendChains_def
proof (induction chs arbitrary: st)
  case Nil
  then show ?case by simp
next
  case (Cons c cs)
  have "foldl (extendOne mk c) st ns = st" if "set ns \<subseteq> fst st" for ns
    using that by (induction ns) (auto simp: extendOne_def)
  with Cons show ?case by simp
qed

lemma extendOne_fold_distinct:
  assumes "\<And>c n. lastOf (mk c n) = n"
    and "distinct (map lastOf (snd st))" "lastOf ` set (snd st) \<subseteq> fst st"
  shows "distinct (map lastOf (snd (foldl (extendOne mk ch) st ns)))
     \<and> lastOf ` set (snd (foldl (extendOne mk ch) st ns)) \<subseteq> fst (foldl (extendOne mk ch) st ns)"
  using assms(2,3)
proof (induction ns arbitrary: st)
  case Nil
  then show ?case by simp
next
  case (Cons n ns)
  have "distinct (map lastOf (snd (extendOne mk ch st n)))
      \<and> lastOf ` set (snd (extendOne mk ch st n)) \<subseteq> fst (extendOne mk ch st n)"
    using Cons.prems assms(1) by (auto simp: extendOne_def)
  then show ?case using Cons.IH [of "extendOne mk ch st n"] by simp
qed

lemma extendChains_distinct:
  assumes "\<And>c n. lastOf (mk c n) = n"
    and "distinct (map lastOf (snd st))" "lastOf ` set (snd st) \<subseteq> fst st"
  shows "distinct (map lastOf (snd (extendChains as src mk chs st)))
     \<and> lastOf ` set (snd (extendChains as src mk chs st)) \<subseteq> fst (extendChains as src mk chs st)"
  using assms(2,3) unfolding extendChains_def
proof (induction chs arbitrary: st)
  case Nil
  then show ?case by simp
next
  case (Cons c cs)
  from extendOne_fold_distinct [of lastOf mk st c "bond12 (as ! nat (src c))", OF assms(1) Cons.prems]
  show ?case using Cons.IH [of "foldl (extendOne mk c) st (bond12 (as ! nat (src c)))"] by simp
qed

lemma distinct_map_sort:
  "distinct (map f (sort xs)) = distinct (map f xs)"
  by (simp add: distinct_map)

lemma idsAgree_refl [simp]: "idsAgree as as"
  by (simp add: idsAgree_def)

lemma idsAgree_trans: "idsAgree as as' \<Longrightarrow> idsAgree as' as'' \<Longrightarrow> idsAgree as as''"
  by (simp add: idsAgree_def)

lemma idsAgree_update:
  "atomId A = atomId (as ! i) \<Longrightarrow> chargedAtomTypeId A = chargedAtomTypeId (as ! i)
     \<Longrightarrow> idsAgree as (as[i := A])"
  by (cases "i < length as") (auto simp: idsAgree_def nth_list_update)

lemma getAtomClassNum_cong:
  assumes "idsAgree (atoms mm) (atoms mm')" "chargedAtomTypes mm' = chargedAtomTypes mm"
  shows "getAtomClassNum mm' x = getAtomClassNum mm x"
proof -
  have l: "length (atoms mm') = length (atoms mm)" using assms by (simp add: idsAgree_def)
  show ?thesis
  proof (cases "inRange x (atoms mm)")
    case True
    then have "nat x < length (atoms mm)" by (auto simp: inRange_def)
    with assms have "atomId (atoms mm' ! nat x) = atomId (atoms mm ! nat x)"
      "chargedAtomTypeId (atoms mm' ! nat x) = chargedAtomTypeId (atoms mm ! nat x)"
      by (simp_all add: idsAgree_def)
    then show ?thesis
      using l assms(2)
      by (simp add: getAtomClassNum_def isValidAtom_def inRange_def Atom_isValid_def)
  next
    case False
    then have "\<not> isValidAtom mm x" "\<not> isValidAtom mm' x"
      using l by (auto simp: isValidAtom_def inRange_def)
    then show ?thesis by (simp add: getAtomClassNum_def)
  qed
qed

lemma stretchFor_cong:
  assumes "idsAgree (atoms mm) (atoms mm')" "chargedAtomTypes mm' = chargedAtomTypes mm"
    "bondStretch mm' = bondStretch mm"
  shows "stretchFor mm' = stretchFor mm"
  by (intro ext)
    (simp add: stretchFor_def getAtomClassNum_cong [OF assms(1,2)] getBondStretch_def assms(3))

lemma bendFor_cong:
  assumes "idsAgree (atoms mm) (atoms mm')" "chargedAtomTypes mm' = chargedAtomTypes mm"
    "bondBend mm' = bondBend mm"
  shows "bendFor mm' = bendFor mm"
  by (intro ext)
    (simp add: bendFor_def getAtomClassNum_cong [OF assms(1,2)] getBondBend_def assms(3))

lemma torsionFor_cong:
  assumes "idsAgree (atoms mm) (atoms mm')" "chargedAtomTypes mm' = chargedAtomTypes mm"
    "bondTorsion mm' = bondTorsion mm"
  shows "torsionFor mm' = torsionFor mm"
  by (intro ext)
    (simp add: torsionFor_def getAtomClassNum_cong [OF assms(1,2)] getBondTorsion_def assms(3))

lemma resolved_cong:
  assumes "idsAgree (atoms mm) (atoms mm')" "chargedAtomTypes mm' = chargedAtomTypes mm"
    "bondStretch mm' = bondStretch mm" "bondBend mm' = bondBend mm"
    "bondTorsion mm' = bondTorsion mm"
  shows "resolved mm' a A = resolved mm a A"
  by (simp add: resolved_def stretchFor_cong [OF assms(1,2,3)] bendFor_cong [OF assms(1,2,4)]
      torsionFor_cong [OF assms(1,2,5)])

lemma graphIs_update:
  assumes "graphIs N as" "set (bond12 A) = set (bond12 (as ! i))" "i < length as"
    "distinct (bond12 A)"
  shows "graphIs N (as[i := A])"
  unfolding graphIs_def
proof (intro allI impI)
  fix x assume "inRange x (as[i := A])"
  then have x: "inRange x as" by (simp add: inRange_def)
  from assms(1) x have n: "set (bond12 (as ! nat x)) = N x" and r: "\<forall>y \<in> N x. inRange y as"
    and d: "distinct (bond12 (as ! nat x))"
    unfolding graphIs_def by blast+
  have "set (bond12 (as[i := A] ! nat x)) = set (bond12 (as ! nat x))"
    using assms(2,3) by (cases "nat x = i") simp_all
  moreover have "distinct (bond12 (as[i := A] ! nat x))"
    using assms(3,4) d by (cases "nat x = i") simp_all
  ultimately show "set (bond12 (as[i := A] ! nat x)) = N x \<and> (\<forall>y\<in>N x. inRange y (as[i := A]))
      \<and> distinct (bond12 (as[i := A] ! nat x))"
    using n r by (simp add: inRange_def)
qed

lemma realizeAtomBonds_step:
  assumes ok: "realizeAtomBonds mm anum = Some mm'"
    and ra: "inRange anum (atoms mm)" and g: "graphIs N (atoms mm)"
  shows "\<exists>A. atoms mm' = (atoms mm)[nat anum := A] \<and> mm' = mm\<lparr>atoms := atoms mm'\<rparr>
     \<and> atomId A = atomId (atoms mm ! nat anum)
     \<and> chargedAtomTypeId A = chargedAtomTypeId (atoms mm ! nat anum)
     \<and> bodyId A = bodyId (atoms mm ! nat anum)
     \<and> station_B A = station_B (atoms mm ! nat anum)
     \<and> chased N anum A \<and> resolved mm anum A"
proof -
  define a0 where "a0 = atoms mm ! nat anum"
  define b12 where "b12 = sort (bond12 a0)"
  define as1 where "as1 = (atoms mm)[nat anum := a0\<lparr>bond12 := b12\<rparr>]"
  define st13 where "st13 = extendChains as1 (\<lambda>b. b) (\<lambda>b n. (b, n)) b12 (insert anum (set b12), [])"
  define b13 where "b13 = sort (snd st13)"
  define st14 where "st14 = extendChains as1 snd (\<lambda>c n. (fst c, snd c, n)) b13 (fst st13, [])"
  define b14 where "b14 = sort (snd st14)"
  define st15 where "st15 = extendChains as1 (\<lambda>c. fst (snd c))
                   (\<lambda>c n. (fst c, fst (snd c), snd (snd c), n)) b14 (fst st14, [])"
  note defs = a0_def b12_def as1_def st13_def b13_def st14_def b14_def st15_def
  from ok obtain xb12 xb13 xb14 xb15 st bd tr where
    mm': "mm' = mm\<lparr>atoms := (atoms mm)
                      [nat anum := a0\<lparr>bond12 := b12, bond13 := b13, bond14 := b14,
                                      bond15 := sort (snd st15),
                                      xbond12 := xb12, xbond13 := xb13, xbond14 := xb14,
                                      xbond15 := xb15, stretch := st, bend := bd,
                                      torsion := tr\<rparr>]\<rparr>"
    and st: "mapM (stretchFor (mm\<lparr>atoms := as1\<rparr>) anum) xb12 = Some st"
    and bd: "mapM (bendFor (mm\<lparr>atoms := as1\<rparr>) anum) xb13 = Some bd"
    and tr: "mapM (torsionFor (mm\<lparr>atoms := as1\<rparr>) anum) xb14 = Some tr"
    and xb: "set xb12 \<subseteq> set b12" "set xb13 \<subseteq> set b13" "set xb14 \<subseteq> set b14"
      "set xb15 \<subseteq> set (sort (snd st15))"
    unfolding realizeAtomBonds_def Let_def defs [symmetric]
    by (auto simp: bind_eq_Some_conv)
  define A where "A = a0\<lparr>bond12 := b12, bond13 := b13, bond14 := b14,
                                      bond15 := sort (snd st15),
                                      xbond12 := xb12, xbond13 := xb13, xbond14 := xb14,
                                      xbond15 := xb15, stretch := st, bend := bd,
                                      torsion := tr\<rparr>"
  have lt: "nat anum < length (atoms mm)" using ra by (auto simp: inRange_def)
  have 1: "atoms mm' = (atoms mm)[nat anum := A]" "mm' = mm\<lparr>atoms := atoms mm'\<rparr>"
    by (simp_all add: mm' A_def)
  have 2: "atomId A = atomId (atoms mm ! nat anum)"
     "chargedAtomTypeId A = chargedAtomTypeId (atoms mm ! nat anum)"
     "bodyId A = bodyId (atoms mm ! nat anum)"
     "station_B A = station_B (atoms mm ! nat anum)"
    by (simp_all add: A_def a0_def)
  have ia: "idsAgree (atoms mm) as1"
    unfolding as1_def by (rule idsAgree_update) (simp_all add: a0_def)
  have 4: "resolved mm anum A"
    using st bd tr
    by (simp add: resolved_def A_def stretchFor_cong [of mm "mm\<lparr>atoms := as1\<rparr>"]
        bendFor_cong [of mm "mm\<lparr>atoms := as1\<rparr>"]
        torsionFor_cong [of mm "mm\<lparr>atoms := as1\<rparr>"] ia)
  have d0: "distinct (bond12 a0)"
    using g ra unfolding graphIs_def a0_def by blast
  have d12: "distinct b12" using d0 by (simp add: b12_def)
  have g1: "graphIs N as1"
    unfolding as1_def by (rule graphIs_update [OF g]) (simp_all add: lt d12, simp add: b12_def a0_def)
  have M: "\<And>x. inRange x as1 \<Longrightarrow> set (bond12 (as1 ! nat x)) = N x"
    and R: "\<And>x y. inRange x as1 \<Longrightarrow> y \<in> N x \<Longrightarrow> inRange y as1"
    using g1 unfolding graphIs_def by blast+
  have ra1: "inRange anum as1" using ra by (simp add: as1_def inRange_def)
  have s12: "set b12 = N anum"
    using M [OF ra1] lt by (simp add: as1_def)
  have u12: "(\<Union>ch \<in> set b12. set (bond12 (as1 ! nat ch))) = (\<Union>b \<in> N anum. N b)"
    unfolding s12 using M R [OF ra1] by auto
  have f13: "fst st13 = insert anum (N anum) \<union> (\<Union>b \<in> N anum. N b)"
    unfolding st13_def extendChains_fst u12 by (simp add: s12)
  have t13: "snd ` set b13 = dist2 N anum"
    unfolding b13_def st13_def set_sort extendChains_tails [of snd, OF snd_conv] u12
    by (auto simp: s12 dist2_def)
  have r13: "\<And>c. c \<in> dist2 N anum \<Longrightarrow> inRange c as1"
    unfolding dist2_def using R ra1 by blast
  have u13: "(\<Union>ch \<in> set b13. set (bond12 (as1 ! nat (snd ch)))) = (\<Union>c \<in> dist2 N anum. N c)"
    unfolding t13 [symmetric] using M r13 [unfolded t13 [symmetric]] by auto
  have f14: "fst st14 = fst st13 \<union> (\<Union>c \<in> dist2 N anum. N c)"
    unfolding st14_def extendChains_fst u13 by simp
  have t14: "(\<lambda>c. snd (snd c)) ` set b14 = dist3 N anum"
    unfolding b14_def st14_def set_sort
      extendChains_tails [of "\<lambda>c. snd (snd c)" "\<lambda>c n. (fst c, snd c, n)", simplified] u13
    by (auto simp: f13 dist3_def)
  have mid: "fst (snd ch) \<in> snd ` set b13" if "ch \<in> set b14" for ch
    using that extendChains_from [of ch as1 snd "\<lambda>c n. (fst c, snd c, n)" b13 "(fst st13, [])"]
    unfolding b14_def st14_def by (auto simp: image_iff) (metis snd_conv)
  have "(\<Union>ch \<in> set b14. set (bond12 (as1 ! nat (fst (snd ch))))) \<subseteq> fst st14"
    unfolding f14 using mid M r13 unfolding t13 by blast
  then have "st15 = (fst st14, [])"
    unfolding st15_def by (rule extendChains_nothing_new [where st = "(fst st14, [])", simplified])
  then have b15: "sort (snd st15) = []" by simp
  have d13: "distinct (map snd b13)"
    unfolding b13_def st13_def distinct_map_sort
    using extendChains_distinct [of snd "\<lambda>b n. (b, n)" "(insert anum (set b12), [])" as1 "\<lambda>b. b" b12]
    by simp
  have d14: "distinct (map (\<lambda>c. snd (snd c)) b14)"
    unfolding b14_def st14_def distinct_map_sort
    using extendChains_distinct [of "\<lambda>c. snd (snd c)" "\<lambda>c n. (fst c, snd c, n)" "(fst st13, [])"
        as1 snd b13]
    by simp
  have 3: "chased N anum A"
    unfolding chased_def using s12 d12 t13 d13 t14 d14 b15 xb by (simp add: A_def)
  show ?thesis using 1 2 3 4 by blast
qed

lemma inRange_length: "length as' = length as \<Longrightarrow> inRange x as' = inRange x as"
  by (simp add: inRange_def)

lemma inRange_nat_inj: "inRange x as \<Longrightarrow> inRange y as \<Longrightarrow> nat x = nat y \<Longrightarrow> x = y"
  by (auto simp: inRange_def)

lemma realize_loop:
  assumes "forEach realizeAtomBonds xs s = Some s'" "distinct xs"
    "\<forall>x \<in> set xs. inRange x (atoms s)" "graphIs N (atoms s)"
  shows "s' = s\<lparr>atoms := atoms s'\<rparr> \<and> idsAgree (atoms s) (atoms s') \<and> graphIs N (atoms s')
     \<and> (\<forall>x. inRange x (atoms s) \<longrightarrow> bodyId (atoms s' ! nat x) = bodyId (atoms s ! nat x)
            \<and> station_B (atoms s' ! nat x) = station_B (atoms s ! nat x))
     \<and> (\<forall>x \<in> set xs. chased N x (atoms s' ! nat x) \<and> resolved s x (atoms s' ! nat x))
     \<and> (\<forall>x. inRange x (atoms s) \<longrightarrow> x \<notin> set xs \<longrightarrow> atoms s' ! nat x = atoms s ! nat x)"
  using assms
proof (induction xs arbitrary: s)
  case Nil
  then show ?case by simp
next
  case (Cons x xs)
  from Cons.prems(1) obtain s1 where
    s1: "realizeAtomBonds s x = Some s1" and rest: "forEach realizeAtomBonds xs s1 = Some s'"
    by (auto split: option.splits)
  have rx: "inRange x (atoms s)" using Cons.prems(3) by simp
  then have lt: "nat x < length (atoms s)" by (auto simp: inRange_def)
  from realizeAtomBonds_step [OF s1 rx Cons.prems(4)] obtain A where
    A: "atoms s1 = (atoms s)[nat x := A]" "s1 = s\<lparr>atoms := atoms s1\<rparr>"
       "atomId A = atomId (atoms s ! nat x)"
       "chargedAtomTypeId A = chargedAtomTypeId (atoms s ! nat x)"
       "bodyId A = bodyId (atoms s ! nat x)" "station_B A = station_B (atoms s ! nat x)"
       "chased N x A" "resolved s x A"
    by blast
  have len1: "length (atoms s1) = length (atoms s)" by (simp add: A(1))
  have ia1: "idsAgree (atoms s) (atoms s1)"
    unfolding A(1) by (rule idsAgree_update) (simp_all add: A(3,4))
  have "set (bond12 A) = set (bond12 (atoms s ! nat x))"
    using A(7) Cons.prems(4) rx by (simp add: chased_def graphIs_def)
  moreover have "distinct (bond12 A)" using A(7) by (simp add: chased_def)
  ultimately have g1: "graphIs N (atoms s1)"
    unfolding A(1) by (intro graphIs_update [OF Cons.prems(4) _ lt])
  have r1: "\<forall>y \<in> set xs. inRange y (atoms s1)"
    using Cons.prems(3) by (simp add: inRange_length [OF len1])
  have d: "distinct xs" "x \<notin> set xs" using Cons.prems(2) by simp_all
  from Cons.IH [OF rest d(1) r1 g1] have
    ih1: "s' = s1\<lparr>atoms := atoms s'\<rparr>" and ih2: "idsAgree (atoms s1) (atoms s')"
    and ih3: "graphIs N (atoms s')"
    and ih4: "\<And>z. inRange z (atoms s1) \<Longrightarrow> bodyId (atoms s' ! nat z) = bodyId (atoms s1 ! nat z)
            \<and> station_B (atoms s' ! nat z) = station_B (atoms s1 ! nat z)"
    and ih5: "\<And>z. z \<in> set xs \<Longrightarrow> chased N z (atoms s' ! nat z) \<and> resolved s1 z (atoms s' ! nat z)"
    and ih6: "\<And>z. inRange z (atoms s1) \<Longrightarrow> z \<notin> set xs \<Longrightarrow> atoms s' ! nat z = atoms s1 ! nat z"
    by blast+
  have c1: "s' = s\<lparr>atoms := atoms s'\<rparr>"
    by (subst ih1, subst A(2)) simp
  have c2: "idsAgree (atoms s) (atoms s')" by (rule idsAgree_trans [OF ia1 ih2])
  have nth1: "atoms s1 ! nat z = (if z = x then A else atoms s ! nat z)" if "inRange z (atoms s)" for z
  proof (cases "z = x")
    case True
    then show ?thesis using lt by (simp add: A(1))
  next
    case False
    then have "nat x \<noteq> nat z" using inRange_nat_inj [OF that rx] by auto
    then show ?thesis using False by (simp add: A(1))
  qed
  have c4: "bodyId (atoms s' ! nat z) = bodyId (atoms s ! nat z)
            \<and> station_B (atoms s' ! nat z) = station_B (atoms s ! nat z)"
    if "inRange z (atoms s)" for z
    using ih4 [of z] that nth1 [OF that] A(5,6) by (simp add: inRange_length [OF len1])
  have rc: "resolved s1 z B = resolved s z B" for z B
    by (subst A(2)) (rule resolved_cong, simp_all add: ia1)
  have c5: "chased N z (atoms s' ! nat z) \<and> resolved s z (atoms s' ! nat z)"
    if "z \<in> set (x # xs)" for z
  proof (cases "z = x")
    case True
    have "atoms s' ! nat x = atoms s1 ! nat x"
      using ih6 [of x] rx d(2) by (simp add: inRange_length [OF len1])
    then show ?thesis using True A(7,8) nth1 [OF rx] by simp
  next
    case False
    with that have "z \<in> set xs" by simp
    from ih5 [OF this] show ?thesis by (simp add: rc)
  qed
  have c6: "atoms s' ! nat z = atoms s ! nat z"
    if "inRange z (atoms s)" "z \<notin> set (x # xs)" for z
    using ih6 [of z] that nth1 [OF that(1)] by (simp add: inRange_length [OF len1])
  show ?case using c1 c2 ih3 c4 c5 c6 by blast
qed

lemma assignAtoms_core:
  "assignAtoms bnum aps as = Some as' \<Longrightarrow> map atomCore as' = map atomCore as"
proof (induction aps arbitrary: as)
  case Nil
  then show ?case by simp
next
  case (Cons ap aps)
  define i where "i = nat (placedAtomId ap)"
  define a' where "a' = (as ! i)\<lparr>bodyId := bnum, station_B := Some (station ap)\<rparr>"
  from Cons.prems have r: "assignAtoms bnum aps (as[i := a']) = Some as'"
    and lt: "i < length as"
    by (auto simp: Let_def i_def a'_def inRange_def split: if_splits)
  have "map atomCore (as[i := a']) = (map atomCore as)[i := atomCore (as ! i)]"
    by (simp add: map_update a'_def atomCore_def)
  also have "\<dots> = map atomCore as"
    using lt by (metis list_update_id map_update)
  finally show ?case using Cons.IH [OF r] by simp
qed

lemma assignBodies_core:
  "assignBodies bnum bs as = Some as' \<Longrightarrow> map atomCore as' = map atomCore as"
proof (induction bs arbitrary: bnum as)
  case Nil
  then show ?case by simp
next
  case (Cons b bs)
  show ?case
  proof (cases "Body_isValid b")
    case False
    with Cons show ?thesis by simp
  next
    case True
    with Cons.prems obtain as1 where 1: "assignAtoms bnum (allAtoms b) as = Some as1"
      and 2: "assignBodies (bnum + 1) bs as1 = Some as'"
      by (auto split: option.splits)
    from Cons.IH [OF 2] assignAtoms_core [OF 1] show ?thesis by simp
  qed
qed

lemma core_nth:
  assumes "map atomCore as' = map atomCore as" "i < length as"
  shows "atomId (as' ! i) = atomId (as ! i)"
    "chargedAtomTypeId (as' ! i) = chargedAtomTypeId (as ! i)"
    "bond12 (as' ! i) = bond12 (as ! i)"
proof -
  have l: "length as' = length as" using assms(1) by (rule map_eq_imp_length_eq)
  have "map atomCore as' ! i = map atomCore as ! i" using assms(1) by simp
  then have "atomCore (as' ! i) = atomCore (as ! i)" using assms(2) l by simp
  then show "atomId (as' ! i) = atomId (as ! i)"
    "chargedAtomTypeId (as' ! i) = chargedAtomTypeId (as ! i)"
    "bond12 (as' ! i) = bond12 (as ! i)"
    by (simp_all add: atomCore_def)
qed

lemma core_graphIs:
  assumes "map atomCore as' = map atomCore as" "graphIs N as"
  shows "graphIs N as'"
proof -
  have l: "length as' = length as" using assms(1) by (rule map_eq_imp_length_eq)
  show ?thesis
    unfolding graphIs_def
  proof (intro allI impI)
    fix x assume "inRange x as'"
    then have x: "inRange x as" using l by (simp add: inRange_def)
    then have "nat x < length as" by (auto simp: inRange_def)
    from core_nth(3) [OF assms(1) this] assms(2) x
    show "set (bond12 (as' ! nat x)) = N x \<and> (\<forall>y\<in>N x. inRange y as')
        \<and> distinct (bond12 (as' ! nat x))"
      by (simp add: graphIs_def inRange_length [OF l])
  qed
qed

lemma core_idsAgree:
  assumes "map atomCore as' = map atomCore as"
  shows "idsAgree as as'"
  unfolding idsAgree_def
  using core_nth(1,2) [OF assms] map_eq_imp_length_eq [OF assms] by simp

lemma realizeConstruction_unfold:
  assumes "realizeConstruction mm = Some mm'" "\<not> topologicalCacheValid mm"
  shows "\<exists>s s5. map atomCore (atoms s) = map atomCore (atoms mm)
     \<and> chargedAtomTypes s = chargedAtomTypes mm \<and> bondStretch s = bondStretch mm
     \<and> bondBend s = bondBend mm \<and> bondTorsion s = bondTorsion mm
     \<and> list_all (\<lambda>a. bodyId a \<ge> 0) (atoms s)
     \<and> forEach realizeAtomBonds (map int [0..<length (atoms s)]) s = Some s5
     \<and> mm' = s5\<lparr>topologicalCacheValid := True\<rparr>"
proof -
  define mm1 where "mm1 = invalidateAllTopologicalCacheEntries mm"
  define mm2 where "mm2 = mm1\<lparr>atomClasses := fillVdwTable (atomClasses mm1)\<rparr>"
  from assms obtain cs bs as s5 where
    ab: "assignBodies 0 bs (map (\<lambda>a. a\<lparr>bodyId := - 1\<rparr>) (atoms (mm2\<lparr>clusters := cs\<rparr>))) = Some as"
    and all: "list_all (\<lambda>a. bodyId a \<ge> 0) as"
    and loop: "forEach realizeAtomBonds (map int [0..<length as])
                 (mm2\<lparr>clusters := cs, bodies := bs, atoms := as\<rparr>) = Some s5"
    and mm': "mm' = s5\<lparr>topologicalCacheValid := True\<rparr>"
    unfolding realizeConstruction_def Let_def mm1_def [symmetric] mm2_def [symmetric]
    by (auto simp: bind_eq_Some_conv split: if_splits)
  define s where "s = mm2\<lparr>clusters := cs, bodies := bs, atoms := as\<rparr>"
  have "map atomCore as = map atomCore (map (\<lambda>a. a\<lparr>bodyId := - 1\<rparr>) (atoms (mm2\<lparr>clusters := cs\<rparr>)))"
    by (rule assignBodies_core [OF ab])
  also have "\<dots> = map atomCore (atoms mm)"
    by (simp add: mm2_def mm1_def invalidateAllTopologicalCacheEntries_def atomCore_def
        Atom_invalidateTopologicalCache_def comp_def)
  finally have 1: "map atomCore (atoms s) = map atomCore (atoms mm)" by (simp add: s_def)
  have 2: "chargedAtomTypes s = chargedAtomTypes mm" "bondStretch s = bondStretch mm"
    "bondBend s = bondBend mm" "bondTorsion s = bondTorsion mm"
    by (simp_all add: s_def mm2_def mm1_def invalidateAllTopologicalCacheEntries_def)
  show ?thesis
    using 1 2 all loop mm' by (intro exI [of _ s] exI [of _ s5]) (simp add: s_def)
qed

lemma realizeConstruction_atoms:
  assumes r: "realizeConstruction mm = Some mm'" and nv: "\<not> topologicalCacheValid mm"
    and g: "graphIs N (atoms mm)"
  shows "length (atoms mm') = length (atoms mm)
     \<and> idsAgree (atoms mm) (atoms mm')
     \<and> chargedAtomTypes mm' = chargedAtomTypes mm \<and> bondStretch mm' = bondStretch mm
     \<and> bondBend mm' = bondBend mm \<and> bondTorsion mm' = bondTorsion mm
     \<and> list_all (\<lambda>a. bodyId a \<ge> 0) (atoms mm')
     \<and> (\<forall>x. inRange x (atoms mm) \<longrightarrow>
           chased N x (atoms mm' ! nat x) \<and> resolved mm' x (atoms mm' ! nat x))"
proof -
  from realizeConstruction_unfold [OF r nv] obtain s s5 where
    core: "map atomCore (atoms s) = map atomCore (atoms mm)"
    and same: "chargedAtomTypes s = chargedAtomTypes mm" "bondStretch s = bondStretch mm"
      "bondBend s = bondBend mm" "bondTorsion s = bondTorsion mm"
    and bodies: "list_all (\<lambda>a. bodyId a \<ge> 0) (atoms s)"
    and loop: "forEach realizeAtomBonds (map int [0..<length (atoms s)]) s = Some s5"
    and mm': "mm' = s5\<lparr>topologicalCacheValid := True\<rparr>"
    by blast
  have len: "length (atoms s) = length (atoms mm)" using core by (rule map_eq_imp_length_eq)
  have gs: "graphIs N (atoms s)" by (rule core_graphIs [OF core g])
  have d: "distinct (map int [0..<length (atoms s)])" by (simp add: distinct_map)
  have rng: "\<forall>x \<in> set (map int [0..<length (atoms s)]). inRange x (atoms s)"
    by (auto simp: inRange_def)
  from realize_loop [OF loop d rng gs] have
    l1: "s5 = s\<lparr>atoms := atoms s5\<rparr>" and l2: "idsAgree (atoms s) (atoms s5)"
    and l4: "\<And>x. inRange x (atoms s) \<Longrightarrow> bodyId (atoms s5 ! nat x) = bodyId (atoms s ! nat x)"
    and l5: "\<And>x. x \<in> set (map int [0..<length (atoms s)]) \<Longrightarrow>
         chased N x (atoms s5 ! nat x) \<and> resolved s x (atoms s5 ! nat x)"
    by blast+
  have len5: "length (atoms s5) = length (atoms s)" using l2 by (simp add: idsAgree_def)
  have a': "atoms mm' = atoms s5" by (simp add: mm')
  have ia: "idsAgree (atoms mm) (atoms mm')"
    unfolding a' by (rule idsAgree_trans [OF core_idsAgree [OF core] l2])
  have same5: "chargedAtomTypes s5 = chargedAtomTypes s" "bondStretch s5 = bondStretch s"
      "bondBend s5 = bondBend s" "bondTorsion s5 = bondTorsion s"
    by (subst l1, simp)+
  have same': "chargedAtomTypes mm' = chargedAtomTypes s" "bondStretch mm' = bondStretch s"
      "bondBend mm' = bondBend s" "bondTorsion mm' = bondTorsion s"
    by (simp_all add: mm' same5)
  have rc: "resolved mm' x A = resolved s x A" for x A
    by (rule resolved_cong) (simp_all add: a' l2 same')
  have b: "list_all (\<lambda>a. bodyId a \<ge> 0) (atoms mm')"
    unfolding a' list_all_length len5
  proof (intro allI impI)
    fix n assume n: "n < length (atoms s)"
    then have "inRange (int n) (atoms s)" by (simp add: inRange_def)
    from l4 [OF this] bodies n show "0 \<le> bodyId (atoms s5 ! n)"
      by (simp add: list_all_length)
  qed
  have main: "chased N x (atoms mm' ! nat x) \<and> resolved mm' x (atoms mm' ! nat x)"
    if "inRange x (atoms mm)" for x
  proof -
    from that have "nat x < length (atoms s)" "0 \<le> x" by (auto simp: inRange_def len)
    then have "x \<in> set (map int [0..<length (atoms s)])"
      by (auto simp: image_iff intro: bexI [of _ "nat x"])
    from l5 [OF this] show ?thesis by (simp add: a' rc)
  qed
  show ?thesis
    using ia same same' b main len len5 a' by simp
qed

lemma bondsConsistent_graphIs:
  "bondsConsistent mm \<Longrightarrow> graphIs (\<lambda>x. set (bond12 (atoms mm ! nat x))) (atoms mm)"
  unfolding bondsConsistent_def graphIs_def by blast




lemma mapM_Some:
  "mapM f xs = Some ys \<Longrightarrow> length ys = length xs \<and> (\<forall>i < length xs. f (xs ! i) = Some (ys ! i))"
proof (induction xs arbitrary: ys)
  case Nil
  then show ?case by simp
next
  case (Cons x xs)
  from Cons.prems obtain y ys' where y: "f x = Some y" "mapM f xs = Some ys'" "ys = y # ys'"
    by (auto split: option.splits)
  from Cons.IH [OF y(2)] y(1,3) show ?case by (auto simp: nth_Cons')
qed


subsection \<open>The example system, realized\<close>

lemma exampleRep_flag: "topologicalCacheValid exampleRep = False"
  by (simp add: exampleRep_def theNewRep_def addCluster_def Let_def blankRep_def)

lemma example_mixed:
  "applyMixingRule (Some 1) (Some 1) (Some 1) (Some 1) = (Some 2, Some 1)"
  by (simp add: applyMixingRule_def WH_unit Real_simps)

lemma example_table:
  "fillVdwTable (map (\<lambda>c. c\<lparr>vdwDij := [], vdwEij := []\<rparr>) (atomClasses exampleRep))
     = exampleClassesRealized"
  by (simp add: fillVdwTable_def exampleRep_def Let_def exampleClass_def AtomClass_isValid_def
      mixedWith_def example_mixed exampleClassesRealized_def upt_rec_numeral)

lemma exampleAssigned_fields:
  "atoms exampleAssigned = exampleAtomsAssigned"
  "chargedAtomTypes exampleAssigned
     = [exampleType 0 1, exampleType 1 (- 1), exampleType 2 1, exampleType 3 (- 1)]"
  "bondStretch exampleAssigned = [(1, 2) \<mapsto> mkBondStretch 100 1]"
  "bondBend exampleAssigned = [(0, 1, 2) \<mapsto> mkBondBend 1 90, (1, 2, 3) \<mapsto> mkBondBend 2 100]"
  "bondTorsion exampleAssigned = [(0, 1, 2, 3) \<mapsto> \<lparr>terms = [mkTorsionTerm 3 1 0]\<rparr>]"
  by (simp_all add: exampleAssigned_def exampleRep_def)

lemmas realize_eval = realizeAtomBonds_def Let_def extendChains_def extendOne_def mkAtom_def
  stretchFor_def bendFor_def torsionFor_def getAtomClassNum_def isValidAtom_def inRange_def
  Atom_isValid_def nth_opt_def exampleType_def getBondStretch_def getBondBend_def
  getBondTorsion_def IntPair_def IntTriple_def IntQuad_def

lemma example_loop:
  "forEach realizeAtomBonds [0, 1, 2, 3] exampleAssigned
     = Some (exampleAssigned\<lparr>atoms := exampleAtomsRealized\<rparr>)"
proof -
  define s1 where "s1 = exampleAssigned\<lparr>atoms := exampleAtomsAssigned[0 := exampleAtomsRealized ! 0]\<rparr>"
  define s2 where "s2 = exampleAssigned\<lparr>atoms := exampleAtomsAssigned
      [0 := exampleAtomsRealized ! 0, 1 := exampleAtomsRealized ! 1]\<rparr>"
  define s3 where "s3 = exampleAssigned\<lparr>atoms := exampleAtomsAssigned
      [0 := exampleAtomsRealized ! 0, 1 := exampleAtomsRealized ! 1,
       2 := exampleAtomsRealized ! 2]\<rparr>"
  have f1: "atoms s1 = exampleAtomsAssigned[0 := exampleAtomsRealized ! 0]"
    "chargedAtomTypes s1 = chargedAtomTypes exampleAssigned"
    "bondStretch s1 = bondStretch exampleAssigned"
    "bondBend s1 = bondBend exampleAssigned" "bondTorsion s1 = bondTorsion exampleAssigned"
    by (simp_all add: s1_def)
  have f2: "atoms s2 = exampleAtomsAssigned
      [0 := exampleAtomsRealized ! 0, 1 := exampleAtomsRealized ! 1]"
    "chargedAtomTypes s2 = chargedAtomTypes exampleAssigned"
    "bondStretch s2 = bondStretch exampleAssigned"
    "bondBend s2 = bondBend exampleAssigned" "bondTorsion s2 = bondTorsion exampleAssigned"
    by (simp_all add: s2_def)
  have f3: "atoms s3 = exampleAtomsAssigned
      [0 := exampleAtomsRealized ! 0, 1 := exampleAtomsRealized ! 1,
       2 := exampleAtomsRealized ! 2]"
    "chargedAtomTypes s3 = chargedAtomTypes exampleAssigned"
    "bondStretch s3 = bondStretch exampleAssigned"
    "bondBend s3 = bondBend exampleAssigned" "bondTorsion s3 = bondTorsion exampleAssigned"
    by (simp_all add: s3_def)
  have 1: "realizeAtomBonds exampleAssigned 0 = Some s1"
    unfolding s1_def
    by (simp add: realize_eval exampleAssigned_fields exampleAtomsAssigned_def
        exampleAtomsRealized_def)
  have 2: "realizeAtomBonds s1 1 = Some s2"
    unfolding s2_def
    by (simp add: realize_eval f1 exampleAssigned_fields exampleAtomsAssigned_def
        exampleAtomsRealized_def) (simp add: s1_def)
  have 3: "realizeAtomBonds s2 2 = Some s3"
    unfolding s3_def
    by (simp add: realize_eval f2 exampleAssigned_fields exampleAtomsAssigned_def
        exampleAtomsRealized_def) (simp add: s2_def)
  have 4: "realizeAtomBonds s3 3 = Some (exampleAssigned\<lparr>atoms := exampleAtomsRealized\<rparr>)"
    by (simp add: realize_eval f3 exampleAssigned_fields exampleAtomsAssigned_def
        exampleAtomsRealized_def) (simp add: s3_def)
  show ?thesis by (simp add: 1 2 3 4)
qed

lemma example_realized: "realizeConstruction exampleRep = Some exampleRealized"
proof -
  define mm2 where "mm2 = exampleRep\<lparr>topologicalCacheValid := False,
        atoms := map Atom_invalidateTopologicalCache (atoms exampleRep),
        clusters := map (\<lambda>c. c\<lparr>cluster_cacheValid := False\<rparr>) (clusters exampleRep),
        bodies := map (\<lambda>b. b\<lparr>allAtoms := []\<rparr>) (bodies exampleRep),
        atomClasses := exampleClassesRealized\<rparr>"
  have m: "(invalidateAllTopologicalCacheEntries exampleRep)
      \<lparr>atomClasses := fillVdwTable (atomClasses (invalidateAllTopologicalCacheEntries exampleRep))\<rparr>
      = mm2"
    by (simp add: invalidateAllTopologicalCacheEntries_def example_table mm2_def)
  have c: "realizeClusters (clusters mm2)
      = Some (map (\<lambda>c. c\<lparr>cluster_cacheValid := True\<rparr>) (clusters exampleRep))"
    by (simp add: realizeClusters_def mm2_def exampleRep_def Cluster_isValid_def mkCluster_def)
  have b: "mapM (\<lambda>b. if \<not> Body_isValid b then Some b
           else Body_realizeTopologicalCache
                  (mm2\<lparr>clusters := map (\<lambda>c. c\<lparr>cluster_cacheValid := True\<rparr>) (clusters exampleRep)\<rparr>) b)
         (bodies mm2) = Some exampleBodiesRealized"
    by (simp add: mm2_def exampleRep_def Body_isValid_def Body_realizeTopologicalCache_def
        isValidCluster_def inRange_def Cluster_isValid_def mkCluster_def
        exampleBodiesRealized_def)
  have a: "assignBodies 0 exampleBodiesRealized (map (\<lambda>a. a\<lparr>bodyId := - 1\<rparr>) (atoms mm2))
      = Some exampleAtomsAssigned"
    by (simp add: mm2_def exampleRep_def Body_isValid_def exampleBodiesRealized_def inRange_def
        Atom_isValid_def mkAtom_def Atom_invalidateTopologicalCache_def
        exampleAtomsAssigned_def)
  have s: "mm2\<lparr>clusters := map (\<lambda>c. c\<lparr>cluster_cacheValid := True\<rparr>) (clusters exampleRep),
              bodies := exampleBodiesRealized, atoms := exampleAtomsAssigned\<rparr> = exampleAssigned"
    by (simp add: mm2_def exampleAssigned_def exampleRep_flag)
  have l: "list_all (\<lambda>a. bodyId a \<ge> 0) exampleAtomsAssigned"
    "map int [0..<length exampleAtomsAssigned] = [0, 1, 2, 3]"
    by (simp_all add: exampleAtomsAssigned_def upt_rec_numeral)
  show ?thesis
    unfolding realizeConstruction_def Let_def m
    by (simp add: exampleRep_flag c b a s l example_loop exampleRealized_def del: forEach.simps)
qed


lemma exampleRep_consistent: "bondsConsistent exampleRep"
proof -
  have f: "atoms exampleRep = [(mkAtom 0 0)\<lparr>bond12 := [1]\<rparr>, (mkAtom 1 1)\<lparr>bond12 := [2, 0]\<rparr>,
                  (mkAtom 2 2)\<lparr>bond12 := [1, 3]\<rparr>, (mkAtom 3 3)\<lparr>bond12 := [2]\<rparr>]"
    "bonds exampleRep = [(1, 2), (0, 1), (2, 3)]"
    by (simp_all add: exampleRep_def)
  have r: "inRange a (atoms exampleRep) \<longleftrightarrow> a = 0 \<or> a = 1 \<or> a = 2 \<or> a = 3" for a
    unfolding f inRange_def by auto
  have 1: "\<forall>a. inRange a (atoms exampleRep) \<longrightarrow>
        Atom_isValid (atoms exampleRep ! nat a) \<and> distinct (bond12 (atoms exampleRep ! nat a))
        \<and> (\<forall>b \<in> set (bond12 (atoms exampleRep ! nat a)).
              inRange b (atoms exampleRep) \<and> a \<noteq> b
              \<and> a \<in> set (bond12 (atoms exampleRep ! nat b))
              \<and> (min a b, max a b) \<in> set (bonds exampleRep))"
    unfolding r by (auto simp: f mkAtom_def Atom_isValid_def)
  have 2: "\<forall>p \<in> set (bonds exampleRep).
           fst p < snd p \<and> inRange (fst p) (atoms exampleRep) \<and> inRange (snd p) (atoms exampleRep)
           \<and> snd p \<in> set (bond12 (atoms exampleRep ! nat (fst p)))"
    unfolding r by (simp add: f mkAtom_def)
  have 3: "distinct (bonds exampleRep)" by (simp add: f)
  show ?thesis unfolding bondsConsistent_def using 1 2 3 by blast
qed

lemma exampleRealized_atoms: "atoms exampleRealized = exampleAtomsRealized"
  by (simp add: exampleRealized_def)



text \<open>
  The 1-5 lists, of which the amended claim is silent: the loop that builds them extends
  each 1-4 chain from \<^verbatim>\<open>bond14[j][1]\<close>, whose bonded atoms have all been seen, so a
  realization that rebuilds the cache leaves every 1-5 list empty.
\<close>

lemma realized_bond15_empty:
  assumes r: "realizeConstruction mm = Some mm'" and nv: "\<not> topologicalCacheValid mm"
    and c: "bondsConsistent mm" and a: "inRange a (atoms mm')"
  shows "bond15 (atoms mm' ! nat a) = [] \<and> xbond15 (atoms mm' ! nat a) = []"
proof -
  define N where "N = (\<lambda>x. set (bond12 (atoms mm ! nat x)))"
  have g: "graphIs N (atoms mm)" unfolding N_def by (rule bondsConsistent_graphIs [OF c])
  from realizeConstruction_atoms [OF r nv g] have
    len: "length (atoms mm') = length (atoms mm)"
    and ch: "\<And>x. inRange x (atoms mm) \<Longrightarrow> chased N x (atoms mm' ! nat x)"
    by blast+
  have "inRange a (atoms mm)" using a by (simp add: inRange_length [OF len])
  from ch [OF this] have "bond15 (atoms mm' ! nat a) = []"
    and "set (xbond15 (atoms mm' ! nat a)) \<subseteq> set (bond15 (atoms mm' ! nat a))"
    unfolding chased_def by blast+
  then show ?thesis by simp
qed


subsection \<open>Realization: the bend parameters\<close>

text \<open>
  C3, amended. After a realization of a subsystem whose bond graph is consistent, the bend
  parameters of an atom \<open>a\<close> are as many as its cross-body 1-3 chains, and for the chain
  \<open>(m, t)\<close> at index \<open>i\<close> the parameter at index \<open>i\<close> is the catalog entry that
  \<^verbatim>\<open>getBondBend\<close> finds for the classes of \<open>a\<close>, \<open>m\<close> and \<open>t\<close> in this
  order: the key has the class of the middle atom \<open>m\<close> of the chain in the middle, and
  the class of \<open>a\<close> at an end.
\<close>

theorem bend_parameters_resolved:
  assumes r: "realizeConstruction mm = Some mm'" and nv: "\<not> topologicalCacheValid mm"
    and c: "bondsConsistent mm"
    and a: "inRange a (atoms mm')" and i: "i < length (xbond13 (atoms mm' ! nat a))"
  shows "length (bend (atoms mm' ! nat a)) = length (xbond13 (atoms mm' ! nat a))
     \<and> (\<exists>c1 c2 c3.
           getAtomClassNum mm' a = Some c1
           \<and> getAtomClassNum mm' (fst (xbond13 (atoms mm' ! nat a) ! i)) = Some c2
           \<and> getAtomClassNum mm' (snd (xbond13 (atoms mm' ! nat a) ! i)) = Some c3
           \<and> getBondBend mm' c1 c2 c3 = Some (bend (atoms mm' ! nat a) ! i)
           \<and> bondBend mm' (IntTriple c1 c2 c3 True) = Some (bend (atoms mm' ! nat a) ! i)
           \<and> fst (snd (IntTriple c1 c2 c3 True)) = c2)"
proof -
  define A where "A = atoms mm' ! nat a"
  from realizeConstruction_atoms [OF r nv bondsConsistent_graphIs [OF c]] have
    len: "length (atoms mm') = length (atoms mm)"
    and re: "\<And>x. inRange x (atoms mm) \<Longrightarrow> resolved mm' x (atoms mm' ! nat x)"
    by blast+
  have "inRange a (atoms mm)" using a by (simp add: inRange_length [OF len])
  from re [OF this] have m: "mapM (bendFor mm' a) (xbond13 A) = Some (bend A)"
    by (simp add: resolved_def A_def)
  from mapM_Some [OF m] i have l: "length (bend A) = length (xbond13 A)"
    and b: "bendFor mm' a (xbond13 A ! i) = Some (bend A ! i)"
    by (simp_all add: A_def)
  from b obtain c1 c2 c3 where k: "getAtomClassNum mm' a = Some c1"
    "getAtomClassNum mm' (fst (xbond13 A ! i)) = Some c2"
    "getAtomClassNum mm' (snd (xbond13 A ! i)) = Some c3"
    "getBondBend mm' c1 c2 c3 = Some (bend A ! i)"
    by (auto simp: bendFor_def split: Option.bind_splits)
  have mid: "fst (snd (IntTriple c1 c2 c3 True)) = c2" by (simp add: IntTriple_def)
  from k(4) have k5: "bondBend mm' (IntTriple c1 c2 c3 True) = Some (bend A ! i)"
    by (simp add: getBondBend_def)
  show ?thesis using l k k5 mid unfolding A_def by blast
qed

theorem bend_parameters_resolved_witness:
  "realizeConstruction exampleRep = Some exampleRealized
   \<and> \<not> topologicalCacheValid exampleRep \<and> bondsConsistent exampleRep
   \<and> inRange 0 (atoms exampleRealized) \<and> 0 < length (xbond13 (atoms exampleRealized ! nat 0))
   \<and> length (bend (atoms exampleRealized ! nat 0)) = length (xbond13 (atoms exampleRealized ! nat 0))
   \<and> (\<exists>c1 c2 c3.
         getAtomClassNum exampleRealized 0 = Some c1
         \<and> getAtomClassNum exampleRealized (fst (xbond13 (atoms exampleRealized ! nat 0) ! 0)) = Some c2
         \<and> getAtomClassNum exampleRealized (snd (xbond13 (atoms exampleRealized ! nat 0) ! 0)) = Some c3
         \<and> getBondBend exampleRealized c1 c2 c3 = Some (bend (atoms exampleRealized ! nat 0) ! 0)
         \<and> bondBend exampleRealized (IntTriple c1 c2 c3 True)
             = Some (bend (atoms exampleRealized ! nat 0) ! 0)
         \<and> fst (snd (IntTriple c1 c2 c3 True)) = c2)"
proof -
  have nv: "\<not> topologicalCacheValid exampleRep" by (simp add: exampleRep_flag)
  have i: "inRange 0 (atoms exampleRealized)"
    "0 < length (xbond13 (atoms exampleRealized ! nat 0))"
    by (simp_all add: exampleRealized_atoms exampleAtomsRealized_def inRange_def)
  from bend_parameters_resolved [OF example_realized nv exampleRep_consistent i]
    example_realized nv exampleRep_consistent i
  show ?thesis by blast
qed

text \<open>
  C3 as stated fails on the example: atom 0 (class 0) has the cross-body 1-3 chain
  \<open>(1, 2)\<close> through atom 1 (class 1) to atom 2 (class 2). Its bend parameter is the entry
  of the key \<open>(0, 1, 2)\<close>, whose middle class is that of atom 1; the key with the class of
  atom 0 in the middle, \<open>(1, 0, 2)\<close>, has no entry.
\<close>

theorem bend_key_middle_is_not_self:
  "realizeConstruction exampleRep = Some exampleRealized
   \<and> xbond13 (atoms exampleRealized ! nat 0) = [(1, 2)]
   \<and> getAtomClassNum exampleRealized 0 = Some 0
   \<and> getAtomClassNum exampleRealized 1 = Some 1
   \<and> getAtomClassNum exampleRealized 2 = Some 2
   \<and> bend (atoms exampleRealized ! nat 0) = [mkBondBend 1 90]
   \<and> getBondBend exampleRealized 0 1 2 = Some (mkBondBend 1 90)
   \<and> getBondBend exampleRealized 1 0 2 = None
   \<and> getBondBend exampleRealized 2 0 1 = None
   \<and> fst (snd (IntTriple 0 1 2 True)) \<noteq> 0"
proof -
  have f: "chargedAtomTypes exampleRealized
     = [exampleType 0 1, exampleType 1 (- 1), exampleType 2 1, exampleType 3 (- 1)]"
    "bondBend exampleRealized = [(0, 1, 2) \<mapsto> mkBondBend 1 90, (1, 2, 3) \<mapsto> mkBondBend 2 100]"
    by (simp_all add: exampleRealized_def exampleAssigned_def exampleRep_def)
  show ?thesis
    by (simp add: example_realized exampleRealized_atoms exampleAtomsRealized_def f
        getAtomClassNum_def isValidAtom_def inRange_def Atom_isValid_def nth_opt_def
        mkAtom_def exampleType_def getBondBend_def IntTriple_def)
qed

subsection \<open>The non-bonded pair\<close>

lemma vsub_as_vadd: "vsub a b = vadd a (vneg b)"
  by (cases a; cases b) simp

lemma vadd_cancel: "vadd (vadd a (vneg f)) (vadd b f) = vadd a b"
  by (cases a; cases b; cases f) simp

lemma lj_powers:
  fixes d :: real
  assumes "x = dij * dij * (1 / d * (1 / d))"
  shows "x * x * x = (dij / d) ^ 6" "x * x * x * (x * x * x) = (dij / d) ^ 12"
proof -
  have x: "x = (dij / d)\<^sup>2" using assms by (simp add: power2_eq_square)
  have 6: "x * x * x = (dij / d) ^ 6" unfolding x by simp
  show "x * x * x = (dij / d) ^ 6" by (rule 6)
  show "x * x * x * (x * x * x) = (dij / d) ^ 12" unfolding 6 by simp
qed

text \<open>
  C1. One pass of the innermost loop, for atom \<open>a1\<close> of body \<open>b1\<close> and an atom
  \<open>a2\<close> of a later body \<open>b2\<close> at another place, with every table entry it reads
  present: the energy grows by \<open>e\<^sub>C + e\<^sub>V\<close>, body \<open>b2\<close> receives the force
  \<open>((f\<^sub>C + f\<^sub>V) / d\<^sup>2) r\<close> and body \<open>b1\<close> its negation, so the two forces of the
  pair add up to nothing, and no other body's force changes.
\<close>

theorem nonbonded_pair_energy_force:
  assumes ne: "placedAtomId ap2 \<noteq> a1num"
    and a2: "nth_opt (atoms mm) (placedAtomId ap2) = Some a2"
    and t2: "nth_opt (chargedAtomTypes mm) (chargedAtomTypeId a2) = Some a2type"
    and c2: "nth_opt (atomClasses mm) (atomClass a2type) = Some a2class"
    and st: "station_B a2 = Some st"
    and pos: "vadd (X_T X_GB2) (rotate (X_R X_GB2) st) \<noteq> a1Pos_G"
    and cs: "nth_opt coulombScale (placedAtomId ap2) = Some cscale"
    and vs: "nth_opt vdwScale (placedAtomId ap2) = Some vscale"
    and dij: "pairParam vdwDij a1cnum a1class (atomClass a2type) a2class = Some dij"
    and eij: "pairParam vdwEij a1cnum a1class (atomClass a2type) a2class = Some eij"
    and b: "inRange b1 rbf" "inRange b2 rbf" "b1 < b2"
  shows
    "let r = vsub (vadd (X_T X_GB2) (rotate (X_R X_GB2) st)) a1Pos_G;
         d = norm3 r;
         eC = cscale * CoulombFac * q1 * partialCharge a2type / d;
         eV = vscale * eij * ((dij / d) ^ 12 - 2 * (dij / d) ^ 6);
         fC = eC;
         fV = 12 * vscale * eij * ((dij / d) ^ 12 - (dij / d) ^ 6);
         f = smul ((fC + fV) / d\<^sup>2) r
     in \<exists>rbf'.
          nonbondedPair mm a1num a1cnum a1class a1Station_G a1Pos_G (CoulombFac * q1) b1 b2
              X_GB2 vdwScale coulombScale (pe, rbf) ap2
            = Some (pe + (eC + eV), rbf')
          \<and> length rbf' = length rbf
          \<and> snd (rbf' ! nat b2) = vadd (snd (rbf ! nat b2)) f
          \<and> snd (rbf' ! nat b1) = vadd (snd (rbf ! nat b1)) (vneg f)
          \<and> vadd (snd (rbf' ! nat b1)) (snd (rbf' ! nat b2))
              = vadd (snd (rbf ! nat b1)) (snd (rbf ! nat b2))
          \<and> (\<forall>k. k \<noteq> nat b1 \<and> k \<noteq> nat b2 \<longrightarrow> rbf' ! k = rbf ! k)"
proof -
  define r where "r = vsub (vadd (X_T X_GB2) (rotate (X_R X_GB2) st)) a1Pos_G"
  define d where "d = norm3 r"
  define ood where "ood = 1 / sqrt (normSqr r)"
  define ddij2 where "ddij2 = dij * dij * (ood * ood)"
  define ddij6 where "ddij6 = ddij2 * ddij2 * ddij2"
  define eCoulomb where "eCoulomb = cscale * (CoulombFac * q1) * partialCharge a2type * ood"
  define eVdw where "eVdw = vscale * eij * (ddij6 * ddij6 - 2 * ddij6)"
  define fVdw where "fVdw = 12 * (vscale * eij) * (ddij6 * ddij6 - ddij6)"
  define fj where "fj = smul ((eCoulomb + fVdw) * (ood * ood)) r"
  define eC where "eC = cscale * CoulombFac * q1 * partialCharge a2type / d"
  define eV where "eV = vscale * eij * ((dij / d) ^ 12 - 2 * (dij / d) ^ 6)"
  define fV where "fV = 12 * vscale * eij * ((dij / d) ^ 12 - (dij / d) ^ 6)"
  define f where "f = smul ((eC + fV) / d\<^sup>2) r"
  define rbf' where "rbf' = rbf
      [nat b2 := SpatialVec_add (rbf ! nat b2) (cross (rotate (X_R X_GB2) st) fj, fj),
       nat b1 := SpatialVec_sub (rbf ! nat b1) (cross a1Station_G fj, fj)]"
  have d2: "normSqr r \<noteq> 0"
    using pos by (simp add: normSqr_def dot_self_zero_iff r_def vsub_zero_iff)
  have n: "nat b1 \<noteq> nat b2" "nat b1 < length rbf" "nat b2 < length rbf"
    using b by (auto simp: inRange_def)
  have g2: "nth_opt rbf b2 = Some (rbf ! nat b2)" using b by (simp add: nth_opt_def)
  have g1: "nth_opt (rbf[nat b2 := v]) b1 = Some (rbf ! nat b1)" for v
    using b n by (simp add: nth_opt_def inRange_def)
  have run: "nonbondedPair mm a1num a1cnum a1class a1Station_G a1Pos_G (CoulombFac * q1) b1 b2
              X_GB2 vdwScale coulombScale (pe, rbf) ap2
             = Some (pe + (eCoulomb + eVdw), rbf')"
    unfolding nonbondedPair_def Let_def rbf'_def fj_def fVdw_def eVdw_def eCoulomb_def
      ddij6_def ddij2_def ood_def r_def
    using ne d2 [unfolded r_def]
    by (simp add: a2 t2 c2 st cs vs dij eij g1 g2)
  have ood: "ood = 1 / d" by (simp add: ood_def d_def norm3_def)
  have p6: "ddij6 = (dij / d) ^ 6" and p12: "ddij6 * ddij6 = (dij / d) ^ 12"
    using lj_powers [of ddij2 dij d] by (simp_all add: ddij6_def ddij2_def ood)
  have eCk: "eCoulomb = eC" by (simp add: eCoulomb_def eC_def ood)
  have eVk: "eVdw = eV" by (simp add: eVdw_def eV_def p6 p12)
  have fVk: "fVdw = fV" by (simp add: fVdw_def fV_def p6 p12)
  have fk: "fj = f" by (simp add: fj_def f_def eCk fVk ood power2_eq_square)
  have 1: "length rbf' = length rbf" by (simp add: rbf'_def)
  have 2: "snd (rbf' ! nat b2) = vadd (snd (rbf ! nat b2)) f"
    using n by (simp add: rbf'_def SpatialVec_add_def fk)
  have 3: "snd (rbf' ! nat b1) = vadd (snd (rbf ! nat b1)) (vneg f)"
    using n by (simp add: rbf'_def SpatialVec_sub_def vsub_as_vadd fk)
  have 4: "vadd (snd (rbf' ! nat b1)) (snd (rbf' ! nat b2))
      = vadd (snd (rbf ! nat b1)) (snd (rbf ! nat b2))"
    unfolding 2 3 by (rule vadd_cancel)
  have 5: "\<forall>k. k \<noteq> nat b1 \<and> k \<noteq> nat b2 \<longrightarrow> rbf' ! k = rbf ! k"
    by (simp add: rbf'_def)
  show ?thesis
    unfolding Let_def r_def [symmetric] d_def [symmetric] eC_def [symmetric]
      eV_def [symmetric] fV_def [symmetric] f_def [symmetric]
    using run [unfolded eCk eVk] 1 2 3 4 5 by blast
qed


lemma norm3_example: "norm3 (4, 0, 0) = 4"
  unfolding norm3_def normSqr_def by (simp add: real_sqrt_unique)

lemma exampleRealized_tables:
  "atoms exampleRealized = exampleAtomsRealized"
  "chargedAtomTypes exampleRealized
     = [exampleType 0 1, exampleType 1 (- 1), exampleType 2 1, exampleType 3 (- 1)]"
  "atomClasses exampleRealized = exampleClassesRealized"
  by (simp_all add: exampleRealized_def exampleAssigned_def exampleRep_def)

theorem nonbonded_pair_energy_force_witness:
  "placedAtomId \<lparr>placedAtomId = 3, station = (1, 0, 0)\<rparr> \<noteq> 0
   \<and> nth_opt (atoms exampleRealized) 3 = Some (exampleAtomsRealized ! 3)
   \<and> nth_opt (chargedAtomTypes exampleRealized) (chargedAtomTypeId (exampleAtomsRealized ! 3))
       = Some (exampleType 3 (- 1))
   \<and> nth_opt (atomClasses exampleRealized) (atomClass (exampleType 3 (- 1)))
       = Some (exampleClassesRealized ! 3)
   \<and> station_B (exampleAtomsRealized ! 3) = Some (1, 0, 0)
   \<and> nth_opt [1, 1, 0, 1] 3 = Some (1 :: real)
   \<and> nth_opt [1, 1, 0, 1 / 2] 3 = Some (1 / 2 :: real)
   \<and> pairParam vdwDij 0 (exampleClassesRealized ! 0) 3 (exampleClassesRealized ! 3) = Some 2
   \<and> pairParam vdwEij 0 (exampleClassesRealized ! 0) 3 (exampleClassesRealized ! 3) = Some 1
   \<and> (\<exists>rbf'.
         nonbondedPair exampleRealized 0 0 (exampleClassesRealized ! 0) (0, 0, 0) (0, 0, 0)
             (CoulombFac * 1) 0 1 \<lparr>X_R = ((1, 0, 0), (0, 1, 0), (0, 0, 1)), X_T = (3, 0, 0)\<rparr>
             [1, 1, 0, 1 / 2] [1, 1, 0, 1] (0, [((0, 0, 0), (0, 0, 0)), ((0, 0, 0), (0, 0, 0))])
             \<lparr>placedAtomId = 3, station = (1, 0, 0)\<rparr>
           = Some (0 + (1 * CoulombFac * 1 * (- 1) / 4
                        + 1 / 2 * 1 * ((2 / 4) ^ 12 - 2 * (2 / 4) ^ 6)), rbf')
         \<and> snd (rbf' ! 1)
             = smul ((1 * CoulombFac * 1 * (- 1) / 4
                      + 12 * (1 / 2) * 1 * ((2 / 4) ^ 12 - (2 / 4) ^ 6)) / 4\<^sup>2) (4, 0, 0)
         \<and> snd (rbf' ! 0)
             = vneg (smul ((1 * CoulombFac * 1 * (- 1) / 4
                      + 12 * (1 / 2) * 1 * ((2 / 4) ^ 12 - (2 / 4) ^ 6)) / 4\<^sup>2) (4, 0, 0))
         \<and> vadd (snd (rbf' ! 0)) (snd (rbf' ! 1)) = (0, 0, 0))"
proof -
  let ?ap = "\<lparr>placedAtomId = 3, station = (1, 0, 0)\<rparr>"
  let ?X = "\<lparr>X_R = ((1, 0, 0), (0, 1, 0), (0, 0, 1)), X_T = (3, 0, 0)\<rparr>"
  let ?rbf = "[((0, 0, 0), (0, 0, 0)), ((0, 0, 0), (0, 0, 0))] :: SpatialVec list"
  have ne: "placedAtomId ?ap \<noteq> 0" by simp
  have a2: "nth_opt (atoms exampleRealized) (placedAtomId ?ap) = Some (exampleAtomsRealized ! 3)"
    by (simp add: nth_opt_def inRange_def exampleRealized_tables exampleAtomsRealized_def)
  have t2: "nth_opt (chargedAtomTypes exampleRealized) (chargedAtomTypeId (exampleAtomsRealized ! 3))
       = Some (exampleType 3 (- 1))"
    by (simp add: nth_opt_def inRange_def exampleRealized_tables exampleAtomsRealized_def
        mkAtom_def)
  have c2: "nth_opt (atomClasses exampleRealized) (atomClass (exampleType 3 (- 1)))
       = Some (exampleClassesRealized ! 3)"
    by (simp add: nth_opt_def inRange_def exampleRealized_tables exampleClassesRealized_def
        exampleType_def)
  have st: "station_B (exampleAtomsRealized ! 3) = Some (1, 0, 0)"
    by (simp add: exampleAtomsRealized_def)
  have pos: "vadd (X_T ?X) (rotate (X_R ?X) (1, 0, 0)) \<noteq> (0, 0, 0)"
    by (simp add: rotate_def)
  have cs: "nth_opt [1, 1, 0, 1] (placedAtomId ?ap) = Some (1 :: real)"
    by (simp add: nth_opt_def inRange_def)
  have vs: "nth_opt [1, 1, 0, 1 / 2] (placedAtomId ?ap) = Some (1 / 2 :: real)"
    by (simp add: nth_opt_def inRange_def)
  have dij: "pairParam vdwDij 0 (exampleClassesRealized ! 0) (atomClass (exampleType 3 (- 1)))
      (exampleClassesRealized ! 3) = Some 2"
    by (simp add: pairParam_def nth_opt_def inRange_def exampleClassesRealized_def
        exampleType_def)
  have eij: "pairParam vdwEij 0 (exampleClassesRealized ! 0) (atomClass (exampleType 3 (- 1)))
      (exampleClassesRealized ! 3) = Some 1"
    by (simp add: pairParam_def nth_opt_def inRange_def exampleClassesRealized_def
        exampleType_def)
  have b: "inRange 0 ?rbf" "inRange 1 ?rbf" "(0 :: int) < 1" by (simp_all add: inRange_def)
  have r: "vsub (vadd (X_T ?X) (rotate (X_R ?X) (1, 0, 0))) (0, 0, 0) = (4, 0, 0)"
    by (simp add: rotate_def)
  have q: "partialCharge (exampleType 3 (- 1)) = - 1" "atomClass (exampleType 3 (- 1)) = 3"
    by (simp_all add: exampleType_def)
  note w = nonbonded_pair_energy_force [OF ne a2 t2 c2 st pos cs vs dij eij b,
      where a1Station_G = "(0, 0, 0)" and ?q1.0 = 1 and pe = 0,
      unfolded Let_def r norm3_example q]
  from w obtain rbf' where
    1: "nonbondedPair exampleRealized 0 0 (exampleClassesRealized ! 0) (0, 0, 0) (0, 0, 0)
             (CoulombFac * 1) 0 1 ?X [1, 1, 0, 1 / 2] [1, 1, 0, 1] (0, ?rbf) ?ap
           = Some (0 + (1 * CoulombFac * 1 * (- 1) / 4
                        + 1 / 2 * 1 * ((2 / 4) ^ 12 - 2 * (2 / 4) ^ 6)), rbf')"
    and 2: "snd (rbf' ! nat 1) = vadd (snd (?rbf ! nat 1))
              (smul ((1 * CoulombFac * 1 * (- 1) / 4
                      + 12 * (1 / 2) * 1 * ((2 / 4) ^ 12 - (2 / 4) ^ 6)) / 4\<^sup>2) (4, 0, 0))"
    and 3: "snd (rbf' ! nat 0) = vadd (snd (?rbf ! nat 0))
              (vneg (smul ((1 * CoulombFac * 1 * (- 1) / 4
                      + 12 * (1 / 2) * 1 * ((2 / 4) ^ 12 - (2 / 4) ^ 6)) / 4\<^sup>2) (4, 0, 0)))"
    and 4: "vadd (snd (rbf' ! nat 0)) (snd (rbf' ! nat 1))
              = vadd (snd (?rbf ! nat 0)) (snd (?rbf ! nat 1))"
    by blast
  have s2: "snd (rbf' ! 1)
             = smul ((1 * CoulombFac * 1 * (- 1) / 4
                      + 12 * (1 / 2) * 1 * ((2 / 4) ^ 12 - (2 / 4) ^ 6)) / 4\<^sup>2) (4, 0, 0)"
    using 2 by simp
  have s3: "snd (rbf' ! 0)
             = vneg (smul ((1 * CoulombFac * 1 * (- 1) / 4
                      + 12 * (1 / 2) * 1 * ((2 / 4) ^ 12 - (2 / 4) ^ 6)) / 4\<^sup>2) (4, 0, 0))"
    using 3 by simp
  have s4: "vadd (snd (rbf' ! 0)) (snd (rbf' ! 1)) = (0, 0, 0)"
    using 4 by simp
  have h: "nth_opt (atoms exampleRealized) 3 = Some (exampleAtomsRealized ! 3)"
    "nth_opt [1, 1, 0, 1] 3 = Some (1 :: real)"
    "nth_opt [1, 1, 0, 1 / 2] 3 = Some (1 / 2 :: real)"
    "pairParam vdwDij 0 (exampleClassesRealized ! 0) 3 (exampleClassesRealized ! 3) = Some 2"
    "pairParam vdwEij 0 (exampleClassesRealized ! 0) 3 (exampleClassesRealized ! 3) = Some 1"
    using a2 cs vs dij eij by (simp_all add: q)
  show ?thesis using ne h t2 c2 st 1 s2 s3 s4 by blast
qed


subsection \<open>The scale factors and the torsion catalog on the example\<close>

theorem scale_unscale_roundtrip_witness:
  "scaledIndices (exampleAtomsRealized ! 0) = [2, 3]
   \<and> scaleBondedAtoms exampleRealized (exampleAtomsRealized ! 0) (replicate 4 1, replicate 4 1)
       = ([1, 1, 0, 1 / 2], [1, 1, 0, 1])
   \<and> unscaleBondedAtoms exampleRealized (exampleAtomsRealized ! 0)
         (scaleBondedAtoms exampleRealized (exampleAtomsRealized ! 0)
            (replicate 4 1, replicate 4 1))
       = (replicate 4 1, replicate 4 1)"
proof -
  have i: "scaledIndices (exampleAtomsRealized ! 0) = [2, 3]"
    by (simp add: scaledIndices_def exampleAtomsRealized_def mkAtom_def)
  have h: "\<forall>ix \<in> set (scaledIndices (exampleAtomsRealized ! 0)). 0 \<le> ix \<and> ix < int 4"
    unfolding i by simp
  have f: "vdwScale12 exampleRealized = 0" "coulombScale12 exampleRealized = 0"
    "vdwScale13 exampleRealized = 0" "coulombScale13 exampleRealized = 0"
    "vdwScale14 exampleRealized = 1 / 2" "coulombScale14 exampleRealized = 1"
    "vdwScale15 exampleRealized = 1" "coulombScale15 exampleRealized = 1"
    by (simp_all add: exampleRealized_def exampleAssigned_def exampleRep_def theNewRep_def
        addCluster_def Let_def blankRep_def)
  have s: "scaleBondedAtoms exampleRealized (exampleAtomsRealized ! 0)
      (replicate 4 1, replicate 4 1) = ([1, 1, 0, 1 / 2], [1, 1, 0, 1])"
    by (simp add: scaleBondedAtoms_def Let_def f setScale_def exampleAtomsRealized_def
        mkAtom_def numeral_eq_Suc)
  from scale_unscale_roundtrip [OF h, of exampleRealized] i s show ?thesis by simp
qed

theorem defineBondTorsion_fails_iff_witness:
  "defineBondTorsion exampleRep 3 2 1 0 1 1 0 (- 1) 0 0 (- 1) 0 0
     = (Some ApiArgCheckFailed, exampleRep)
   \<and> defineBondTorsion exampleRep 0 1 1 0 2 1 0 2 3 180 (- 1) 0 0
     = (Some ApiArgCheckFailed, exampleRep)
   \<and> defineBondTorsion exampleRep 0 1 1 0 7 1 0 (- 1) 0 0 (- 1) 0 0
     = (Some ApiArgCheckFailed, exampleRep)
   \<and> defineBondTorsion exampleRep 0 1 1 4 1 1 0 (- 1) 0 0 (- 1) 0 0
     = (Some ApiArgCheckFailed, exampleRep)
   \<and> defineBondTorsion exampleRep 0 1 1 0 (- 1) 0 0 (- 1) 0 0 (- 1) 0 0
     = (Some ApiArgCheckFailed, exampleRep)
   \<and> defineBondTorsion exampleRep 0 1 1 0 1 1 0 (- 1) 0 0 2 3 180
     = (None, exampleRep\<lparr>bondTorsion := (bondTorsion exampleRep)
          ((0, 1, 1, 0) \<mapsto> \<lparr>terms = [mkTorsionTerm 1 1 0, mkTorsionTerm 2 3 180]\<rparr>)\<rparr>)"
proof -
  have v: "isValidAtomClass exampleRep 0" "isValidAtomClass exampleRep 1"
    "isValidAtomClass exampleRep 2" "isValidAtomClass exampleRep 3"
    "\<not> isValidAtomClass exampleRep 4"
    by (simp_all add: isValidAtomClass_def inRange_def exampleRep_def exampleClass_def
        AtomClass_isValid_def)
  have t: "bondTorsion exampleRep = [(0, 1, 2, 3) \<mapsto> \<lparr>terms = [mkTorsionTerm 3 1 0]\<rparr>]"
    by (simp add: exampleRep_def)
  have k: "IntQuad 3 2 1 0 True = (0, 1, 2, 3)" "IntQuad 0 1 1 0 True = (0, 1, 1, 0)"
    by (simp_all add: IntQuad_def)
  show ?thesis
    using defineBondTorsion_fails_iff [of exampleRep 3 2 1 0 1 1 0 "- 1" 0 0 "- 1" 0 0]
      defineBondTorsion_fails_iff [of exampleRep 0 1 1 0 2 1 0 2 3 180 "- 1" 0 0]
      defineBondTorsion_fails_iff [of exampleRep 0 1 1 0 7 1 0 "- 1" 0 0 "- 1" 0 0]
      defineBondTorsion_fails_iff [of exampleRep 0 1 1 4 1 1 0 "- 1" 0 0 "- 1" 0 0]
      defineBondTorsion_fails_iff [of exampleRep 0 1 1 0 "- 1" 0 0 "- 1" 0 0 "- 1" 0 0]
      defineBondTorsion_fails_iff [of exampleRep 0 1 1 0 1 1 0 "- 1" 0 0 2 3 180]
    by (simp add: v t k)
qed

subsection \<open>Realized atoms and the scratch vectors\<close>

text \<open>
  The atoms that realization leaves are atoms that C6 speaks of: every cross-body chain ends
  at an atom number of the subsystem.
\<close>

lemma realized_scaledIndices:
  assumes r: "realizeConstruction mm = Some mm'" and nv: "\<not> topologicalCacheValid mm"
    and c: "bondsConsistent mm" and a: "inRange a (atoms mm')"
  shows "\<forall>ix \<in> set (scaledIndices (atoms mm' ! nat a)). 0 \<le> ix \<and> ix < int (length (atoms mm'))"
proof -
  define N where "N = (\<lambda>x. set (bond12 (atoms mm ! nat x)))"
  define A where "A = atoms mm' ! nat a"
  have g: "graphIs N (atoms mm)" unfolding N_def by (rule bondsConsistent_graphIs [OF c])
  from realizeConstruction_atoms [OF r nv g] have
    len: "length (atoms mm') = length (atoms mm)"
    and ch: "\<And>x. inRange x (atoms mm) \<Longrightarrow> chased N x (atoms mm' ! nat x)"
    by blast+
  have a0: "inRange a (atoms mm)" using a by (simp add: inRange_length [OF len])
  have R: "\<And>x y. inRange x (atoms mm) \<Longrightarrow> y \<in> N x \<Longrightarrow> inRange y (atoms mm)"
    using g unfolding graphIs_def by blast
  have r2: "inRange y (atoms mm)" if "y \<in> dist2 N a" for y
    using that R a0 unfolding dist2_def by blast
  have r3: "inRange y (atoms mm)" if "y \<in> dist3 N a" for y
    using that R r2 unfolding dist3_def by blast
  have cA: "chased N a A" unfolding A_def by (rule ch [OF a0])
  have b13: "snd ` set (bond13 A) = dist2 N a"
    and b14: "(\<lambda>q. snd (snd q)) ` set (bond14 A) = dist3 N a"
    and b15: "bond15 A = []" and b12: "set (bond12 A) = N a"
    and s12: "set (xbond12 A) \<subseteq> set (bond12 A)" and s13: "set (xbond13 A) \<subseteq> set (bond13 A)"
    and s14: "set (xbond14 A) \<subseteq> set (bond14 A)" and s15: "set (xbond15 A) \<subseteq> set (bond15 A)"
    using cA unfolding chased_def by blast+
  have x12: "inRange ix (atoms mm)" if "ix \<in> set (xbond12 A)" for ix
    using that s12 b12 R [OF a0] by blast
  have x13: "inRange ix (atoms mm)" if "ix \<in> snd ` set (xbond13 A)" for ix
  proof -
    from that s13 have "ix \<in> snd ` set (bond13 A)" by blast
    then show ?thesis unfolding b13 by (rule r2)
  qed
  have x14: "inRange ix (atoms mm)" if "ix \<in> (\<lambda>q. snd (snd q)) ` set (xbond14 A)" for ix
  proof -
    from that s14 have "ix \<in> (\<lambda>q. snd (snd q)) ` set (bond14 A)" by blast
    then show ?thesis unfolding b14 by (rule r3)
  qed
  have x15: "xbond15 A = []" using s15 b15 by simp
  have "inRange ix (atoms mm)" if "ix \<in> set (scaledIndices A)" for ix
  proof -
    from that have "ix \<in> set (xbond12 A) \<or> ix \<in> snd ` set (xbond13 A)
        \<or> ix \<in> (\<lambda>q. snd (snd q)) ` set (xbond14 A)"
      unfolding scaledIndices_def x15 by (simp add: image_iff)
    then show ?thesis using x12 x13 x14 by blast
  qed
  then show ?thesis unfolding A_def len by (simp add: inRange_def)
qed

end
